theory Spec2Isabelle
  imports Main "HOL-Library.Word"
begin

section \<open>The Minecraft connection of minecraft/conn.go\<close>

text \<open>
  A shallow embedding of \<^verbatim>\<open>minecraft/conn.go\<close>. The connection is a record that every
  method takes and returns. A Go \<^verbatim>\<open>error\<close> is a value of the datatype \<open>error\<close>,
  \<^verbatim>\<open>nil\<close> is \<open>None\<close>. A method that can wait on a channel or dereference a nil
  pointer returns an \<open>outcome\<close>: \<open>Done\<close> with its result, \<open>Blocks\<close> when it
  never returns, \<open>Panics\<close> when the Go runtime panics.

  Functions of other packages (the packet codec, the JWT and login helpers, the elliptic
  curve, the hash, the transport) are not part of the file. They are the fields of the
  record \<open>Env\<close>, which every method that calls one of them takes as its first argument;
  nothing is assumed about them unless a theorem says so. Logging and the optional
  \<^verbatim>\<open>packetFunc\<close> observer do not change the connection and are left out.
\<close>

subsection \<open>Bytes, errors, outcomes\<close>

type_synonym byte = "8 word"
type_synonym bytes = "byte list"
type_synonym int32 = "32 word"
type_synonym int64 = "64 word"

text \<open>
  \<^verbatim>\<open>errors.New(s)\<close> is \<open>New s\<close> and \<^verbatim>\<open>fmt.Errorf(format, args...)\<close> is
  \<open>Errorf format args\<close>: the format string is kept as written and the arguments are
  kept as values, so no number formatting is modelled.
\<close>

datatype error = New string | Errorf string "arg list"
  and arg = AStr string | AInt int | AErr error

datatype 'a outcome = Done 'a | Blocks | Panics

subsection \<open>Time\<close>

text \<open>
  A \<^verbatim>\<open>time.Time\<close> is an instant, in nanoseconds since January 1 of year 1 UTC (the
  instant of the zero value \<^verbatim>\<open>time.Time{}\<close>), and a location pointer, nil in the zero
  value. \<^verbatim>\<open>==\<close> on two times compares both. The monotonic clock reading is left out:
  the zero value has none, and \<^verbatim>\<open>Before\<close> then compares the instants.
\<close>

record Time =
  instant :: int
  loc :: "nat option"

definition TimeZero :: Time where
  "TimeZero = \<lparr>instant = 0, loc = None\<rparr>"

definition Before :: "Time \<Rightarrow> Time \<Rightarrow> bool" where
  "Before t u = (instant t < instant u)"

text \<open>A \<^verbatim>\<open>time.Duration\<close> is an int64 of nanoseconds; \<^verbatim>\<open>Sub\<close> saturates.\<close>

definition maxDuration :: int where
  "maxDuration = 2 ^ 63 - 1"

definition minDuration :: int where
  "minDuration = - (2 ^ 63)"

definition Sub :: "Time \<Rightarrow> Time \<Rightarrow> int" where
  "Sub t u = max minDuration (min maxDuration (instant t - instant u))"

definition Hour :: int where
  "Hour = 3600 * 1000000000"

text \<open>
  \<^verbatim>\<open>time.After(d)\<close>, called at the instant \<open>at\<close>, is a channel that delivers one value
  at the instant \<open>at + d\<close>. The model keeps that instant.
\<close>

definition After :: "int \<Rightarrow> int \<Rightarrow> int" where
  "After at d = at + d"

subsection \<open>Keys, packs and packets\<close>

type_synonym key = "256 word"

record PublicKey =
  Curve :: string
  X :: int
  Y :: int

record PrivateKey =
  PublicKey :: PublicKey
  D :: int

datatype IdentityData = IdentityData string string string

datatype ClientData = ClientData string

text \<open>
  Modelled from the spec: \<^verbatim>\<open>resource.Pack\<close> is declared in the package
  \<^verbatim>\<open>minecraft/resource\<close>, which is not among the sources. The spec describes it as an
  opaque blob with a UUID, a version string, a byte length, the classifiers
  \<^verbatim>\<open>HasBehaviours\<close> and \<^verbatim>\<open>HasScripts\<close>, and random-access byte reads at an offset
  that report end-of-content on a short read.
\<close>

record Pack =
  pack_uuid :: string
  pack_version :: string
  pack_content :: bytes
  pack_scripts :: bool
  pack_behaviours :: bool

definition UUID :: "Pack \<Rightarrow> string" where
  "UUID pack = pack_uuid pack"

definition Version :: "Pack \<Rightarrow> string" where
  "Version pack = pack_version pack"

definition Len :: "Pack \<Rightarrow> nat" where
  "Len pack = length (pack_content pack)"

definition HasScripts :: "Pack \<Rightarrow> bool" where
  "HasScripts pack = pack_scripts pack"

definition HasBehaviours :: "Pack \<Rightarrow> bool" where
  "HasBehaviours pack = pack_behaviours pack"

definition EOF :: error where
  "EOF = New ''EOF''"

text \<open>
  \<open>ReadAt pack b off\<close> reads into the buffer \<open>b\<close> from offset \<open>off\<close> and returns the
  buffer, the number of bytes read and the error: \<open>EOF\<close> exactly when fewer than
  \<open>length b\<close> bytes were left.
\<close>

definition ReadAt :: "Pack \<Rightarrow> bytes \<Rightarrow> int64 \<Rightarrow> bytes \<times> nat \<times> error option" where
  "ReadAt pack b off =
     (if sint off < 0 then (b, 0, Some (New ''negative offset''))
      else if int (Len pack) \<le> sint off then (b, 0, Some EOF)
      else
        let src = drop (nat (sint off)) (pack_content pack);
            n = min (length b) (length src)
        in (take n src @ drop n b, n, if n < length b then Some EOF else None))"

text \<open>
  The packet identifiers, play statuses and pack responses are constants of the package
  \<^verbatim>\<open>minecraft/protocol/packet\<close>, whose numeric values are not among the sources. Each
  is a datatype of the names the file uses, with one more constructor for every other
  value; only the distinctness of the named constants is taken from the package.
\<close>

datatype PacketID =
    IDLogin | IDPlayStatus | IDServerToClientHandshake | IDClientToServerHandshake
  | IDDisconnect | IDResourcePacksInfo | IDResourcePackStack | IDResourcePackClientResponse
  | IDStartGame | IDRequestChunkRadius | IDResourcePackDataInfo | IDResourcePackChunkData
  | IDResourcePackChunkRequest | IDOther "32 word"

datatype PlayStatusCode =
    PlayStatusLoginSuccess | PlayStatusLoginFailedClient | PlayStatusLoginFailedServer
  | PlayStatusPlayerSpawn | PlayStatusLoginFailedInvalidTenant
  | PlayStatusLoginFailedVanillaEdu | PlayStatusLoginFailedEduVanilla
  | PlayStatusLoginFailedServerFull | PlayStatusOther int32

datatype PackResponse =
    PackResponseRefused | PackResponseSendPacks | PackResponseAllPacksDownloaded
  | PackResponseCompleted | PackResponseOther byte

text \<open>
  The packet structs, with the fields the file reads or writes, in this order:
  \<^item> \<open>ResourcePack uuid version size hasScripts\<close>, an entry of a pack list;
  \<^item> \<open>Login clientProtocol connectionRequest\<close>;
  \<^item> \<open>PlayStatus status\<close>; \<open>ServerToClientHandshake jwt\<close>; \<open>Disconnect message\<close>;
  \<^item> \<open>ResourcePacksInfo texturePackRequired hasScripts behaviourPacks texturePacks\<close>;
  \<^item> \<open>ResourcePackStack texturePackRequired behaviourPacks texturePacks\<close>;
  \<^item> \<open>ResourcePackClientResponse response packsToDownload\<close>;
  \<^item> \<open>ResourcePackDataInfo uuid dataChunkSize chunkCount size\<close>;
  \<^item> \<open>ResourcePackChunkData uuid chunkIndex dataOffset data\<close>;
  \<^item> \<open>ResourcePackChunkRequest uuid chunkIndex\<close>.
\<close>

datatype ResourcePack = ResourcePack string string int64 bool

datatype Login = Login int32 bytes

datatype PlayStatus = PlayStatus PlayStatusCode

datatype ServerToClientHandshake = ServerToClientHandshake bytes

datatype Disconnect = Disconnect string

datatype ResourcePacksInfo = ResourcePacksInfo bool bool "ResourcePack list" "ResourcePack list"

datatype ResourcePackStack = ResourcePackStack bool "ResourcePack list" "ResourcePack list"

datatype ResourcePackClientResponse = ResourcePackClientResponse PackResponse "string list"

datatype ResourcePackDataInfo = ResourcePackDataInfo string int32 int32 int64

datatype ResourcePackChunkData = ResourcePackChunkData string int32 int64 bytes

datatype ResourcePackChunkRequest = ResourcePackChunkRequest string int32

text \<open>
  \<^verbatim>\<open>packet.Packet\<close>: one constructor for each type the switch of \<^verbatim>\<open>handleIncoming\<close>
  names, and \<open>PkOther\<close> for \<^verbatim>\<open>*packet.Unknown\<close> and every other packet type of the pool,
  with its identifier and payload.
\<close>

datatype Packet =
    PkLogin Login
  | PkClientToServerHandshake
  | PkResourcePackClientResponse ResourcePackClientResponse
  | PkResourcePackChunkRequest ResourcePackChunkRequest
  | PkRequestChunkRadius
  | PkServerToClientHandshake ServerToClientHandshake
  | PkPlayStatus PlayStatus
  | PkResourcePacksInfo ResourcePacksInfo
  | PkResourcePackDataInfo ResourcePackDataInfo
  | PkResourcePackChunkData ResourcePackChunkData
  | PkResourcePackStack ResourcePackStack
  | PkStartGame
  | PkDisconnect Disconnect
  | PkOther PacketID bytes

fun ID :: "Packet \<Rightarrow> PacketID" where
  "ID (PkLogin _) = IDLogin"
| "ID PkClientToServerHandshake = IDClientToServerHandshake"
| "ID (PkResourcePackClientResponse _) = IDResourcePackClientResponse"
| "ID (PkResourcePackChunkRequest _) = IDResourcePackChunkRequest"
| "ID PkRequestChunkRadius = IDRequestChunkRadius"
| "ID (PkServerToClientHandshake _) = IDServerToClientHandshake"
| "ID (PkPlayStatus _) = IDPlayStatus"
| "ID (PkResourcePacksInfo _) = IDResourcePacksInfo"
| "ID (PkResourcePackDataInfo _) = IDResourcePackDataInfo"
| "ID (PkResourcePackChunkData _) = IDResourcePackChunkData"
| "ID (PkResourcePackStack _) = IDResourcePackStack"
| "ID PkStartGame = IDStartGame"
| "ID (PkDisconnect _) = IDDisconnect"
| "ID (PkOther pid _) = pid"

subsection \<open>The resource pack queue\<close>

text \<open>
  Modelled from the spec: \<^verbatim>\<open>resourcePackQueue\<close> and \<^verbatim>\<open>downloadingPack\<close> are declared
  in another file of the package, which is not among the sources. The fields are the ones
  \<^verbatim>\<open>conn.go\<close> uses (\<open>size'\<close> is the field \<^verbatim>\<open>size\<close>); \<open>packsToDownload\<close> stands for
  the state that the queue's own methods keep between calls.

  \<open>newFrag\<close> is the unbuffered channel on which the fetcher goroutine of
  \<^verbatim>\<open>handleResourcePackDataInfo\<close> receives the next fragment. Its value is the state of
  that goroutine: \<open>Some (i, chunkCount)\<close> when it waits at \<^verbatim>\<open><-downloadingPack.newFrag\<close>
  in iteration \<open>i\<close> of its loop, \<open>None\<close> when no goroutine receives.
\<close>

record downloadingPack =
  size' :: int64
  buf :: bytes
  chunkSize :: int32
  expectedIndex :: int32
  newFrag :: "(int32 \<times> int32) option"

record resourcePackQueue =
  packs :: "Pack list"
  currentPack :: "Pack option"
  currentOffset :: int64
  packAmount :: int
  downloadingPacks :: "string \<rightharpoonup> downloadingPack"
  awaitingPacks :: "string \<rightharpoonup> downloadingPack"
  packsToDownload :: "(string \<times> Pack) list"

subsection \<open>The connection\<close>

text \<open>
  The fields of \<^verbatim>\<open>Conn\<close>. The encoder and the decoder are the key their encryption was
  enabled with, if any. The transport is the list \<open>sent\<close> of batches handed to the
  encoder and the count \<open>transportClosed\<close> of calls of its \<^verbatim>\<open>Close\<close>. The channel
  \<open>packets\<close> is the list of queued payloads, oldest first, of capacity 32. The channel
  \<open>readDeadline\<close> is the instant at which its timer delivers, \<open>None\<close> for the nil
  channel and for a timer whose value was already received. The channel \<open>close\<close> is the
  number of tokens it holds. The unbuffered channel \<open>connected\<close> is the number
  \<open>connectedRecv\<close> of goroutines waiting to receive from it and the number
  \<open>connectedSent\<close> of values delivered. The mutex \<open>sendMutex\<close> is \<open>True\<close> while a
  goroutine is between its \<^verbatim>\<open>Lock\<close> and its \<^verbatim>\<open>Unlock\<close>.
\<close>

record Conn =
  encoderKey :: "key option"
  decoderKey :: "key option"
  sent :: "bytes list list"
  transportClosed :: nat
  identityData :: IdentityData
  clientData :: ClientData
  privateKey :: PrivateKey
  salt :: bytes
  packets :: "bytes list"
  readDeadline :: "int option"
  sendMutex :: bool
  bufferedSend :: "bytes list"
  loggedIn :: bool
  expectedIDs :: "PacketID list"
  resourcePacks :: "Pack list"
  texturePacksRequired :: bool
  packQueue :: "resourcePackQueue option"
  connectedRecv :: nat
  connectedSent :: nat
  close :: nat

text \<open>
  The functions and constants of other packages and files that \<^verbatim>\<open>conn.go\<close> calls:
  \<^item> \<open>CurrentProtocol\<close> is \<^verbatim>\<open>protocol.CurrentProtocol\<close>, \<open>RemoteAddr\<close> the printed
    \<^verbatim>\<open>conn.RemoteAddr()\<close>;
  \<^item> \<open>HeaderWrite\<close> is \<^verbatim>\<open>(*packet.Header).Write\<close>, the header bytes or the error, and
    \<open>Marshal\<close> the packet's \<^verbatim>\<open>Marshal\<close>;
  \<^item> \<open>Unmarshal\<close> is what \<^verbatim>\<open>ReadPacket\<close> does with a payload: read the header, look the
    identifier up in the pool, unmarshal the packet; \<open>None\<close> when the header or the
    packet does not decode;
  \<^item> \<open>Encode\<close> is \<^verbatim>\<open>(*packet.Encoder).Encode\<close> under the key of the encoder, and
    \<open>TransportClose\<close> is \<^verbatim>\<open>conn.conn.Close()\<close>: the error, if any;
  \<^item> \<open>Verify\<close> and \<open>Decode\<close> are \<^verbatim>\<open>login.Verify\<close> and \<^verbatim>\<open>login.Decode\<close>,
    \<open>ValidateIdentity\<close> and \<open>ValidateClient\<close> the two \<^verbatim>\<open>Validate\<close> methods;
  \<^item> \<open>MarshalPublicKey\<close>, \<open>JWTNew\<close>, \<open>HeaderFrom\<close>, \<open>AllowedAlg\<close>,
    \<open>ParsePublicKey\<close>, \<open>JWTVerify\<close> and \<open>Payload\<close> are the functions of the package
    \<^verbatim>\<open>jwt\<close>; \<open>UnmarshalHeader\<close> and \<open>UnmarshalPayload\<close> are \<^verbatim>\<open>json.Unmarshal\<close> into
    a \<^verbatim>\<open>jwt.Header\<close> and into a map of strings;
  \<^item> \<open>StdEncodeToString\<close> and \<open>RawStdDecodeString\<close> are the two base64 codecs;
  \<^item> \<open>ScalarMult\<close> is \<^verbatim>\<open>Curve.ScalarMult\<close> of the curve named, on a point and a
    big-endian scalar, and \<open>Sum256\<close> is \<^verbatim>\<open>sha256.Sum256\<close>;
  \<^item> \<open>FromBytes\<close> is \<^verbatim>\<open>resource.FromBytes\<close>;
  \<^item> \<open>Request\<close>, \<open>NextPack\<close> and \<open>AllDownloaded\<close> are the methods of
    \<^verbatim>\<open>resourcePackQueue\<close>.
\<close>

record JWTHeader =
  Algorithm :: string
  X5U :: string

record Env =
  CurrentProtocol :: int32
  RemoteAddr :: string
  HeaderWrite :: "PacketID \<Rightarrow> error + bytes"
  Marshal :: "Packet \<Rightarrow> bytes"
  Unmarshal :: "bytes \<Rightarrow> Packet option"
  Encode :: "key option \<Rightarrow> bytes list \<Rightarrow> error option"
  TransportClose :: "error option"
  Verify :: "bytes \<Rightarrow> error + (PublicKey \<times> bool)"
  Decode :: "bytes \<Rightarrow> IdentityData \<times> ClientData \<times> error option"
  ValidateIdentity :: "IdentityData \<Rightarrow> error option"
  ValidateClient :: "ClientData \<Rightarrow> error option"
  MarshalPublicKey :: "PublicKey \<Rightarrow> error + string"
  JWTNew :: "JWTHeader \<Rightarrow> (string \<times> string) list \<Rightarrow> PrivateKey \<Rightarrow> error + bytes"
  HeaderFrom :: "bytes \<Rightarrow> error + bytes"
  UnmarshalHeader :: "bytes \<Rightarrow> error + JWTHeader"
  AllowedAlg :: "string \<Rightarrow> bool"
  ParsePublicKey :: "string \<Rightarrow> error + PublicKey"
  JWTVerify :: "bytes \<Rightarrow> PublicKey \<Rightarrow> bool \<Rightarrow> error option"
  Payload :: "bytes \<Rightarrow> bytes"
  UnmarshalPayload :: "bytes \<Rightarrow> error + (string \<rightharpoonup> string)"
  StdEncodeToString :: "bytes \<Rightarrow> string"
  RawStdDecodeString :: "string \<Rightarrow> error + bytes"
  ScalarMult :: "string \<Rightarrow> int \<times> int \<Rightarrow> bytes \<Rightarrow> int \<times> int"
  Sum256 :: "bytes \<Rightarrow> key"
  FromBytes :: "bytes \<Rightarrow> error + Pack"
  Request :: "string list \<Rightarrow> resourcePackQueue \<Rightarrow> error option \<times> resourcePackQueue"
  NextPack :: "resourcePackQueue \<Rightarrow> ResourcePackDataInfo option \<times> resourcePackQueue"
  AllDownloaded :: "resourcePackQueue \<Rightarrow> bool"

text \<open>
  \<^verbatim>\<open>newConn\<close>: the key passed, or the generated one when nil is passed, and the random
  salt. The client role replaces \<open>expectedIDs\<close> after the call.
\<close>

definition newConn :: "PrivateKey option \<Rightarrow> PrivateKey \<Rightarrow> bytes \<Rightarrow> Conn" where
  "newConn key generated randomSalt =
     \<lparr>encoderKey = None, decoderKey = None, sent = [], transportClosed = 0,
      identityData = IdentityData [] [] [], clientData = ClientData [],
      privateKey = (case key of None \<Rightarrow> generated | Some k \<Rightarrow> k),
      salt = randomSalt, packets = [], readDeadline = None, sendMutex = False,
      bufferedSend = [],
      loggedIn = False, expectedIDs = [IDLogin], resourcePacks = [],
      texturePacksRequired = False, packQueue = None, connectedRecv = 0,
      connectedSent = 0, close = 0\<rparr>"

definition expect :: "PacketID list \<Rightarrow> Conn \<Rightarrow> Conn" where
  "expect packetIDs conn = conn\<lparr>expectedIDs := packetIDs\<rparr>"

subsection \<open>Writing, flushing, closing\<close>

text \<open>
  \<^verbatim>\<open>Write\<close> and \<^verbatim>\<open>Flush\<close> take \<open>sendMutex\<close> in their first statement and release it
  when they return. \<open>Write\<close> and \<open>Flush\<close> below are the two methods from the moment
  \<^verbatim>\<open>Lock\<close> has returned: on a connection whose mutex is free, which is every connection
  between two calls made one after the other, they are the whole call. The calls with
  their \<^verbatim>\<open>Lock\<close> and deferred \<^verbatim>\<open>Unlock\<close>, as a goroutine makes them while others
  run, are \<open>lockedWrite\<close> and \<open>lockedFlush\<close> further down.
\<close>

definition Write :: "bytes \<Rightarrow> Conn \<Rightarrow> (nat \<times> error option) \<times> Conn" where
  "Write b conn = ((length b, None), conn\<lparr>bufferedSend := bufferedSend conn @ [b]\<rparr>)"

definition WritePacket :: "Env \<Rightarrow> Packet \<Rightarrow> Conn \<Rightarrow> error option \<times> Conn" where
  "WritePacket env pk conn =
     (case HeaderWrite env (ID pk) of
        Inl err \<Rightarrow> (Some (Errorf ''error writing packet header: %v'' [AErr err]), conn)
      | Inr header \<Rightarrow>
          (case Write (header @ Marshal env pk) conn of ((n, err), conn') \<Rightarrow> (err, conn')))"

definition Flush :: "Env \<Rightarrow> Conn \<Rightarrow> error option \<times> Conn" where
  "Flush env conn =
     (if length (bufferedSend conn) > 0 then
        (case Encode env (encoderKey conn) (bufferedSend conn) of
           Some err \<Rightarrow> (Some (Errorf ''error encoding packet batch: %v'' [AErr err]), conn)
         | None \<Rightarrow> (None, conn\<lparr>sent := sent conn @ [bufferedSend conn], bufferedSend := []\<rparr>))
      else (None, conn))"

definition Close :: "Env \<Rightarrow> Conn \<Rightarrow> error option \<times> Conn" where
  "Close env conn =
     (if close conn \<noteq> 0 then (None, conn)
      else
        (case Flush env conn of (_, conn1) \<Rightarrow>
           (TransportClose env,
            conn1\<lparr>close := 1, transportClosed := transportClosed conn1 + 1\<rparr>)))"





subsection \<open>Deadlines\<close>

text \<open>
  \<^verbatim>\<open>SetReadDeadline\<close> reads the clock twice: \<open>now\<close> is the first \<^verbatim>\<open>time.Now()\<close>, of
  the test, and \<open>now'\<close> the later instant at which the timer is armed.
\<close>

definition SetReadDeadline :: "Time \<Rightarrow> Time \<Rightarrow> Time \<Rightarrow> Conn \<Rightarrow> error option \<times> Conn" where
  "SetReadDeadline t now now' conn =
     (if Before t now then
        (Some (Errorf ''error setting read deadline: time passed is before time.Now()'' []),
         conn)
      else if t = TimeZero then
        (None, conn\<lparr>readDeadline := Some (After (instant now') (Hour * 1000000))\<rparr>)
      else
        (None, conn\<lparr>readDeadline := Some (After (instant now') (Sub t now'))\<rparr>))"

definition SetDeadline :: "Time \<Rightarrow> Time \<Rightarrow> Time \<Rightarrow> Conn \<Rightarrow> error option \<times> Conn" where
  "SetDeadline t now now' conn = SetReadDeadline t now now' conn"

definition SetWriteDeadline :: "Time \<Rightarrow> Conn \<Rightarrow> error option \<times> Conn" where
  "SetWriteDeadline t conn = (None, conn)"

subsection \<open>Reading\<close>

text \<open>
  A \<^verbatim>\<open>select\<close> over the three channels takes one of the cases that are ready, and
  waits when none is. Which one the runtime takes is an argument: a \<open>sched\<close> is the case
  the runtime prefers and the instant of the choice. A preferred case that is not ready
  gives way to the first ready case in the order of the source, so every schedule is a
  behaviour of the program and every behaviour has a schedule.
\<close>

datatype select = RecvPackets | RecvDeadline | RecvClose

type_synonym sched = "select \<times> int"

definition ready :: "int \<Rightarrow> Conn \<Rightarrow> select list" where
  "ready now conn =
     (if packets conn \<noteq> [] then [RecvPackets] else []) @
     (case readDeadline conn of
        None \<Rightarrow> []
      | Some at \<Rightarrow> if at \<le> now then [RecvDeadline] else []) @
     (if close conn \<noteq> 0 then [RecvClose] else [])"

definition selectCase :: "sched \<Rightarrow> Conn \<Rightarrow> select option" where
  "selectCase s conn =
     (case ready (snd s) conn of
        [] \<Rightarrow> None
      | r # rs \<Rightarrow> if fst s \<in> set (r # rs) then Some (fst s) else Some r)"

definition errTimeout :: error where
  "errTimeout = Errorf ''error reading packet: read timeout'' []"

definition errClosed :: error where
  "errClosed = Errorf ''error reading packet: connection closed'' []"

definition errTooLarge :: error where
  "errTooLarge = Errorf ''error reading data: A message sent on a Minecraft socket was larger than the buffer used to receive the message into'' []"

text \<open>
  \<open>Read s b conn\<close> returns the number of bytes, the buffer with the payload copied to
  its front, and the error.
\<close>

definition Read :: "sched \<Rightarrow> bytes \<Rightarrow> Conn \<Rightarrow> ((nat \<times> bytes \<times> error option) \<times> Conn) outcome" where
  "Read s b conn =
     (case selectCase s conn of
        None \<Rightarrow> Blocks
      | Some RecvPackets \<Rightarrow>
          (case packets conn of
             [] \<Rightarrow> Blocks
           | data # rest \<Rightarrow>
               if length b < length data
               then Done ((0, b, Some errTooLarge), conn\<lparr>packets := rest\<rparr>)
               else Done ((length data, data @ drop (length data) b, None),
                          conn\<lparr>packets := rest\<rparr>))
      | Some RecvDeadline \<Rightarrow> Done ((0, b, Some errTimeout), conn\<lparr>readDeadline := None\<rparr>)
      | Some RecvClose \<Rightarrow> Done ((0, b, Some errClosed), conn))"

text \<open>
  \<^verbatim>\<open>ReadPacket\<close> loops back to the \<^verbatim>\<open>select\<close> when a payload does not decode. The
  loop runs over the queue: \<open>s\<close> is the schedule of this round and \<open>ss\<close> the schedules
  of the rounds after it, the last one staying in force.
\<close>

fun ReadPacket_loop :: "Env \<Rightarrow> bytes list \<Rightarrow> sched \<Rightarrow> sched list \<Rightarrow> Conn \<Rightarrow> ((error + Packet) \<times> Conn) outcome" where
  "ReadPacket_loop env [] s ss conn =
     (case selectCase s (conn\<lparr>packets := []\<rparr>) of
        None \<Rightarrow> Blocks
      | Some RecvPackets \<Rightarrow> Blocks
      | Some RecvDeadline \<Rightarrow> Done (Inl errTimeout, conn\<lparr>packets := [], readDeadline := None\<rparr>)
      | Some RecvClose \<Rightarrow> Done (Inl errClosed, conn\<lparr>packets := []\<rparr>))"
| "ReadPacket_loop env (data # rest) s ss conn =
     (case selectCase s (conn\<lparr>packets := data # rest\<rparr>) of
        None \<Rightarrow> Blocks
      | Some RecvPackets \<Rightarrow>
          (case Unmarshal env data of
             None \<Rightarrow>
               (case ss of
                  [] \<Rightarrow> ReadPacket_loop env rest s [] conn
                | s' # ss' \<Rightarrow> ReadPacket_loop env rest s' ss' conn)
           | Some pk \<Rightarrow> Done (Inr pk, conn\<lparr>packets := rest\<rparr>))
      | Some RecvDeadline \<Rightarrow>
          Done (Inl errTimeout, conn\<lparr>packets := data # rest, readDeadline := None\<rparr>)
      | Some RecvClose \<Rightarrow> Done (Inl errClosed, conn\<lparr>packets := data # rest\<rparr>))"

definition ReadPacket :: "Env \<Rightarrow> sched \<Rightarrow> sched list \<Rightarrow> Conn \<Rightarrow> ((error + Packet) \<times> Conn) outcome" where
  "ReadPacket env s ss conn = ReadPacket_loop env (packets conn) s ss conn"

subsection \<open>The login handshake: server side\<close>

text \<open>\<^verbatim>\<open>(*big.Int).Bytes\<close>: the absolute value, big-endian, without leading zeros.\<close>

fun natBytes :: "nat \<Rightarrow> bytes" where
  "natBytes n = (if n = 0 then [] else natBytes (n div 256) @ [word_of_nat (n mod 256)])"

declare natBytes.simps [simp del]

definition Bytes :: "int \<Rightarrow> bytes" where
  "Bytes x = natBytes (nat \<bar>x\<bar>)"

definition enableEncryption :: "Env \<Rightarrow> PublicKey \<Rightarrow> Conn \<Rightarrow> error option \<times> Conn" where
  "enableEncryption env clientPublicKey conn =
     (case MarshalPublicKey env (PublicKey (privateKey conn)) of
        Inl err \<Rightarrow> (Some (Errorf ''error marshaling public key: %v'' [AErr err]), conn)
      | Inr pubKey \<Rightarrow>
          let header = \<lparr>Algorithm = ''ES384'', X5U = pubKey\<rparr>;
              payload = [(''salt'', StdEncodeToString env (salt conn))]
          in
          (case JWTNew env header payload (privateKey conn) of
             Inl err \<Rightarrow> (Some (Errorf ''error creating encoded JWT: %v'' [AErr err]), conn)
           | Inr serverJWT \<Rightarrow>
               (case WritePacket env (PkServerToClientHandshake (ServerToClientHandshake serverJWT)) conn of
                  (Some err, conn1) \<Rightarrow>
                    (Some (Errorf ''error sending ServerToClientHandshake packet: %v'' [AErr err]), conn1)
                | (None, conn1) \<Rightarrow>
                    (case Flush env conn1 of (_, conn2) \<Rightarrow>
                       let x = fst (ScalarMult env (Curve clientPublicKey)
                                      (X clientPublicKey, Y clientPublicKey)
                                      (Bytes (D (privateKey conn2))));
                           sharedSecret = Bytes x;
                           keyBytes = Sum256 env (salt conn2 @ sharedSecret)
                       in (None, conn2\<lparr>encoderKey := Some keyBytes, decoderKey := Some keyBytes\<rparr>)))))"

text \<open>
  \<^verbatim>\<open>login.Decode\<close> returns the identity data, the client data and the error, and the
  first two are stored in the connection before the error is looked at.
\<close>

fun handleLogin :: "Env \<Rightarrow> Login \<Rightarrow> Conn \<Rightarrow> (error option \<times> Conn) outcome" where
  "handleLogin env (Login clientProtocol connectionRequest) conn0 =
     (let conn = expect [IDClientToServerHandshake] conn0 in
      if clientProtocol \<noteq> CurrentProtocol env then
        (let status =
           (if sint clientProtocol > sint (CurrentProtocol env)
            then PlayStatusLoginFailedServer else PlayStatusLoginFailedClient)
         in case WritePacket env (PkPlayStatus (PlayStatus status)) conn of
              (_, conn1) \<Rightarrow> Done (Close env conn1))
      else
        (case Verify env connectionRequest of
           Inl err \<Rightarrow> Done (Some (Errorf ''error verifying login request: %v'' [AErr err]), conn)
         | Inr (publicKey, authenticated) \<Rightarrow>
             if \<not> authenticated then
               Done (Some (Errorf ''connection %v was not authenticated to XBOX Live''
                             [AStr (RemoteAddr env)]), conn)
             else
               (case Decode env connectionRequest of
                  (idData, clData, err) \<Rightarrow>
                    let conn1 = conn\<lparr>identityData := idData, clientData := clData\<rparr> in
                    (case err of
                       Some e \<Rightarrow> Done (Some (Errorf ''error decoding login request: %v'' [AErr e]), conn1)
                     | None \<Rightarrow>
                         (case ValidateIdentity env (identityData conn1) of
                            Some e \<Rightarrow> Done (Some (Errorf ''invalid identity data: %v'' [AErr e]), conn1)
                          | None \<Rightarrow>
                              (case ValidateClient env (clientData conn1) of
                                 Some e \<Rightarrow> Done (Some (Errorf ''invalid client data: %v'' [AErr e]), conn1)
                               | None \<Rightarrow>
                                   (case enableEncryption env publicKey conn1 of
                                      (Some e, conn2) \<Rightarrow>
                                        Done (Some (Errorf ''error enabling encryption: %v'' [AErr e]), conn2)
                                    | (None, conn2) \<Rightarrow> Done (None, conn2))))))))"

text \<open>
  The loop of \<^verbatim>\<open>handleClientToServerHandshake\<close> over the packs the connection holds,
  filling the \<^verbatim>\<open>ResourcePacksInfo\<close> packet.
\<close>

fun packsInfoLoop :: "Pack list \<Rightarrow> ResourcePacksInfo \<Rightarrow> ResourcePacksInfo" where
  "packsInfoLoop [] pk = pk"
| "packsInfoLoop (pack # rest) (ResourcePacksInfo required hasScripts behaviourPacks texturePacks) =
     (let resourcePack =
            ResourcePack (UUID pack) (Version pack) (word_of_nat (Len pack)) (HasScripts pack);
          hasScripts' = (if HasScripts pack then True else hasScripts)
      in if HasBehaviours pack
         then packsInfoLoop rest
                (ResourcePacksInfo required hasScripts' (behaviourPacks @ [resourcePack]) texturePacks)
         else packsInfoLoop rest
                (ResourcePacksInfo required hasScripts' behaviourPacks (texturePacks @ [resourcePack])))"

definition handleClientToServerHandshake :: "Env \<Rightarrow> Conn \<Rightarrow> (error option \<times> Conn) outcome" where
  "handleClientToServerHandshake env conn0 =
     (let conn = expect [IDResourcePackClientResponse] conn0 in
      case WritePacket env (PkPlayStatus (PlayStatus PlayStatusLoginSuccess)) conn of
        (Some err, conn1) \<Rightarrow>
          Done (Some (Errorf ''error sending play status login success: %v'' [AErr err]), conn1)
      | (None, conn1) \<Rightarrow>
          let pk = packsInfoLoop (resourcePacks conn1)
                     (ResourcePacksInfo (texturePacksRequired conn1) False [] [])
          in (case WritePacket env (PkResourcePacksInfo pk) conn1 of
                (Some err, conn2) \<Rightarrow>
                  Done (Some (Errorf ''error sending resource packs info: %v'' [AErr err]), conn2)
              | (None, conn2) \<Rightarrow> Done (None, conn2)))"

text \<open>The size of a chunk served from a resource pack.\<close>

definition packChunkSize :: nat where
  "packChunkSize = 1024 * 512"

definition nextResourcePackDownload :: "Env \<Rightarrow> Conn \<Rightarrow> (error option \<times> Conn) outcome" where
  "nextResourcePackDownload env conn =
     (case packQueue conn of
        None \<Rightarrow> Panics
      | Some queue \<Rightarrow>
          (case NextPack env queue of
             (None, queue') \<Rightarrow>
               Done (Some (Errorf ''no resource packs to download'' []),
                     conn\<lparr>packQueue := Some queue'\<rparr>)
           | (Some pk, queue') \<Rightarrow>
               (case WritePacket env (PkResourcePackDataInfo pk) (conn\<lparr>packQueue := Some queue'\<rparr>) of
                  (Some err, conn1) \<Rightarrow>
                    Done (Some (Errorf ''error sending resource pack data info packet: %v'' [AErr err]),
                          conn1)
                | (None, conn1) \<Rightarrow> Done (None, expect [IDResourcePackChunkRequest] conn1))))"

text \<open>The loop of the \<^verbatim>\<open>AllPacksDownloaded\<close> branch, filling the \<^verbatim>\<open>ResourcePackStack\<close>.\<close>

fun packStackLoop :: "Pack list \<Rightarrow> ResourcePackStack \<Rightarrow> ResourcePackStack" where
  "packStackLoop [] pk = pk"
| "packStackLoop (pack # rest) (ResourcePackStack required behaviourPacks texturePacks) =
     (let resourcePack = ResourcePack (UUID pack) (Version pack) 0 False
      in if HasBehaviours pack
         then packStackLoop rest (ResourcePackStack required (behaviourPacks @ [resourcePack]) texturePacks)
         else packStackLoop rest (ResourcePackStack required behaviourPacks (texturePacks @ [resourcePack])))"

fun handleResourcePackClientResponse :: "Env \<Rightarrow> ResourcePackClientResponse \<Rightarrow> Conn \<Rightarrow> (error option \<times> Conn) outcome" where
  "handleResourcePackClientResponse env (ResourcePackClientResponse response packsRequested) conn =
     (case response of
        PackResponseRefused \<Rightarrow> Done (Close env conn)
      | PackResponseSendPacks \<Rightarrow>
          (let queue = \<lparr>packs = resourcePacks conn, currentPack = None, currentOffset = 0,
                        packAmount = 0, downloadingPacks = Map.empty, awaitingPacks = Map.empty,
                        packsToDownload = []\<rparr>
           in case Request env packsRequested queue of
                (Some err, queue') \<Rightarrow>
                  Done (Some (Errorf ''error looking up resource packs to download: %v'' [AErr err]),
                        conn\<lparr>packQueue := Some queue'\<rparr>)
              | (None, queue') \<Rightarrow>
                  (case nextResourcePackDownload env (conn\<lparr>packQueue := Some queue'\<rparr>) of
                     Done (Some err, conn1) \<Rightarrow> Done (Some err, conn1)
                   | Done (None, conn1) \<Rightarrow> Done (None, conn1)
                   | Blocks \<Rightarrow> Blocks
                   | Panics \<Rightarrow> Panics))
      | PackResponseAllPacksDownloaded \<Rightarrow>
          (let pk = packStackLoop (resourcePacks conn)
                      (ResourcePackStack (texturePacksRequired conn) [] [])
           in case WritePacket env (PkResourcePackStack pk) conn of
                (Some err, conn1) \<Rightarrow>
                  Done (Some (Errorf ''error writing resource pack stack packet: %v'' [AErr err]), conn1)
              | (None, conn1) \<Rightarrow> Done (None, conn1))
      | PackResponseCompleted \<Rightarrow> Done (None, conn\<lparr>loggedIn := True\<rparr>)
      | PackResponseOther r \<Rightarrow>
          Done (Some (Errorf ''unknown resource pack client response: %v'' [AInt (uint r)]), conn))"

text \<open>Go's \<^verbatim>\<open>/\<close> on integers truncates towards zero.\<close>

definition quo :: "int \<Rightarrow> int \<Rightarrow> int" where
  "quo a b = sgn a * sgn b * (\<bar>a\<bar> div \<bar>b\<bar>)"

text \<open>
  The function that \<^verbatim>\<open>handleResourcePackChunkRequest\<close> defers at the end of a pack. It
  runs after the response was written, whatever the write returned, and its own result
  is dropped.
\<close>

definition chunkRequestDeferred :: "Env \<Rightarrow> Conn \<Rightarrow> Conn outcome" where
  "chunkRequestDeferred env conn =
     (case packQueue conn of
        None \<Rightarrow> Panics
      | Some queue \<Rightarrow>
          if \<not> AllDownloaded env queue then
            (case nextResourcePackDownload env conn of
               Done (_, conn1) \<Rightarrow> Done conn1
             | Blocks \<Rightarrow> Blocks
             | Panics \<Rightarrow> Panics)
          else Done (expect [IDResourcePackClientResponse] conn))"

definition writeChunkData :: "Env \<Rightarrow> ResourcePackChunkData \<Rightarrow> Conn \<Rightarrow> error option \<times> Conn" where
  "writeChunkData env response conn =
     (case WritePacket env (PkResourcePackChunkData response) conn of
        (Some err, conn1) \<Rightarrow>
          (Some (Errorf ''error writing resource pack chunk data packet: %v'' [AErr err]), conn1)
      | (None, conn1) \<Rightarrow> (None, conn1))"

fun handleResourcePackChunkRequest :: "Env \<Rightarrow> ResourcePackChunkRequest \<Rightarrow> Conn \<Rightarrow> (error option \<times> Conn) outcome" where
  "handleResourcePackChunkRequest env (ResourcePackChunkRequest uuid chunkIndex) conn =
     (case packQueue conn of
        None \<Rightarrow> Panics
      | Some queue \<Rightarrow>
          (case currentPack queue of
             None \<Rightarrow> Panics
           | Some current \<Rightarrow>
               if UUID current \<noteq> uuid then
                 Done (Some (Errorf ''resource pack chunk request had unexpected UUID: expected %v, but got %v''
                               [AStr (UUID current), AStr uuid]), conn)
               else if currentOffset queue \<noteq> (scast chunkIndex :: int64) * word_of_nat packChunkSize then
                 Done (Some (Errorf ''resource pack chunk request had unexpected chunk index: expected %v, but got %v''
                               [AInt (quo (sint (currentOffset queue)) (int packChunkSize)),
                                AInt (sint chunkIndex)]), conn)
               else
                 (let dataOffset = currentOffset queue;
                      conn1 = conn\<lparr>packQueue :=
                                Some (queue\<lparr>currentOffset := currentOffset queue + word_of_nat packChunkSize\<rparr>)\<rparr>
                  in case ReadAt current (replicate packChunkSize 0) dataOffset of
                       (b, n, None) \<Rightarrow>
                         Done (writeChunkData env (ResourcePackChunkData uuid chunkIndex dataOffset b) conn1)
                     | (b, n, Some err) \<Rightarrow>
                         if err \<noteq> EOF then
                           Done (Some (Errorf ''error reading resource pack chunk: %v'' [AErr err]), conn1)
                         else
                           (case writeChunkData env
                                   (ResourcePackChunkData uuid chunkIndex dataOffset (take n b)) conn1 of
                              (result, conn2) \<Rightarrow>
                                (case chunkRequestDeferred env conn2 of
                                   Done conn3 \<Rightarrow> Done (result, conn3)
                                 | Blocks \<Rightarrow> Blocks
                                 | Panics \<Rightarrow> Panics)))))"

subsection \<open>The login handshake: client side\<close>

text \<open>\<^verbatim>\<open>strings.TrimRight(s, cutset)\<close>.\<close>

definition TrimRight :: "string \<Rightarrow> string \<Rightarrow> string" where
  "TrimRight s cutset = rev (dropWhile (\<lambda>c. c \<in> set cutset) (rev s))"

text \<open>
  The first part of \<^verbatim>\<open>handleServerToClientHandshake\<close>, up to the decoded salt: the
  public key of the server and the salt, or the error returned.
\<close>

definition parseServerToClientHandshake :: "Env \<Rightarrow> bytes \<Rightarrow> error + (PublicKey \<times> bytes)" where
  "parseServerToClientHandshake env jwt =
     (case HeaderFrom env jwt of
        Inl err \<Rightarrow> Inl (Errorf ''error reading ServerToClientHandshake JWT header: %v'' [AErr err])
      | Inr headerData \<Rightarrow>
          (case UnmarshalHeader env headerData of
             Inl err \<Rightarrow>
               Inl (Errorf ''error parsing ServerToClientHandshake JWT header JSON: %v'' [AErr err])
           | Inr header \<Rightarrow>
               if \<not> AllowedAlg env (Algorithm header) then
                 Inl (Errorf ''ServerToClientHandshake JWT header had unexpected alg: expected %v, got %v''
                        [AStr ''ES384'', AStr (Algorithm header)])
               else
                 (case ParsePublicKey env (X5U header) of
                    Inl err \<Rightarrow>
                      Inl (Errorf ''error parsing ServerToClientHandshake header x5u public pubKey: %v''
                             [AErr err])
                  | Inr pubKey \<Rightarrow>
                      (case JWTVerify env jwt pubKey False of
                         Some err \<Rightarrow>
                           Inl (Errorf ''error verifying ServerToClientHandshake JWT: %v'' [AErr err])
                       | None \<Rightarrow>
                           (case UnmarshalPayload env (Payload env jwt) of
                              Inl err \<Rightarrow>
                                Inl (Errorf ''error parsing ServerToClientHandshake JWT payload JSON: %v''
                                       [AErr err])
                            | Inr m \<Rightarrow>
                                (case m ''salt'' of
                                   None \<Rightarrow>
                                     Inl (Errorf ''ServerToClientHandshake JWT payload contained no 'salt' '' [])
                                 | Some b64Salt \<Rightarrow>
                                     (case RawStdDecodeString env (TrimRight b64Salt ''='') of
                                        Inl err \<Rightarrow>
                                          Inl (Errorf ''error base64 decoding ServerToClientHandshake salt: %v''
                                                 [AErr err])
                                      | Inr salt' \<Rightarrow> Inr (pubKey, salt'))))))))"

fun handleServerToClientHandshake :: "Env \<Rightarrow> ServerToClientHandshake \<Rightarrow> Conn \<Rightarrow> (error option \<times> Conn) outcome" where
  "handleServerToClientHandshake env (ServerToClientHandshake jwt) conn =
     (case parseServerToClientHandshake env jwt of
        Inl err \<Rightarrow> Done (Some err, conn)
      | Inr (pubKey, salt') \<Rightarrow>
          (let x = fst (ScalarMult env (Curve pubKey) (X pubKey, Y pubKey)
                          (Bytes (D (privateKey conn))));
               sharedSecret = Bytes x;
               keyBytes = Sum256 env (salt' @ sharedSecret);
               conn1 = conn\<lparr>encoderKey := Some keyBytes, decoderKey := Some keyBytes\<rparr>
           in Done (WritePacket env PkClientToServerHandshake conn1)))"

fun handlePlayStatus :: "Env \<Rightarrow> PlayStatus \<Rightarrow> Conn \<Rightarrow> (error option \<times> Conn) outcome" where
  "handlePlayStatus env (PlayStatus status) conn =
     (case status of
        PlayStatusLoginSuccess \<Rightarrow> Done (None, expect [IDResourcePacksInfo] conn)
      | PlayStatusLoginFailedClient \<Rightarrow>
          Done (Some (Errorf ''client outdated'' []), snd (Close env conn))
      | PlayStatusLoginFailedServer \<Rightarrow>
          Done (Some (Errorf ''server outdated'' []), snd (Close env conn))
      | PlayStatusPlayerSpawn \<Rightarrow> Done (None, conn)
      | PlayStatusLoginFailedInvalidTenant \<Rightarrow>
          Done (Some (Errorf ''invalid edu edition game owner'' []), snd (Close env conn))
      | PlayStatusLoginFailedVanillaEdu \<Rightarrow>
          Done (Some (Errorf ''cannot join an edu edition game on vanilla'' []), snd (Close env conn))
      | PlayStatusLoginFailedEduVanilla \<Rightarrow>
          Done (Some (Errorf ''cannot join a vanilla game on edu edition'' []), snd (Close env conn))
      | PlayStatusLoginFailedServerFull \<Rightarrow>
          Done (Some (Errorf ''server full'' []), snd (Close env conn))
      | PlayStatusOther st \<Rightarrow>
          Done (Some (Errorf ''unknown play status in PlayStatus packet %v'' [AInt (sint st)]), conn))"

text \<open>
  The two loops of \<^verbatim>\<open>handleResourcePacksInfo\<close>, over the names to request and the map
  of packs to download. \<^verbatim>\<open>make([]byte, 0, pack.Size)\<close> panics on a negative size (and
  on a size that cannot be allocated, which the model leaves out).
\<close>

fun downloadLoop :: "ResourcePack list \<Rightarrow> string list \<times> (string \<rightharpoonup> downloadingPack) \<Rightarrow> (string list \<times> (string \<rightharpoonup> downloadingPack)) outcome" where
  "downloadLoop [] acc = Done acc"
| "downloadLoop (ResourcePack uuid version sz hasScripts # rest) (toDownload, downloading) =
     (if sint sz < 0 then Panics
      else downloadLoop rest
             (toDownload @ [uuid @ ''_'' @ version],
              downloading(uuid \<mapsto>
                \<lparr>size' = sz, buf = [], chunkSize = 0, expectedIndex = 0, newFrag = None\<rparr>)))"

fun handleResourcePacksInfo :: "Env \<Rightarrow> ResourcePacksInfo \<Rightarrow> Conn \<Rightarrow> (error option \<times> Conn) outcome" where
  "handleResourcePacksInfo env (ResourcePacksInfo required hasScripts behaviourPacks texturePacks) conn =
     (case downloadLoop texturePacks ([], Map.empty) of
        Blocks \<Rightarrow> Blocks
      | Panics \<Rightarrow> Panics
      | Done acc \<Rightarrow>
          (case downloadLoop behaviourPacks acc of
             Blocks \<Rightarrow> Blocks
           | Panics \<Rightarrow> Panics
           | Done (toDownload, downloading) \<Rightarrow>
               (let queue = \<lparr>packs = [], currentPack = None, currentOffset = 0,
                             packAmount = int (length texturePacks) + int (length behaviourPacks),
                             downloadingPacks = downloading, awaitingPacks = Map.empty,
                             packsToDownload = []\<rparr>;
                    conn1 = conn\<lparr>packQueue := Some queue\<rparr>
                in if length toDownload \<noteq> 0 then
                     Done (WritePacket env
                             (PkResourcePackClientResponse
                                (ResourcePackClientResponse PackResponseSendPacks toDownload))
                             (expect [IDResourcePackDataInfo, IDResourcePackChunkData] conn1))
                   else
                     Done (WritePacket env
                             (PkResourcePackClientResponse
                                (ResourcePackClientResponse PackResponseAllPacksDownloaded []))
                             (expect [IDResourcePackStack] conn1)))))"

fun hasPack_loop :: "Pack list \<Rightarrow> string \<Rightarrow> string \<Rightarrow> bool \<Rightarrow> bool" where
  "hasPack_loop [] uuid version hasBehaviours = False"
| "hasPack_loop (pack # rest) uuid version hasBehaviours =
     (if UUID pack = uuid \<and> Version pack = version \<and> HasBehaviours pack = hasBehaviours
      then True else hasPack_loop rest uuid version hasBehaviours)"

definition hasPack :: "string \<Rightarrow> string \<Rightarrow> bool \<Rightarrow> Conn \<Rightarrow> bool" where
  "hasPack uuid version hasBehaviours conn =
     hasPack_loop (resourcePacks conn) uuid version hasBehaviours"

text \<open>
  The two loops of \<^verbatim>\<open>handleResourcePackStack\<close>: the error of the first pack of the
  list that the connection does not hold, with the given format.
\<close>

fun stackLoop :: "string \<Rightarrow> bool \<Rightarrow> ResourcePack list \<Rightarrow> Conn \<Rightarrow> error option" where
  "stackLoop format hasBehaviours [] conn = None"
| "stackLoop format hasBehaviours (ResourcePack uuid version sz hasScripts # rest) conn =
     (if \<not> hasPack uuid version hasBehaviours conn
      then Some (Errorf format [AStr uuid, AStr version])
      else stackLoop format hasBehaviours rest conn)"

fun handleResourcePackStack :: "Env \<Rightarrow> ResourcePackStack \<Rightarrow> Conn \<Rightarrow> (error option \<times> Conn) outcome" where
  "handleResourcePackStack env (ResourcePackStack required behaviourPacks texturePacks) conn =
     (case stackLoop ''texture pack {uuid=%v, version=%v} not downloaded'' False texturePacks conn of
        Some err \<Rightarrow> Done (Some err, conn)
      | None \<Rightarrow>
          (case stackLoop ''behaviour pack {uuid=%v, version=%v} not downloaded'' True behaviourPacks conn of
             Some err \<Rightarrow> Done (Some err, conn)
           | None \<Rightarrow>
               if connectedRecv conn = 0 then Blocks
               else
                 (let conn1 = conn\<lparr>connectedRecv := connectedRecv conn - 1,
                                    connectedSent := connectedSent conn + 1\<rparr>;
                      conn2 = conn1\<lparr>loggedIn := True\<rparr>
                  in Done (WritePacket env
                             (PkResourcePackClientResponse
                                (ResourcePackClientResponse PackResponseCompleted []))
                             conn2))))"

subsection \<open>Downloading a resource pack\<close>

text \<open>
  \<^verbatim>\<open>handleResourcePackDataInfo\<close> starts a goroutine that requests the chunks one by one
  and receives each fragment from the channel \<^verbatim>\<open>newFrag\<close>, on which
  \<^verbatim>\<open>handleResourcePackChunkData\<close> sends. The channel is unbuffered, so the send returns
  only when the goroutine receives. The model runs the goroutine as soon as it can run
  and until it waits again: from its start to its first receive, and from one receive to
  the next or to its end.

  \<open>fetcherDone\<close> is the code after the loop, \<open>fetcherLoop\<close> the loop from the test of
  iteration \<open>i\<close> to the receive.
\<close>

definition setAwaiting :: "string \<Rightarrow> downloadingPack \<Rightarrow> Conn \<Rightarrow> Conn" where
  "setAwaiting uuid pack conn =
     (case packQueue conn of
        None \<Rightarrow> conn
      | Some queue \<Rightarrow>
          conn\<lparr>packQueue := Some (queue\<lparr>awaitingPacks := (awaitingPacks queue)(uuid \<mapsto> pack)\<rparr>)\<rparr>)"

definition fetcherDone :: "Env \<Rightarrow> downloadingPack \<Rightarrow> Conn \<Rightarrow> Conn" where
  "fetcherDone env pack conn =
     (if int (length (buf pack)) \<noteq> sint (size' pack) then conn
      else
        (case FromBytes env (buf pack) of
           Inl err \<Rightarrow> conn
         | Inr parsed \<Rightarrow>
             (case packQueue conn of
                None \<Rightarrow> conn
              | Some queue \<Rightarrow>
                  let queue' = queue\<lparr>packAmount := packAmount queue - 1\<rparr>;
                      conn1 = conn\<lparr>packQueue := Some queue',
                                   resourcePacks := resourcePacks conn @ [parsed]\<rparr>
                  in if packAmount queue' = 0 then
                       snd (WritePacket env
                              (PkResourcePackClientResponse
                                 (ResourcePackClientResponse PackResponseAllPacksDownloaded []))
                              (expect [IDResourcePackStack] conn1))
                     else conn1)))"

definition fetcherLoop :: "Env \<Rightarrow> string \<Rightarrow> downloadingPack \<Rightarrow> int32 \<Rightarrow> int32 \<Rightarrow> Conn \<Rightarrow> Conn" where
  "fetcherLoop env uuid pack i chunkCount conn =
     (if sint i < sint chunkCount then
        setAwaiting uuid (pack\<lparr>newFrag := Some (i, chunkCount)\<rparr>)
          (snd (WritePacket env
                  (PkResourcePackChunkRequest (ResourcePackChunkRequest uuid i)) conn))
      else fetcherDone env pack (setAwaiting uuid (pack\<lparr>newFrag := None\<rparr>) conn))"

fun handleResourcePackDataInfo :: "Env \<Rightarrow> ResourcePackDataInfo \<Rightarrow> Conn \<Rightarrow> (error option \<times> Conn) outcome" where
  "handleResourcePackDataInfo env (ResourcePackDataInfo uuid dataChunkSize chunkCount sz) conn =
     (case packQueue conn of
        None \<Rightarrow> Panics
      | Some queue \<Rightarrow>
          (case downloadingPacks queue uuid of
             None \<Rightarrow>
               Done (Some (Errorf ''unknown pack to download with UUID %v'' [AStr uuid]), conn)
           | Some pack \<Rightarrow>
               if size' pack \<noteq> sz then
                 Done (Some (Errorf ''pack %v had a different size in the ResourcePacksInfo packet than the ResourcePackDataInfo packet''
                               [AStr uuid]), conn)
               else
                 (let pack' = pack\<lparr>chunkSize := dataChunkSize\<rparr>;
                      queue' = queue\<lparr>downloadingPacks := (downloadingPacks queue)(uuid := None),
                                     awaitingPacks := (awaitingPacks queue)(uuid \<mapsto> pack')\<rparr>;
                      conn1 = conn\<lparr>packQueue := Some queue'\<rparr>
                  in Done (None, fetcherLoop env uuid pack' 0 chunkCount conn1))))"

fun handleResourcePackChunkData :: "Env \<Rightarrow> ResourcePackChunkData \<Rightarrow> Conn \<Rightarrow> (error option \<times> Conn) outcome" where
  "handleResourcePackChunkData env (ResourcePackChunkData uuid chunkIndex dataOffset data) conn =
     (case packQueue conn of
        None \<Rightarrow> Panics
      | Some queue \<Rightarrow>
          (case awaitingPacks queue uuid of
             None \<Rightarrow>
               Done (Some (Errorf ''resource pack chunk data for resource pack that was not being downloaded'' []),
                     conn)
           | Some pack \<Rightarrow>
               (let lastData = (int (length (buf pack)) + sint (chunkSize pack) \<ge> sint (size' pack)) in
                if \<not> lastData \<and> (word_of_nat (length data) :: int32) \<noteq> chunkSize pack then
                  Done (Some (Errorf ''resource pack chunk data had a length of %v, but expected %v''
                                [AInt (int (length data)), AInt (sint (chunkSize pack))]), conn)
                else if chunkIndex \<noteq> expectedIndex pack then
                  Done (Some (Errorf ''resource pack chunk data had chunk index %v, but expected %v''
                                [AInt (sint chunkIndex), AInt (sint (expectedIndex pack))]), conn)
                else
                  (let pack1 = pack\<lparr>expectedIndex := expectedIndex pack + 1\<rparr> in
                   case newFrag pack1 of
                     None \<Rightarrow> Blocks
                   | Some (i, chunkCount) \<Rightarrow>
                       Done (None,
                             fetcherLoop env uuid (pack1\<lparr>buf := buf pack1 @ data\<rparr>) (i + 1) chunkCount
                               (setAwaiting uuid pack1 conn))))))"

subsection \<open>Dispatching an incoming payload\<close>

text \<open>The loop of \<^verbatim>\<open>handleIncoming\<close> over the expected identifiers.\<close>

fun found_loop :: "PacketID list \<Rightarrow> PacketID \<Rightarrow> bool" where
  "found_loop [] pid = False"
| "found_loop (eid # ids) pid =
     (if eid = pid \<or> pid = IDDisconnect then True else found_loop ids pid)"

text \<open>The type switch of \<^verbatim>\<open>handleIncoming\<close>.\<close>

fun dispatch :: "Env \<Rightarrow> Packet \<Rightarrow> Conn \<Rightarrow> (error option \<times> Conn) outcome" where
  "dispatch env (PkLogin pk) conn = handleLogin env pk conn"
| "dispatch env PkClientToServerHandshake conn = handleClientToServerHandshake env conn"
| "dispatch env (PkResourcePackClientResponse pk) conn = handleResourcePackClientResponse env pk conn"
| "dispatch env (PkResourcePackChunkRequest pk) conn = handleResourcePackChunkRequest env pk conn"
| "dispatch env PkRequestChunkRadius conn = Done (None, conn)"
| "dispatch env (PkServerToClientHandshake pk) conn = handleServerToClientHandshake env pk conn"
| "dispatch env (PkPlayStatus pk) conn = handlePlayStatus env pk conn"
| "dispatch env (PkResourcePacksInfo pk) conn = handleResourcePacksInfo env pk conn"
| "dispatch env (PkResourcePackDataInfo pk) conn = handleResourcePackDataInfo env pk conn"
| "dispatch env (PkResourcePackChunkData pk) conn = handleResourcePackChunkData env pk conn"
| "dispatch env (PkResourcePackStack pk) conn = handleResourcePackStack env pk conn"
| "dispatch env PkStartGame conn = Done (None, conn)"
| "dispatch env (PkDisconnect (Disconnect message)) conn =
     Done (Some (New (''Disconnected: '' @ message)), snd (Close env conn))"
| "dispatch env (PkOther pid payload) conn = Done (None, conn)"

text \<open>
  \<open>enqueue\<close> is the send \<^verbatim>\<open>conn.packets <- data\<close>, which waits while the channel holds
  32 payloads.
\<close>

definition enqueue :: "bytes \<Rightarrow> Conn \<Rightarrow> Conn outcome" where
  "enqueue data conn =
     (if length (packets conn) \<ge> 32 then Blocks
      else Done (conn\<lparr>packets := packets conn @ [data]\<rparr>))"

definition handleIncoming :: "Env \<Rightarrow> sched \<Rightarrow> sched list \<Rightarrow> bytes \<Rightarrow> Conn \<Rightarrow> (error option \<times> Conn) outcome" where
  "handleIncoming env s ss data conn =
     (case enqueue data conn of
        Blocks \<Rightarrow> Blocks
      | Panics \<Rightarrow> Panics
      | Done conn1 \<Rightarrow>
          if \<not> loggedIn conn1 then
            (case ReadPacket env s ss conn1 of
               Blocks \<Rightarrow> Blocks
             | Panics \<Rightarrow> Panics
             | Done (Inl err, conn2) \<Rightarrow> Done (Some err, conn2)
             | Done (Inr pk, conn2) \<Rightarrow>
                 if \<not> found_loop (expectedIDs conn2) (ID pk) then Done (None, conn2)
                 else dispatch env pk conn2)
          else Done (None, conn1))"

subsection \<open>Runs of a connection\<close>

text \<open>
  The calls that can be made on a connection: its exported methods, and
  \<^verbatim>\<open>handleIncoming\<close>, which the transport reader calls for each payload. \<open>step\<close> is
  the connection a call leaves behind, and \<open>run\<close> the connections a sequence of calls
  goes through, up to the first call that does not return. The goroutine that
  \<^verbatim>\<open>newConn\<close> starts calls \<^verbatim>\<open>Flush\<close> every twentieth of a second: in a run it is a
  call of \<^verbatim>\<open>Flush\<close> like any other.
\<close>

datatype operation =
    OpWrite bytes
  | OpWritePacket Packet
  | OpRead sched bytes
  | OpReadPacket sched "sched list"
  | OpFlush
  | OpClose
  | OpSetDeadline Time Time Time
  | OpSetReadDeadline Time Time Time
  | OpSetWriteDeadline Time
  | OpHandleIncoming sched "sched list" bytes

fun step :: "Env \<Rightarrow> operation \<Rightarrow> Conn \<Rightarrow> Conn outcome" where
  "step env (OpWrite b) conn = Done (snd (Write b conn))"
| "step env (OpWritePacket pk) conn = Done (snd (WritePacket env pk conn))"
| "step env (OpRead s b) conn =
     (case Read s b conn of Done (_, conn') \<Rightarrow> Done conn' | Blocks \<Rightarrow> Blocks | Panics \<Rightarrow> Panics)"
| "step env (OpReadPacket s ss) conn =
     (case ReadPacket env s ss conn of
        Done (_, conn') \<Rightarrow> Done conn' | Blocks \<Rightarrow> Blocks | Panics \<Rightarrow> Panics)"
| "step env OpFlush conn = Done (snd (Flush env conn))"
| "step env OpClose conn = Done (snd (Close env conn))"
| "step env (OpSetDeadline t now now') conn = Done (snd (SetDeadline t now now' conn))"
| "step env (OpSetReadDeadline t now now') conn = Done (snd (SetReadDeadline t now now' conn))"
| "step env (OpSetWriteDeadline t) conn = Done (snd (SetWriteDeadline t conn))"
| "step env (OpHandleIncoming s ss data) conn =
     (case handleIncoming env s ss data conn of
        Done (_, conn') \<Rightarrow> Done conn' | Blocks \<Rightarrow> Blocks | Panics \<Rightarrow> Panics)"

fun run :: "Env \<Rightarrow> operation list \<Rightarrow> Conn \<Rightarrow> Conn list" where
  "run env [] conn = [conn]"
| "run env (op # ops) conn =
     conn # (case step env op conn of Done conn' \<Rightarrow> run env ops conn' | Blocks \<Rightarrow> [] | Panics \<Rightarrow> [])"

subsection \<open>An example environment\<close>

text \<open>
  A small environment and a few connections on which the theorems below are run: a toy
  curve on which scalar multiplication multiplies both coordinates, a hash that reads its
  input as a number, a codec that knows a handful of payloads, helpers that accept
  everything but the empty connection request.
\<close>

definition natOfBytes :: "bytes \<Rightarrow> nat" where
  "natOfBytes bs = foldl (\<lambda>n b. n * 256 + unat b) 0 bs"

definition serverKey :: PrivateKey where
  "serverKey = \<lparr>PublicKey = \<lparr>Curve = ''toy'', X = 3, Y = 3\<rparr>, D = 3\<rparr>"

definition clientKey :: PrivateKey where
  "clientKey = \<lparr>PublicKey = \<lparr>Curve = ''toy'', X = 5, Y = 5\<rparr>, D = 5\<rparr>"

definition examplePack :: Pack where
  "examplePack = \<lparr>pack_uuid = ''U'', pack_version = ''1.0'', pack_content = [1, 2, 3],
                   pack_scripts = False, pack_behaviours = False\<rparr>"

definition exampleUnmarshal :: "bytes \<Rightarrow> Packet option" where
  "exampleUnmarshal data =
     (if data = [1] then Some (PkLogin (Login 340 [1]))
      else if data = [4] then Some PkClientToServerHandshake
      else if data = [3] then
        Some (PkResourcePackClientResponse
                (ResourcePackClientResponse PackResponseAllPacksDownloaded []))
      else if data = [5] then Some (PkDisconnect (Disconnect ''kicked''))
      else if data = [8] then
        Some (PkResourcePackClientResponse (ResourcePackClientResponse PackResponseCompleted []))
      else if data = [7] then Some (PkResourcePackStack (ResourcePackStack False [] []))
      else if data = [9] then Some (PkOther (IDOther 9) [])
      else None)"

definition exampleNextPack :: "resourcePackQueue \<Rightarrow> ResourcePackDataInfo option \<times> resourcePackQueue" where
  "exampleNextPack queue =
     (case packsToDownload queue of
        [] \<Rightarrow> (None, queue)
      | (uuid, pack) # rest \<Rightarrow>
          (Some (ResourcePackDataInfo uuid (word_of_nat packChunkSize) 1 (word_of_nat (Len pack))),
           queue\<lparr>packsToDownload := rest, currentPack := Some pack, currentOffset := 0\<rparr>))"

definition exampleEnv :: Env where
  "exampleEnv =
     \<lparr>CurrentProtocol = 340,
      RemoteAddr = ''198.51.100.7:19132'',
      HeaderWrite = (\<lambda>pid. Inr []),
      Marshal = (\<lambda>pk. case pk of PkResourcePackChunkData (ResourcePackChunkData u i off d) \<Rightarrow> d | _ \<Rightarrow> []),
      Unmarshal = exampleUnmarshal,
      Encode = (\<lambda>k batch. None),
      TransportClose = None,
      Verify = (\<lambda>request. if request = [] then Inl (New ''empty chain'')
                          else Inr (PublicKey clientKey, request \<noteq> [0])),
      Decode = (\<lambda>request. (IdentityData ''e9'' ''25'' ''Alice'', ClientData ''device'', None)),
      ValidateIdentity = (\<lambda>d. None),
      ValidateClient = (\<lambda>d. None),
      MarshalPublicKey = (\<lambda>k. Inr ''server key''),
      JWTNew = (\<lambda>header payload k. Inr [1]),
      HeaderFrom = (\<lambda>jwt. Inr jwt),
      UnmarshalHeader = (\<lambda>h. Inr \<lparr>Algorithm = ''ES384'', X5U = ''server key''\<rparr>),
      AllowedAlg = (\<lambda>alg. alg = ''ES384''),
      ParsePublicKey = (\<lambda>x5u. Inr (PublicKey serverKey)),
      JWTVerify = (\<lambda>jwt k b. None),
      Payload = (\<lambda>jwt. jwt),
      UnmarshalPayload = (\<lambda>body. Inr [''salt'' \<mapsto> ''AAAAAAAAAAAAAAAAAAAAAA=='']),
      StdEncodeToString = (\<lambda>b. ''AAAAAAAAAAAAAAAAAAAAAA==''),
      RawStdDecodeString = (\<lambda>s. if s = ''AAAAAAAAAAAAAAAAAAAAAA'' then Inr (replicate 16 0)
                                else Inl (New ''illegal base64 data'')),
      ScalarMult = (\<lambda>curve (x, y) k. (x * int (natOfBytes k), y * int (natOfBytes k))),
      Sum256 = (\<lambda>b. word_of_nat (natOfBytes b)),
      FromBytes = (\<lambda>b. Inr \<lparr>pack_uuid = ''U'', pack_version = ''1.0'', pack_content = b,
                              pack_scripts = False, pack_behaviours = False\<rparr>),
      Request = (\<lambda>names queue. (None, queue)),
      NextPack = exampleNextPack,
      AllDownloaded = (\<lambda>queue. packsToDownload queue = [])\<rparr>"

definition serverConn :: Conn where
  "serverConn = newConn (Some serverKey) serverKey (replicate 16 0)"

definition clientConn :: Conn where
  "clientConn = expect [IDServerToClientHandshake, IDPlayStatus]
                  (newConn (Some clientKey) clientKey (replicate 16 0))"

definition latchConn :: Conn where
  "latchConn = serverConn\<lparr>expectedIDs := [IDResourcePackClientResponse]\<rparr>"

definition latchOps :: "operation list" where
  "latchOps = [OpHandleIncoming (RecvPackets, 0) [] [8], OpWrite [1],
               OpHandleIncoming (RecvPackets, 0) [] [5]]"

definition stackConn :: Conn where
  "stackConn = clientConn\<lparr>expectedIDs := [IDResourcePackStack], connectedRecv := 1\<rparr>"

text \<open>
  A client that was told of one pack \<^verbatim>\<open>U\<close> of 5 bytes, to arrive in 2 chunks of 4 bytes,
  asked for the first chunk and waits for it.
\<close>

definition chunkPack :: downloadingPack where
  "chunkPack = \<lparr>size' = 5, buf = [], chunkSize = 4, expectedIndex = 0, newFrag = Some (0, 2)\<rparr>"

definition chunkQueue :: resourcePackQueue where
  "chunkQueue = \<lparr>packs = [], currentPack = None, currentOffset = 0, packAmount = 1,
                  downloadingPacks = Map.empty, awaitingPacks = [''U'' \<mapsto> chunkPack],
                  packsToDownload = []\<rparr>"

definition chunkConn :: Conn where
  "chunkConn = clientConn\<lparr>expectedIDs := [IDResourcePackDataInfo, IDResourcePackChunkData],
                         bufferedSend := [[], []], packQueue := Some chunkQueue\<rparr>"

text \<open>A server that serves the pack \<^verbatim>\<open>U\<close> of three bytes and was asked for nothing yet.\<close>

definition serveQueue :: resourcePackQueue where
  "serveQueue = \<lparr>packs = [examplePack], currentPack = Some examplePack, currentOffset = 0,
                  packAmount = 0, downloadingPacks = Map.empty, awaitingPacks = Map.empty,
                  packsToDownload = []\<rparr>"

definition serveConn :: Conn where
  "serveConn = serverConn\<lparr>expectedIDs := [IDResourcePackChunkRequest],
                         resourcePacks := [examplePack], packQueue := Some serveQueue\<rparr>"

text \<open>
  The same server with a second pack \<^verbatim>\<open>V\<close> of two bytes still to serve, in an
  environment that marshals a \<^verbatim>\<open>ResourcePackDataInfo\<close> to the byte 82.
\<close>

definition secondPack :: Pack where
  "secondPack = \<lparr>pack_uuid = ''V'', pack_version = ''1.0'', pack_content = [4, 5],
                  pack_scripts = False, pack_behaviours = False\<rparr>"

definition moreQueue :: resourcePackQueue where
  "moreQueue = serveQueue\<lparr>packs := [examplePack, secondPack],
                          packsToDownload := [(''V'', secondPack)]\<rparr>"

definition moreConn :: Conn where
  "moreConn = serveConn\<lparr>resourcePacks := [examplePack, secondPack],
                        packQueue := Some moreQueue\<rparr>"

definition serveEnv :: Env where
  "serveEnv = exampleEnv\<lparr>Marshal :=
     (\<lambda>pk. case pk of
             PkResourcePackChunkData (ResourcePackChunkData u i off d) \<Rightarrow> d
           | PkResourcePackDataInfo info \<Rightarrow> [82]
           | _ \<Rightarrow> [])\<rparr>"

text \<open>
  The payloads of a login without resource packs, as the server receives them, and the
  connection of a client that has downloaded the pack \<^verbatim>\<open>U\<close>.
\<close>

definition loginOps :: "operation list" where
  "loginOps = map (OpHandleIncoming (RecvPackets, 0) []) [[1], [4], [3], [8]]"

definition downloadedConn :: Conn where
  "downloadedConn = chunkConn\<lparr>bufferedSend := [[], [], [], []],
     expectedIDs := [IDResourcePackStack],
     resourcePacks := [\<lparr>pack_uuid = ''U'', pack_version = ''1.0'', pack_content = [1, 2, 3, 4, 5],
                        pack_scripts = False, pack_behaviours = False\<rparr>],
     packQueue := Some (chunkQueue\<lparr>packAmount := 0, awaitingPacks :=
       [''U'' \<mapsto> chunkPack\<lparr>expectedIndex := 2, buf := [1, 2, 3, 4, 5], newFrag := None\<rparr>]\<rparr>)\<rparr>"

section \<open>Properties\<close>

subsection \<open>Write\<close>

text \<open>
  Once it holds the mutex, \<open>Write b\<close> appends \<open>b\<close> to the flush buffer and returns
  \<open>(length b, nil)\<close>, on every connection, closed or not. Nothing is handed to the
  encoder, the transport is not touched and the close latch is not looked at.
\<close>

lemma Write_appends_and_succeeds:
  "Write b conn = ((length b, None), conn\<lparr>bufferedSend := bufferedSend conn @ [b]\<rparr>)
   \<and> sent (snd (Write b conn)) = sent conn
   \<and> transportClosed (snd (Write b conn)) = transportClosed conn
   \<and> close (snd (Write b conn)) = close conn"
  by (simp add: Write_def)




subsection \<open>Deadlines\<close>

text \<open>
  C10. \<open>SetDeadline\<close> is \<open>SetReadDeadline\<close>: the same result and the same connection
  for every time. \<open>SetWriteDeadline\<close> returns nil and leaves the connection as it is,
  and \<open>SetDeadline\<close> leaves the flush buffer and the batches sent alone, so a \<open>Write\<close>
  after it returns what it would have returned before it.
\<close>

theorem SetDeadline_is_SetReadDeadline:
  "SetDeadline t now now' conn = SetReadDeadline t now now' conn
   \<and> SetWriteDeadline t conn = (None, conn)
   \<and> bufferedSend (snd (SetDeadline t now now' conn)) = bufferedSend conn
   \<and> sent (snd (SetDeadline t now now' conn)) = sent conn
   \<and> fst (Write b (snd (SetDeadline t now now' conn))) = fst (Write b conn)"
  by (simp add: SetDeadline_def SetWriteDeadline_def SetReadDeadline_def Write_def)

text \<open>
  A time before the first clock reading is refused and the deadline stays as it was.
\<close>

lemma SetReadDeadline_past_rejected:
  "Before t now \<Longrightarrow>
   SetReadDeadline t now now' conn
     = (Some (Errorf ''error setting read deadline: time passed is before time.Now()'' []), conn)"
  by (simp add: SetReadDeadline_def)

text \<open>
  The branch for the zero time arms a timer of one million hours, before which no read
  can take the deadline case. It is taken only when the zero time is not before the
  clock reading.
\<close>

lemma SetReadDeadline_zero_branch:
  "\<not> Before TimeZero now \<Longrightarrow>
   SetReadDeadline TimeZero now now' conn
     = (None, conn\<lparr>readDeadline := Some (instant now' + 3600000000000000000)\<rparr>)"
  by (simp add: SetReadDeadline_def After_def Hour_def)

text \<open>
  C2, on the zero time. The comment of \<^verbatim>\<open>SetReadDeadline\<close> says that passing
  \<^verbatim>\<open>time.Time{}\<close> clears the read deadline. The zero time is the first instant of year 1,
  so whenever the clock reads a later instant the first test refuses it like any other
  past time: the call returns the error and the connection, its deadline included, is
  unchanged. The branch that clears the deadline is not reached.
\<close>

theorem SetReadDeadline_zero_rejected:
  assumes "0 < instant now"
  shows "SetReadDeadline TimeZero now now' conn
     = (Some (Errorf ''error setting read deadline: time passed is before time.Now()'' []), conn)"
  using assms by (simp add: SetReadDeadline_def Before_def TimeZero_def)

theorem SetReadDeadline_zero_rejected_witness:
  "0 < instant \<lparr>instant = 63900000000000000000, loc = Some 0\<rparr>
   \<and> SetReadDeadline TimeZero \<lparr>instant = 63900000000000000000, loc = Some 0\<rparr>
         \<lparr>instant = 63900000000000000001, loc = Some 0\<rparr> serverConn
       = (Some (Errorf ''error setting read deadline: time passed is before time.Now()'' []),
          serverConn)
   \<and> readDeadline serverConn = None"
  using SetReadDeadline_zero_rejected
    [of "\<lparr>instant = 63900000000000000000, loc = Some 0\<rparr>"
        "\<lparr>instant = 63900000000000000001, loc = Some 0\<rparr>" serverConn]
  by (simp add: serverConn_def newConn_def)

subsection \<open>Read\<close>

lemma selectCase_fst:
  "packets conn \<noteq> [] \<Longrightarrow> fst s = RecvPackets \<Longrightarrow> selectCase s conn = Some RecvPackets"
  by (simp add: selectCase_def ready_def)

text \<open>
  C8, as the code has it. Let the oldest queued payload be longer than the buffer. The
  \<^verbatim>\<open>select\<close> of \<open>Read\<close> takes one of the cases that are ready, and the payload is one
  of them.
  \<^item> When it takes the payload, \<open>Read\<close> returns 0 and the error that the message was
    larger than the buffer, the buffer is untouched, and the payload is gone from the
    queue. A second \<open>Read\<close> that takes a payload therefore gets the one behind it: with
    a buffer that is long enough it returns that payload's length and bytes.
  \<^item> It takes the payload whenever the connection is not closed and no read deadline has
    passed.
  \<^item> When the read deadline has passed it may take the timer instead, and when the
    connection is closed the close latch: \<open>Read\<close> then returns 0 and the timeout error,
    or the closed error, and the payload stays first in the queue.
\<close>

theorem Read_too_large_consumes:
  assumes "packets conn = data # rest" and "length b < length data"
  shows "(selectCase s conn = Some RecvPackets \<longrightarrow>
            Read s b conn = Done ((0, b, Some errTooLarge), conn\<lparr>packets := rest\<rparr>)
            \<and> (\<forall>s' b' data' rest'.
                  rest = data' # rest' \<and> length data' \<le> length b'
                  \<and> selectCase s' (conn\<lparr>packets := rest\<rparr>) = Some RecvPackets \<longrightarrow>
                  Read s' b' (conn\<lparr>packets := rest\<rparr>)
                    = Done ((length data', data' @ drop (length data') b', None),
                            conn\<lparr>packets := rest'\<rparr>)))
    \<and> (close conn = 0 \<and> (\<forall>at. readDeadline conn = Some at \<longrightarrow> snd s < at) \<longrightarrow>
            selectCase s conn = Some RecvPackets)
    \<and> (selectCase s conn = Some RecvDeadline \<longrightarrow>
            (\<exists>at. readDeadline conn = Some at \<and> at \<le> snd s)
            \<and> Read s b conn = Done ((0, b, Some errTimeout), conn\<lparr>readDeadline := None\<rparr>)
            \<and> packets (conn\<lparr>readDeadline := None\<rparr>) = data # rest)
    \<and> (selectCase s conn = Some RecvClose \<longrightarrow>
            close conn \<noteq> 0 \<and> Read s b conn = Done ((0, b, Some errClosed), conn))
    \<and> selectCase s conn \<noteq> None"
  using assms
  by (cases "readDeadline conn")
     (auto simp: Read_def selectCase_def ready_def split: if_splits)

theorem Read_too_large_consumes_witness:
  "packets (serverConn\<lparr>packets := [[1, 2, 3], [4]]\<rparr>) = [1, 2, 3] # [[4]]
   \<and> length [0, 0 :: byte] < length [1, 2, 3 :: byte]
   \<and> selectCase (RecvPackets, 0) (serverConn\<lparr>packets := [[1, 2, 3], [4]]\<rparr>) = Some RecvPackets
   \<and> Read (RecvPackets, 0) [0, 0] (serverConn\<lparr>packets := [[1, 2, 3], [4]]\<rparr>)
       = Done ((0, [0, 0], Some errTooLarge), serverConn\<lparr>packets := [[4]]\<rparr>)
   \<and> Read (RecvPackets, 0) [0, 0, 0] (serverConn\<lparr>packets := [[4]]\<rparr>)
       = Done ((1, [4, 0, 0], None), serverConn\<lparr>packets := []\<rparr>)
   \<and> selectCase (RecvClose, 0) (serverConn\<lparr>packets := [[1, 2, 3], [4]]\<rparr>) = Some RecvPackets"
proof -
  let ?c = "serverConn\<lparr>packets := [[1, 2, 3], [4]]\<rparr>"
  have p: "packets ?c = [1, 2, 3] # [[4]]" by simp
  have l: "length [0, 0 :: byte] < length [1, 2, 3 :: byte]" by simp
  have s: "selectCase (RecvPackets, 0) ?c = Some RecvPackets"
    by (simp add: selectCase_fst)
  have s': "selectCase (RecvPackets, 0) (?c\<lparr>packets := [[4]]\<rparr>) = Some RecvPackets"
    by (simp add: selectCase_fst)
  have o: "close ?c = 0" and d: "readDeadline ?c = None"
    by (simp_all add: serverConn_def newConn_def)
  from Read_too_large_consumes [OF p l, of "(RecvPackets, 0)"] s s'
  have r: "Read (RecvPackets, 0) [0, 0] ?c
       = Done ((0, [0, 0], Some errTooLarge), serverConn\<lparr>packets := [[4]]\<rparr>)
     \<and> Read (RecvPackets, 0) [0, 0, 0] (serverConn\<lparr>packets := [[4]]\<rparr>)
       = Done ((1, [4, 0, 0], None), serverConn\<lparr>packets := []\<rparr>)"
    by simp
  from Read_too_large_consumes [OF p l, of "(RecvClose, 0)"] o d
  have c: "selectCase (RecvClose, 0) ?c = Some RecvPackets" by simp
  from p l s r c show ?thesis by simp
qed

text \<open>
  C8, as stated, fails on a closed connection. A payload of three bytes is queued on a
  logged-in connection, and the connection is closed. A \<open>Read\<close> with a buffer of two
  bytes whose \<^verbatim>\<open>select\<close> takes the close latch returns the closed error, not the error
  that the message was larger than the buffer, and the payload is still first in the
  queue: a \<open>Read\<close> with a buffer of three bytes that takes a payload returns it.
\<close>

theorem Read_too_large_not_consumed_counterexample:
  "handleIncoming exampleEnv (RecvPackets, 0) [] [1, 2, 3] (serverConn\<lparr>loggedIn := True\<rparr>)
     = Done (None, serverConn\<lparr>loggedIn := True, packets := [[1, 2, 3]]\<rparr>)
   \<and> Close exampleEnv (serverConn\<lparr>loggedIn := True, packets := [[1, 2, 3]]\<rparr>)
       = (None, serverConn\<lparr>loggedIn := True, packets := [[1, 2, 3]], close := 1,
                             transportClosed := 1\<rparr>)
   \<and> Read (RecvClose, 0) [0, 0]
         (serverConn\<lparr>loggedIn := True, packets := [[1, 2, 3]], close := 1,
                       transportClosed := 1\<rparr>)
       = Done ((0, [0, 0], Some errClosed),
               serverConn\<lparr>loggedIn := True, packets := [[1, 2, 3]], close := 1,
                             transportClosed := 1\<rparr>)
   \<and> errClosed \<noteq> errTooLarge
   \<and> Read (RecvPackets, 0) [0, 0, 0]
         (serverConn\<lparr>loggedIn := True, packets := [[1, 2, 3]], close := 1,
                       transportClosed := 1\<rparr>)
       = Done ((3, [1, 2, 3], None),
               serverConn\<lparr>loggedIn := True, packets := [], close := 1,
                             transportClosed := 1\<rparr>)"
  by (simp add: handleIncoming_def enqueue_def Close_def Flush_def Read_def selectCase_def
        ready_def errClosed_def errTooLarge_def serverConn_def newConn_def exampleEnv_def)

subsection \<open>Login\<close>

lemma WritePacket_Verify [simp]: "WritePacket (env\<lparr>Verify := v\<rparr>) pk conn = WritePacket env pk conn"
  by (simp add: WritePacket_def split: sum.splits)

lemma Close_Verify [simp]: "Close (env\<lparr>Verify := v\<rparr>) conn = Close env conn"
  by (simp add: Close_def Flush_def split: option.splits)

text \<open>
  C1, as the code has it. \<^verbatim>\<open>handleLogin\<close> compares the protocol version of the client
  with the server's before anything else.
  \<^item> When they differ it writes a \<^verbatim>\<open>PlayStatus\<close> (\<^verbatim>\<open>LoginFailedServer\<close> when the client
    is newer, \<^verbatim>\<open>LoginFailedClient\<close> otherwise), closes the connection and returns what
    \<^verbatim>\<open>Close\<close> returns. The chain is not verified: the result is the same whatever
    \<^verbatim>\<open>login.Verify\<close> would say.
  \<^item> When they are equal it verifies the chain and returns a verification error when
    that fails, returns the "not authenticated" error when the chain is valid but not
    authenticated, then decodes the request, validates the identity data and the client
    data, each failure being an error of its own, and at last enables encryption.
  So a Login whose chain fails verification gets the verification error exactly when its
  protocol version is the server's.
\<close>

theorem handleLogin_protocol_first:
  "(clientProtocol \<noteq> CurrentProtocol env \<longrightarrow>
      handleLogin env (Login clientProtocol request) conn
        = Done (Close env (snd (WritePacket env
            (PkPlayStatus (PlayStatus
               (if sint (CurrentProtocol env) < sint clientProtocol
                then PlayStatusLoginFailedServer else PlayStatusLoginFailedClient)))
            (expect [IDClientToServerHandshake] conn))))
      \<and> handleLogin (env\<lparr>Verify := v\<rparr>) (Login clientProtocol request) conn
          = handleLogin env (Login clientProtocol request) conn)
   \<and> (clientProtocol = CurrentProtocol env \<longrightarrow>
        (\<forall>err. Verify env request = Inl err \<longrightarrow>
           handleLogin env (Login clientProtocol request) conn
             = Done (Some (Errorf ''error verifying login request: %v'' [AErr err]),
                     expect [IDClientToServerHandshake] conn))
      \<and> (\<forall>publicKey. Verify env request = Inr (publicKey, False) \<longrightarrow>
           handleLogin env (Login clientProtocol request) conn
             = Done (Some (Errorf ''connection %v was not authenticated to XBOX Live''
                             [AStr (RemoteAddr env)]),
                     expect [IDClientToServerHandshake] conn))
      \<and> (\<forall>publicKey idData clData err.
           Verify env request = Inr (publicKey, True)
           \<and> Decode env request = (idData, clData, Some err) \<longrightarrow>
           handleLogin env (Login clientProtocol request) conn
             = Done (Some (Errorf ''error decoding login request: %v'' [AErr err]),
                     (expect [IDClientToServerHandshake] conn)
                       \<lparr>identityData := idData, clientData := clData\<rparr>))
      \<and> (\<forall>publicKey idData clData err.
           Verify env request = Inr (publicKey, True)
           \<and> Decode env request = (idData, clData, None)
           \<and> ValidateIdentity env idData = Some err \<longrightarrow>
           handleLogin env (Login clientProtocol request) conn
             = Done (Some (Errorf ''invalid identity data: %v'' [AErr err]),
                     (expect [IDClientToServerHandshake] conn)
                       \<lparr>identityData := idData, clientData := clData\<rparr>))
      \<and> (\<forall>publicKey idData clData err.
           Verify env request = Inr (publicKey, True)
           \<and> Decode env request = (idData, clData, None)
           \<and> ValidateIdentity env idData = None
           \<and> ValidateClient env clData = Some err \<longrightarrow>
           handleLogin env (Login clientProtocol request) conn
             = Done (Some (Errorf ''invalid client data: %v'' [AErr err]),
                     (expect [IDClientToServerHandshake] conn)
                       \<lparr>identityData := idData, clientData := clData\<rparr>))
      \<and> (\<forall>publicKey idData clData.
           Verify env request = Inr (publicKey, True)
           \<and> Decode env request = (idData, clData, None)
           \<and> ValidateIdentity env idData = None
           \<and> ValidateClient env clData = None \<longrightarrow>
           handleLogin env (Login clientProtocol request) conn
             = (case enableEncryption env publicKey
                       ((expect [IDClientToServerHandshake] conn)
                          \<lparr>identityData := idData, clientData := clData\<rparr>) of
                  (Some e, conn2) \<Rightarrow>
                    Done (Some (Errorf ''error enabling encryption: %v'' [AErr e]), conn2)
                | (None, conn2) \<Rightarrow> Done (None, conn2))))"
  by (auto simp: Let_def split: prod.splits)

theorem handleLogin_protocol_first_witness:
  "CurrentProtocol exampleEnv = 340
   \<and> Verify exampleEnv [] = Inl (New ''empty chain'')
   \<and> handleLogin exampleEnv (Login 340 []) serverConn
       = Done (Some (Errorf ''error verifying login request: %v'' [AErr (New ''empty chain'')]),
               serverConn\<lparr>expectedIDs := [IDClientToServerHandshake]\<rparr>)
   \<and> Verify exampleEnv [0] = Inr (PublicKey clientKey, False)
   \<and> handleLogin exampleEnv (Login 340 [0]) serverConn
       = Done (Some (Errorf ''connection %v was not authenticated to XBOX Live''
                       [AStr ''198.51.100.7:19132'']),
               serverConn\<lparr>expectedIDs := [IDClientToServerHandshake]\<rparr>)
   \<and> (341 :: int32) \<noteq> CurrentProtocol exampleEnv
   \<and> handleLogin exampleEnv (Login 341 []) serverConn
       = Done (Close exampleEnv (snd (WritePacket exampleEnv
            (PkPlayStatus (PlayStatus PlayStatusLoginFailedServer))
            (serverConn\<lparr>expectedIDs := [IDClientToServerHandshake]\<rparr>))))"
proof -
  have cp: "CurrentProtocol exampleEnv = 340"
    and v0: "Verify exampleEnv [] = Inl (New ''empty chain'')"
    and v1: "Verify exampleEnv [0] = Inr (PublicKey clientKey, False)"
    and ra: "RemoteAddr exampleEnv = ''198.51.100.7:19132''"
    by (simp_all add: exampleEnv_def)
  have ne: "(341 :: int32) \<noteq> CurrentProtocol exampleEnv" by (simp add: cp)
  have ex: "expect [IDClientToServerHandshake] serverConn
      = serverConn\<lparr>expectedIDs := [IDClientToServerHandshake]\<rparr>"
    by (simp add: expect_def)
  note login = handleLogin_protocol_first [of _ exampleEnv _ serverConn]
  from login [of 340 "[]"] cp v0
  have a: "handleLogin exampleEnv (Login 340 []) serverConn
       = Done (Some (Errorf ''error verifying login request: %v'' [AErr (New ''empty chain'')]),
               serverConn\<lparr>expectedIDs := [IDClientToServerHandshake]\<rparr>)"
    by (simp del: handleLogin.simps add: ex)
  from login [of 340 "[0]"] cp v1 ra
  have b: "handleLogin exampleEnv (Login 340 [0]) serverConn
       = Done (Some (Errorf ''connection %v was not authenticated to XBOX Live''
                       [AStr ''198.51.100.7:19132'']),
               serverConn\<lparr>expectedIDs := [IDClientToServerHandshake]\<rparr>)"
    by (simp del: handleLogin.simps add: ex)
  from login [of 341 "[]"] ne
  have c: "handleLogin exampleEnv (Login 341 []) serverConn
       = Done (Close exampleEnv (snd (WritePacket exampleEnv
            (PkPlayStatus (PlayStatus PlayStatusLoginFailedServer))
            (serverConn\<lparr>expectedIDs := [IDClientToServerHandshake]\<rparr>))))"
    by (simp del: handleLogin.simps add: ex cp)
  show ?thesis using cp v0 v1 ne a b c by blast
qed

text \<open>
  C1, as stated, fails: a Login with an older protocol version and a chain that does not
  verify is answered with a \<^verbatim>\<open>PlayStatus\<close> and a closed connection, and the handler
  returns nil, not a verification error.
\<close>

theorem handleLogin_protocol_first_counterexample:
  "Verify exampleEnv [] = Inl (New ''empty chain'')
   \<and> (339 :: int32) \<noteq> CurrentProtocol exampleEnv
   \<and> handleLogin exampleEnv (Login 339 []) serverConn
       = Done (None,
           serverConn\<lparr>expectedIDs := [IDClientToServerHandshake], sent := [[[]]],
                      close := 1, transportClosed := 1\<rparr>)"
  by (simp add: exampleEnv_def serverConn_def newConn_def expect_def WritePacket_def Write_def
        Close_def Flush_def)

subsection \<open>The shared key\<close>

lemma enableEncryption_keys:
  assumes "enableEncryption env clientPublicKey conn = (None, conn')"
  shows "encoderKey conn'
      = Some (Sum256 env (salt conn @
          Bytes (fst (ScalarMult env (Curve clientPublicKey)
                        (X clientPublicKey, Y clientPublicKey) (Bytes (D (privateKey conn)))))))
    \<and> decoderKey conn' = encoderKey conn'"
  using assms
  by (auto simp: enableEncryption_def WritePacket_def Write_def Flush_def Let_def
        split: sum.splits prod.splits option.splits if_splits)

lemma handleServerToClientHandshake_keys:
  assumes "parseServerToClientHandshake env jwt = Inr (pubKey, salt')"
    and "handleServerToClientHandshake env (ServerToClientHandshake jwt) conn = Done (r, conn')"
  shows "encoderKey conn'
      = Some (Sum256 env (salt' @
          Bytes (fst (ScalarMult env (Curve pubKey) (X pubKey, Y pubKey)
                        (Bytes (D (privateKey conn)))))))
    \<and> decoderKey conn' = encoderKey conn'"
  using assms
  by (auto simp: WritePacket_def Write_def Let_def split: sum.splits)

text \<open>
  C3. The server, in \<^verbatim>\<open>enableEncryption\<close>, and the client, in
  \<^verbatim>\<open>handleServerToClientHandshake\<close>, each enable the encoder and the decoder with the
  key \<open>SHA-256(salt \<parallel> x)\<close>, where \<open>x\<close> is the big-endian X coordinate of the
  scalar product of the peer's public key and the own private key. Let the two key pairs
  match (each public key is the private key times the same base point, on the same
  curve), let the handshake carry the server's public key and salt to the client, and let
  scalar multiplication on the curve commute, which is the property an ECDH exchange rests
  on. Then both ends hold the same key, in both directions.
\<close>

theorem shared_key_agrees:
  fixes server client :: Conn
  assumes comm: "\<forall>P a b. ScalarMult env curve (ScalarMult env curve P a) b
                         = ScalarMult env curve (ScalarMult env curve P b) a"
    and skey: "Curve (PublicKey (privateKey server)) = curve
               \<and> (X (PublicKey (privateKey server)), Y (PublicKey (privateKey server)))
                   = ScalarMult env curve G (Bytes (D (privateKey server)))"
    and ckey: "Curve (PublicKey (privateKey client)) = curve
               \<and> (X (PublicKey (privateKey client)), Y (PublicKey (privateKey client)))
                   = ScalarMult env curve G (Bytes (D (privateKey client)))"
    and srv: "enableEncryption env (PublicKey (privateKey client)) server = (None, server')"
    and parse: "parseServerToClientHandshake env jwt
                  = Inr (PublicKey (privateKey server), salt server)"
    and cli: "handleServerToClientHandshake env (ServerToClientHandshake jwt) client
                  = Done (r, client')"
  shows "encoderKey server'
      = Some (Sum256 env (salt server @
          Bytes (fst (ScalarMult env curve
                        (X (PublicKey (privateKey client)), Y (PublicKey (privateKey client)))
                        (Bytes (D (privateKey server)))))))
    \<and> decoderKey server' = encoderKey server'
    \<and> encoderKey client'
      = Some (Sum256 env (salt server @
          Bytes (fst (ScalarMult env curve
                        (X (PublicKey (privateKey server)), Y (PublicKey (privateKey server)))
                        (Bytes (D (privateKey client)))))))
    \<and> decoderKey client' = encoderKey client'
    \<and> encoderKey client' = encoderKey server'"
proof -
  let ?ds = "Bytes (D (privateKey server))" and ?dc = "Bytes (D (privateKey client))"
  have s: "encoderKey server'
      = Some (Sum256 env (salt server @
          Bytes (fst (ScalarMult env curve
                        (X (PublicKey (privateKey client)), Y (PublicKey (privateKey client))) ?ds))))"
    and sd: "decoderKey server' = encoderKey server'"
    using enableEncryption_keys [OF srv] ckey by simp_all
  have c: "encoderKey client'
      = Some (Sum256 env (salt server @
          Bytes (fst (ScalarMult env curve
                        (X (PublicKey (privateKey server)), Y (PublicKey (privateKey server))) ?dc))))"
    and cd: "decoderKey client' = encoderKey client'"
    using handleServerToClientHandshake_keys [OF parse cli] skey by simp_all
  have "ScalarMult env curve (ScalarMult env curve G ?dc) ?ds
      = ScalarMult env curve (ScalarMult env curve G ?ds) ?dc"
    using comm by blast
  with skey ckey have "ScalarMult env curve
           (X (PublicKey (privateKey client)), Y (PublicKey (privateKey client))) ?ds
      = ScalarMult env curve
           (X (PublicKey (privateKey server)), Y (PublicKey (privateKey server))) ?dc"
    by simp
  with s c have "encoderKey client' = encoderKey server'" by simp
  with s sd c cd show ?thesis by blast
qed

lemma Bytes_3: "Bytes 3 = [3]" and Bytes_5: "Bytes 5 = [5]" and Bytes_15: "Bytes 15 = [15]"
  by (simp_all add: Bytes_def natBytes.simps [of 3] natBytes.simps [of 5] natBytes.simps [of 15]
        natBytes.simps [of 0])

lemma toy_commutes:
  "\<forall>P a b. ScalarMult exampleEnv ''toy'' (ScalarMult exampleEnv ''toy'' P a) b
           = ScalarMult exampleEnv ''toy'' (ScalarMult exampleEnv ''toy'' P b) a"
  by (simp add: exampleEnv_def split: prod.splits)

lemma natOfBytes_zeros [simp]: "natOfBytes (replicate k 0 @ bs) = natOfBytes bs"
  by (induction k) (simp_all add: natOfBytes_def)

lemma natOfBytes_single [simp]: "natOfBytes [b] = unat b"
  by (simp add: natOfBytes_def)

theorem shared_key_agrees_witness:
  "(\<forall>P a b. ScalarMult exampleEnv ''toy'' (ScalarMult exampleEnv ''toy'' P a) b
            = ScalarMult exampleEnv ''toy'' (ScalarMult exampleEnv ''toy'' P b) a)
   \<and> PublicKey (privateKey serverConn) = \<lparr>Curve = ''toy'', X = 3, Y = 3\<rparr>
   \<and> ScalarMult exampleEnv ''toy'' (1, 1) (Bytes (D (privateKey serverConn))) = (3, 3)
   \<and> PublicKey (privateKey clientConn) = \<lparr>Curve = ''toy'', X = 5, Y = 5\<rparr>
   \<and> ScalarMult exampleEnv ''toy'' (1, 1) (Bytes (D (privateKey clientConn))) = (5, 5)
   \<and> enableEncryption exampleEnv (PublicKey (privateKey clientConn)) serverConn
       = (None, serverConn\<lparr>sent := [[[]]], encoderKey := Some 15, decoderKey := Some 15\<rparr>)
   \<and> parseServerToClientHandshake exampleEnv [1]
       = Inr (PublicKey (privateKey serverConn), salt serverConn)
   \<and> handleServerToClientHandshake exampleEnv (ServerToClientHandshake [1]) clientConn
       = Done (None, clientConn\<lparr>bufferedSend := [[]], encoderKey := Some 15, decoderKey := Some 15\<rparr>)
   \<and> encoderKey (clientConn\<lparr>bufferedSend := [[]], encoderKey := Some 15, decoderKey := Some 15\<rparr>)
       = encoderKey (serverConn\<lparr>sent := [[[]]], encoderKey := Some 15, decoderKey := Some 15\<rparr>)"
proof -
  have sk: "PublicKey (privateKey serverConn) = \<lparr>Curve = ''toy'', X = 3, Y = 3\<rparr>"
    and ck: "PublicKey (privateKey clientConn) = \<lparr>Curve = ''toy'', X = 5, Y = 5\<rparr>"
    and ds: "D (privateKey serverConn) = 3" and dc: "D (privateKey clientConn) = 5"
    and sa: "salt serverConn = replicate 16 0"
    by (simp_all add: serverConn_def clientConn_def newConn_def serverKey_def clientKey_def
          expect_def)
  have sg: "ScalarMult exampleEnv ''toy'' (1, 1) (Bytes (D (privateKey serverConn))) = (3, 3)"
    and cg: "ScalarMult exampleEnv ''toy'' (1, 1) (Bytes (D (privateKey clientConn))) = (5, 5)"
    by (simp_all add: ds dc Bytes_3 Bytes_5 exampleEnv_def)
  have srv: "enableEncryption exampleEnv (PublicKey (privateKey clientConn)) serverConn
       = (None, serverConn\<lparr>sent := [[[]]], encoderKey := Some 15, decoderKey := Some 15\<rparr>)"
    by (simp add: ck enableEncryption_def exampleEnv_def WritePacket_def Write_def Flush_def
          serverConn_def newConn_def serverKey_def Bytes_3 Bytes_15)
  have parse: "parseServerToClientHandshake exampleEnv [1]
       = Inr (PublicKey (privateKey serverConn), salt serverConn)"
    by (simp add: parseServerToClientHandshake_def exampleEnv_def TrimRight_def
          serverConn_def newConn_def)
  have cli: "handleServerToClientHandshake exampleEnv (ServerToClientHandshake [1]) clientConn
       = Done (None, clientConn\<lparr>bufferedSend := [[]], encoderKey := Some 15, decoderKey := Some 15\<rparr>)"
    by (simp add: parse sk sa dc Bytes_5)
       (simp add: exampleEnv_def WritePacket_def Write_def clientConn_def
          newConn_def expect_def Bytes_15)
  have sk': "Curve (PublicKey (privateKey serverConn)) = ''toy''
             \<and> (X (PublicKey (privateKey serverConn)), Y (PublicKey (privateKey serverConn)))
                 = ScalarMult exampleEnv ''toy'' (1, 1) (Bytes (D (privateKey serverConn)))"
    by (simp add: sk sg)
  have ck': "Curve (PublicKey (privateKey clientConn)) = ''toy''
             \<and> (X (PublicKey (privateKey clientConn)), Y (PublicKey (privateKey clientConn)))
                 = ScalarMult exampleEnv ''toy'' (1, 1) (Bytes (D (privateKey clientConn)))"
    by (simp add: ck cg)
  from shared_key_agrees [OF toy_commutes sk' ck' srv parse cli]
  have agree: "encoderKey (clientConn\<lparr>bufferedSend := [[]], encoderKey := Some 15, decoderKey := Some 15\<rparr>)
       = encoderKey (serverConn\<lparr>sent := [[[]]], encoderKey := Some 15, decoderKey := Some 15\<rparr>)"
    by blast
  show ?thesis using toy_commutes sk ck sg cg srv parse cli agree by blast
qed

subsection \<open>The logged-in latch\<close>

text \<open>
  What each method and each handler does to \<open>loggedIn\<close>. Only two handlers assign
  the field, and both assign \<open>True\<close>.
\<close>

lemma WritePacket_loggedIn [simp]: "loggedIn (snd (WritePacket env pk conn)) = loggedIn conn"
  by (simp add: WritePacket_def Write_def split: sum.splits)

lemma Flush_loggedIn [simp]: "loggedIn (snd (Flush env conn)) = loggedIn conn"
  by (simp add: Flush_def split: option.splits)

lemma Close_loggedIn [simp]: "loggedIn (snd (Close env conn)) = loggedIn conn"
proof -
  obtain r c where f: "Flush env conn = (r, c)" by (cases "Flush env conn")
  then have "loggedIn c = loggedIn conn" using Flush_loggedIn [of env conn] by simp
  then show ?thesis by (simp add: Close_def f)
qed

lemma expect_loggedIn [simp]: "loggedIn (expect ids conn) = loggedIn conn"
  by (simp add: expect_def)

lemma setAwaiting_loggedIn [simp]: "loggedIn (setAwaiting uuid pack conn) = loggedIn conn"
  by (simp add: setAwaiting_def split: option.splits)

lemma enableEncryption_loggedIn [simp]:
  "loggedIn (snd (enableEncryption env k conn)) = loggedIn conn"
  by (simp add: enableEncryption_def WritePacket_def Write_def Flush_def Let_def
      split: sum.splits prod.splits option.splits)

lemma fetcherDone_loggedIn [simp]: "loggedIn (fetcherDone env pack conn) = loggedIn conn"
  by (simp add: fetcherDone_def Let_def split: sum.splits option.splits)

lemma fetcherLoop_loggedIn [simp]:
  "loggedIn (fetcherLoop env uuid pack i n conn) = loggedIn conn"
  by (simp add: fetcherLoop_def)

lemma nextResourcePackDownload_loggedIn:
  "nextResourcePackDownload env conn = Done (r, conn') \<Longrightarrow> loggedIn conn' = loggedIn conn"
  by (auto simp: nextResourcePackDownload_def WritePacket_def Write_def
      split: option.splits prod.splits sum.splits)

lemma WritePacket_loggedInD:
  "WritePacket env pk conn = (r, conn') \<Longrightarrow> loggedIn conn' = loggedIn conn"
  using WritePacket_loggedIn [of env pk conn] by simp

lemma Close_loggedInD:
  "Close env conn = (r, conn') \<Longrightarrow> loggedIn conn' = loggedIn conn"
  using Close_loggedIn [of env conn] by simp

lemma enableEncryption_loggedInD:
  "enableEncryption env k conn = (r, conn') \<Longrightarrow> loggedIn conn' = loggedIn conn"
  using enableEncryption_loggedIn [of env k conn] by simp

lemma handleLogin_loggedIn:
  "handleLogin env pk conn = Done (r, conn') \<Longrightarrow> loggedIn conn' = loggedIn conn"
  by (cases pk)
     (auto simp: Let_def expect_def
       split: sum.splits prod.splits if_splits option.splits
       dest!: WritePacket_loggedInD Close_loggedInD enableEncryption_loggedInD)

lemma handleClientToServerHandshake_loggedIn:
  "handleClientToServerHandshake env conn = Done (r, conn') \<Longrightarrow> loggedIn conn' = loggedIn conn"
  by (auto simp: handleClientToServerHandshake_def Let_def expect_def
       split: prod.splits option.splits dest!: WritePacket_loggedInD)

lemma handleServerToClientHandshake_loggedIn:
  "handleServerToClientHandshake env pk conn = Done (r, conn') \<Longrightarrow> loggedIn conn' = loggedIn conn"
  by (cases pk)
     (auto simp: Let_def split: sum.splits prod.splits dest!: WritePacket_loggedInD)

lemma handlePlayStatus_loggedIn:
  "handlePlayStatus env pk conn = Done (r, conn') \<Longrightarrow> loggedIn conn' = loggedIn conn"
  by (cases pk) (auto split: PlayStatusCode.splits)

lemma handleResourcePacksInfo_loggedIn:
  "handleResourcePacksInfo env pk conn = Done (r, conn') \<Longrightarrow> loggedIn conn' = loggedIn conn"
  by (cases pk)
     (auto simp: Let_def expect_def split: outcome.splits prod.splits if_splits
       dest!: WritePacket_loggedInD)

lemma handleResourcePackDataInfo_loggedIn:
  "handleResourcePackDataInfo env pk conn = Done (r, conn') \<Longrightarrow> loggedIn conn' = loggedIn conn"
  by (cases pk) (auto simp: Let_def split: option.splits if_splits)

lemma handleResourcePackChunkData_loggedIn:
  "handleResourcePackChunkData env pk conn = Done (r, conn') \<Longrightarrow> loggedIn conn' = loggedIn conn"
  by (cases pk) (auto simp: Let_def split: option.splits if_splits prod.splits)

lemma chunkRequestDeferred_loggedIn:
  "chunkRequestDeferred env conn = Done conn' \<Longrightarrow> loggedIn conn' = loggedIn conn"
  by (auto simp: chunkRequestDeferred_def split: option.splits if_splits outcome.splits
       dest!: nextResourcePackDownload_loggedIn)

lemma writeChunkData_loggedInD:
  "writeChunkData env pk conn = (r, conn') \<Longrightarrow> loggedIn conn' = loggedIn conn"
  by (auto simp: writeChunkData_def split: prod.splits option.splits dest!: WritePacket_loggedInD)

lemma handleResourcePackChunkRequest_loggedIn:
  "handleResourcePackChunkRequest env pk conn = Done (r, conn') \<Longrightarrow> loggedIn conn' = loggedIn conn"
  by (cases pk)
     (auto simp: Let_def split: option.splits if_splits prod.splits outcome.splits
       dest!: writeChunkData_loggedInD chunkRequestDeferred_loggedIn)

lemma handleResourcePackClientResponse_loggedIn:
  "handleResourcePackClientResponse env (ResourcePackClientResponse response ps) conn = Done (r, conn')
   \<Longrightarrow> loggedIn conn' = (loggedIn conn \<or> response = PackResponseCompleted)"
  by (auto simp: Let_def split: PackResponse.splits prod.splits option.splits outcome.splits
       dest!: WritePacket_loggedInD Close_loggedInD nextResourcePackDownload_loggedIn)

lemma handleResourcePackStack_cases:
  assumes h: "handleResourcePackStack env (ResourcePackStack required bps tps) conn = Done (r, conn')"
  shows "(conn' = conn \<and> r \<noteq> None)
     \<or> (stackLoop ''texture pack {uuid=%v, version=%v} not downloaded'' False tps conn = None
        \<and> stackLoop ''behaviour pack {uuid=%v, version=%v} not downloaded'' True bps conn = None
        \<and> connectedRecv conn \<noteq> 0 \<and> loggedIn conn'
        \<and> connectedSent conn' = connectedSent conn + 1)"
proof (cases "stackLoop ''texture pack {uuid=%v, version=%v} not downloaded'' False tps conn")
  case (Some e)
  with h have "r = Some e \<and> conn' = conn" by auto
  then show ?thesis by simp
next
  case None
  note t = None
  show ?thesis
  proof (cases "stackLoop ''behaviour pack {uuid=%v, version=%v} not downloaded'' True bps conn")
    case (Some e)
    with h t have "r = Some e \<and> conn' = conn" by auto
    then show ?thesis by simp
  next
    case None
    with h t show ?thesis
      by (auto simp: Let_def WritePacket_def Write_def split: if_splits sum.splits)
  qed
qed

lemma ReadPacket_loop_loggedIn:
  "ReadPacket_loop env q s ss conn = Done (r, conn') \<Longrightarrow> loggedIn conn' = loggedIn conn"
proof (induction q arbitrary: s ss)
  case Nil
  then show ?case by (auto split: option.splits select.splits)
next
  case (Cons data rest)
  then show ?case
    by (auto split: option.splits select.splits list.splits)
qed

lemma ReadPacket_loggedIn:
  "ReadPacket env s ss conn = Done (r, conn') \<Longrightarrow> loggedIn conn' = loggedIn conn"
  unfolding ReadPacket_def by (rule ReadPacket_loop_loggedIn)

lemma Read_loggedIn:
  "Read s b conn = Done (r, conn') \<Longrightarrow> loggedIn conn' = loggedIn conn"
  by (auto simp: Read_def split: option.splits select.splits list.splits if_splits)

lemma dispatch_loggedIn:
  assumes "dispatch env pk conn = Done (r, conn')"
  shows "loggedIn conn' = loggedIn conn
     \<or> (loggedIn conn' \<and>
        ((\<exists>required bps tps. pk = PkResourcePackStack (ResourcePackStack required bps tps)
            \<and> stackLoop ''texture pack {uuid=%v, version=%v} not downloaded'' False tps conn = None
            \<and> stackLoop ''behaviour pack {uuid=%v, version=%v} not downloaded'' True bps conn = None
            \<and> connectedRecv conn \<noteq> 0 \<and> connectedSent conn' = connectedSent conn + 1)
         \<or> (\<exists>ps. pk = PkResourcePackClientResponse (ResourcePackClientResponse PackResponseCompleted ps))))"
proof (cases pk)
  case (PkLogin x)
  with assms show ?thesis by (simp add: handleLogin_loggedIn)
next
  case PkClientToServerHandshake
  with assms show ?thesis by (simp add: handleClientToServerHandshake_loggedIn)
next
  case (PkResourcePackClientResponse x)
  obtain response ps where x: "x = ResourcePackClientResponse response ps" by (cases x)
  with assms PkResourcePackClientResponse
  have "loggedIn conn' = (loggedIn conn \<or> response = PackResponseCompleted)"
    by (simp add: handleResourcePackClientResponse_loggedIn)
  with x PkResourcePackClientResponse show ?thesis by auto
next
  case (PkResourcePackChunkRequest x)
  with assms show ?thesis by (simp add: handleResourcePackChunkRequest_loggedIn)
next
  case PkRequestChunkRadius
  with assms show ?thesis by simp
next
  case (PkServerToClientHandshake x)
  with assms show ?thesis by (simp add: handleServerToClientHandshake_loggedIn)
next
  case (PkPlayStatus x)
  with assms show ?thesis by (simp add: handlePlayStatus_loggedIn)
next
  case (PkResourcePacksInfo x)
  with assms show ?thesis by (simp add: handleResourcePacksInfo_loggedIn)
next
  case (PkResourcePackDataInfo x)
  with assms show ?thesis by (simp add: handleResourcePackDataInfo_loggedIn)
next
  case (PkResourcePackChunkData x)
  with assms show ?thesis by (simp add: handleResourcePackChunkData_loggedIn)
next
  case (PkResourcePackStack x)
  obtain required bps tps where x: "x = ResourcePackStack required bps tps" by (cases x)
  with assms PkResourcePackStack
  have "handleResourcePackStack env (ResourcePackStack required bps tps) conn = Done (r, conn')"
    by simp
  from handleResourcePackStack_cases [OF this] x PkResourcePackStack show ?thesis by auto
next
  case PkStartGame
  with assms show ?thesis by simp
next
  case (PkDisconnect x)
  with assms show ?thesis by (cases x) auto
next
  case (PkOther pid payload)
  with assms show ?thesis by simp
qed

lemma enqueue_loggedIn: "enqueue data conn = Done conn1 \<Longrightarrow> loggedIn conn1 = loggedIn conn"
  by (auto simp: enqueue_def split: if_splits)

lemma handleIncoming_loggedIn:
  assumes "handleIncoming env s ss data conn = Done (r, conn')"
  shows "loggedIn conn' = loggedIn conn
     \<or> (\<not> loggedIn conn \<and> loggedIn conn' \<and>
        (\<exists>conn1 conn2 pk. enqueue data conn = Done conn1
           \<and> ReadPacket env s ss conn1 = Done (Inr pk, conn2)
           \<and> found_loop (expectedIDs conn2) (ID pk)
           \<and> ((\<exists>required bps tps. pk = PkResourcePackStack (ResourcePackStack required bps tps)
                 \<and> stackLoop ''texture pack {uuid=%v, version=%v} not downloaded'' False tps conn2 = None
                 \<and> stackLoop ''behaviour pack {uuid=%v, version=%v} not downloaded'' True bps conn2 = None
                 \<and> connectedRecv conn2 \<noteq> 0 \<and> connectedSent conn' = connectedSent conn2 + 1)
              \<or> (\<exists>ps. pk = PkResourcePackClientResponse
                            (ResourcePackClientResponse PackResponseCompleted ps)))))"
proof (cases "enqueue data conn")
  case (Done conn1)
  note e = Done
  have l1: "loggedIn conn1 = loggedIn conn" using e by (rule enqueue_loggedIn)
  show ?thesis
  proof (cases "loggedIn conn1")
    case True
    with assms e l1 show ?thesis by (auto simp: handleIncoming_def)
  next
    case False
    note nl = False
    show ?thesis
    proof (cases "ReadPacket env s ss conn1")
      case (Done x)
      obtain res conn2 where x: "x = (res, conn2)" by (cases x)
      have l2: "loggedIn conn2 = loggedIn conn1"
        using Done x ReadPacket_loggedIn by blast
      show ?thesis
      proof (cases res)
        case (Inl err)
        with assms e nl Done x l1 l2 show ?thesis by (auto simp: handleIncoming_def)
      next
        case (Inr pk)
        show ?thesis
        proof (cases "found_loop (expectedIDs conn2) (ID pk)")
          case False
          with assms e nl Done x Inr l1 l2 show ?thesis by (auto simp: handleIncoming_def)
        next
          case True
          with assms e nl Done x Inr have d: "dispatch env pk conn2 = Done (r, conn')"
            by (simp add: handleIncoming_def)
          from dispatch_loggedIn [OF d] l1 l2 nl e Done x Inr True show ?thesis
            by auto
        qed
      qed
    next
      case Blocks
      with assms e nl show ?thesis by (simp add: handleIncoming_def)
    next
      case Panics
      with assms e nl show ?thesis by (simp add: handleIncoming_def)
    qed
  qed
next
  case Blocks
  with assms show ?thesis by (simp add: handleIncoming_def)
next
  case Panics
  with assms show ?thesis by (simp add: handleIncoming_def)
qed

lemma step_loggedIn_mono:
  assumes "step env op conn = Done conn'" and "loggedIn conn"
  shows "loggedIn conn'"
proof (cases op)
  case (OpHandleIncoming s ss data)
  with assms(1) obtain r where "handleIncoming env s ss data conn = Done (r, conn')"
    by (auto split: outcome.splits)
  from handleIncoming_loggedIn [OF this] assms(2) show ?thesis by auto
next
  case (OpRead s b)
  with assms show ?thesis by (auto split: outcome.splits dest: Read_loggedIn)
next
  case (OpReadPacket s ss)
  with assms show ?thesis by (auto split: outcome.splits dest: ReadPacket_loggedIn)
qed (use assms in \<open>auto simp: Write_def SetDeadline_def SetReadDeadline_def SetWriteDeadline_def\<close>)

lemma run_loggedIn_all:
  "loggedIn conn \<Longrightarrow> c \<in> set (run env ops conn) \<Longrightarrow> loggedIn c"
proof (induction ops arbitrary: conn)
  case Nil
  then show ?case by simp
next
  case (Cons op ops)
  show ?case
  proof (cases "step env op conn")
    case (Done conn')
    then have "loggedIn conn'" using Cons.prems(1) by (rule step_loggedIn_mono)
    with Cons.IH [of conn'] Cons.prems Done show ?thesis by auto
  next
    case Blocks
    with Cons.prems show ?thesis by simp
  next
    case Panics
    with Cons.prems show ?thesis by simp
  qed
qed

lemma run_loggedIn_sorted:
  "i \<le> j \<Longrightarrow> j < length (run env ops conn) \<Longrightarrow> loggedIn (run env ops conn ! i)
   \<Longrightarrow> loggedIn (run env ops conn ! j)"
proof (induction ops arbitrary: conn i j)
  case Nil
  then show ?case by simp
next
  case (Cons op ops)
  show ?case
  proof (cases i)
    case 0
    with Cons.prems have "loggedIn conn" by simp
    moreover have "run env (op # ops) conn ! j \<in> set (run env (op # ops) conn)"
      using Cons.prems(2) nth_mem by blast
    ultimately show ?thesis by (rule run_loggedIn_all)
  next
    case (Suc i')
    with Cons.prems obtain j' where j: "j = Suc j'" by (cases j) auto
    show ?thesis
    proof (cases "step env op conn")
      case (Done conn')
      with Cons.prems Suc j Cons.IH [of i' j' conn'] show ?thesis by simp
    next
      case Blocks
      with Cons.prems j show ?thesis by simp
    next
      case Panics
      with Cons.prems j show ?thesis by simp
    qed
  qed
qed

lemma step_loggedIn_set:
  assumes st: "step env op c = Done c'" and n: "\<not> loggedIn c" and l: "loggedIn c'"
  shows "\<exists>s ss data c1 c2 pk.
           op = OpHandleIncoming s ss data
           \<and> enqueue data c = Done c1
           \<and> ReadPacket env s ss c1 = Done (Inr pk, c2)
           \<and> found_loop (expectedIDs c2) (ID pk)
           \<and> ((\<exists>required bps tps.
                  pk = PkResourcePackStack (ResourcePackStack required bps tps)
                  \<and> stackLoop ''texture pack {uuid=%v, version=%v} not downloaded'' False tps c2 = None
                  \<and> stackLoop ''behaviour pack {uuid=%v, version=%v} not downloaded'' True bps c2 = None
                  \<and> connectedRecv c2 \<noteq> 0 \<and> connectedSent c' = connectedSent c2 + 1)
              \<or> (\<exists>ps. pk = PkResourcePackClientResponse
                            (ResourcePackClientResponse PackResponseCompleted ps)))"
proof (cases op)
  case (OpHandleIncoming s ss data)
  with st obtain r where h: "handleIncoming env s ss data c = Done (r, c')"
    by (auto split: outcome.splits)
  from handleIncoming_loggedIn [OF h] n l OpHandleIncoming show ?thesis by blast
next
  case (OpRead s b)
  with st n l show ?thesis by (auto split: outcome.splits dest: Read_loggedIn)
next
  case (OpReadPacket s ss)
  with st n l show ?thesis by (auto split: outcome.splits dest: ReadPacket_loggedIn)
qed (use st n l in \<open>auto simp: Write_def SetDeadline_def SetReadDeadline_def SetWriteDeadline_def split: if_splits\<close>)

lemma handleResourcePackStack_valid:
  assumes "stackLoop ''texture pack {uuid=%v, version=%v} not downloaded'' False tps conn = None"
    and "stackLoop ''behaviour pack {uuid=%v, version=%v} not downloaded'' True bps conn = None"
  shows "handleResourcePackStack env (ResourcePackStack required bps tps) conn
     = (if connectedRecv conn = 0 then Blocks
        else Done (WritePacket env
                     (PkResourcePackClientResponse (ResourcePackClientResponse PackResponseCompleted []))
                     (conn\<lparr>connectedRecv := connectedRecv conn - 1,
                            connectedSent := connectedSent conn + 1,
                            loggedIn := True\<rparr>)))"
  using assms by (simp add: Let_def)

lemma handleResourcePackStack_invalid:
  assumes "stackLoop ''texture pack {uuid=%v, version=%v} not downloaded'' False tps conn \<noteq> None
     \<or> stackLoop ''behaviour pack {uuid=%v, version=%v} not downloaded'' True bps conn \<noteq> None"
  shows "\<exists>err. handleResourcePackStack env (ResourcePackStack required bps tps) conn = Done (Some err, conn)"
  using assms by (auto split: option.splits)

text \<open>
  C7. The latch \<open>loggedIn\<close> goes from false to true at most once and never back:
  \<^item> along every run of calls on a connection, once a state is logged in every later
    state is;
  \<^item> a call that turns the latch on is a \<^verbatim>\<open>handleIncoming\<close> whose packet, read and
    expected, is either a \<^verbatim>\<open>ResourcePackStack\<close> all of whose packs the connection holds
    (the client) or a \<^verbatim>\<open>ResourcePackClientResponse\<close> with response \<^verbatim>\<open>Completed\<close> (the
    server);
  \<^item> the server's handler of \<^verbatim>\<open>Completed\<close> sets the latch and does nothing else;
  \<^item> the client's handler of a valid stack first signals \<^verbatim>\<open>connected\<close>, and waits for
    ever with nothing done when nobody receives the signal; it then sets the latch, and
    only then writes the reply \<^verbatim>\<open>ResourcePackClientResponse{Completed}\<close>, on a
    connection that is already logged in, whatever the write returns;
  \<^item> a stack that names a pack the connection does not hold is an error and leaves the
    connection as it was.
\<close>

theorem loggedIn_latch:
  "(\<forall>i j. i \<le> j \<and> j < length (run env ops conn) \<and> loggedIn (run env ops conn ! i)
          \<longrightarrow> loggedIn (run env ops conn ! j))
   \<and> (\<forall>op c c'. step env op c = Done c' \<and> \<not> loggedIn c \<and> loggedIn c' \<longrightarrow>
         (\<exists>s ss data c1 c2 pk.
            op = OpHandleIncoming s ss data
            \<and> enqueue data c = Done c1
            \<and> ReadPacket env s ss c1 = Done (Inr pk, c2)
            \<and> found_loop (expectedIDs c2) (ID pk)
            \<and> ((\<exists>required bps tps.
                   pk = PkResourcePackStack (ResourcePackStack required bps tps)
                   \<and> stackLoop ''texture pack {uuid=%v, version=%v} not downloaded'' False tps c2 = None
                   \<and> stackLoop ''behaviour pack {uuid=%v, version=%v} not downloaded'' True bps c2 = None
                   \<and> connectedRecv c2 \<noteq> 0 \<and> connectedSent c' = connectedSent c2 + 1)
               \<or> (\<exists>ps. pk = PkResourcePackClientResponse
                             (ResourcePackClientResponse PackResponseCompleted ps)))))
   \<and> handleResourcePackClientResponse env (ResourcePackClientResponse PackResponseCompleted ps) conn
       = Done (None, conn\<lparr>loggedIn := True\<rparr>)
   \<and> (stackLoop ''texture pack {uuid=%v, version=%v} not downloaded'' False tps conn = None
      \<and> stackLoop ''behaviour pack {uuid=%v, version=%v} not downloaded'' True bps conn = None
      \<longrightarrow> handleResourcePackStack env (ResourcePackStack required bps tps) conn
          = (if connectedRecv conn = 0 then Blocks
             else Done (WritePacket env
                          (PkResourcePackClientResponse
                             (ResourcePackClientResponse PackResponseCompleted []))
                          (conn\<lparr>connectedRecv := connectedRecv conn - 1,
                                 connectedSent := connectedSent conn + 1,
                                 loggedIn := True\<rparr>))))
   \<and> (stackLoop ''texture pack {uuid=%v, version=%v} not downloaded'' False tps conn \<noteq> None
      \<or> stackLoop ''behaviour pack {uuid=%v, version=%v} not downloaded'' True bps conn \<noteq> None
      \<longrightarrow> (\<exists>err. handleResourcePackStack env (ResourcePackStack required bps tps) conn
                   = Done (Some err, conn)))"
proof (intro conjI allI impI)
  fix i j
  assume "i \<le> j \<and> j < length (run env ops conn) \<and> loggedIn (run env ops conn ! i)"
  then show "loggedIn (run env ops conn ! j)"
    using run_loggedIn_sorted by blast
next
  fix op c c'
  assume "step env op c = Done c' \<and> \<not> loggedIn c \<and> loggedIn c'"
  then show "\<exists>s ss data c1 c2 pk.
            op = OpHandleIncoming s ss data
            \<and> enqueue data c = Done c1
            \<and> ReadPacket env s ss c1 = Done (Inr pk, c2)
            \<and> found_loop (expectedIDs c2) (ID pk)
            \<and> ((\<exists>required bps tps.
                   pk = PkResourcePackStack (ResourcePackStack required bps tps)
                   \<and> stackLoop ''texture pack {uuid=%v, version=%v} not downloaded'' False tps c2 = None
                   \<and> stackLoop ''behaviour pack {uuid=%v, version=%v} not downloaded'' True bps c2 = None
                   \<and> connectedRecv c2 \<noteq> 0 \<and> connectedSent c' = connectedSent c2 + 1)
               \<or> (\<exists>ps. pk = PkResourcePackClientResponse
                             (ResourcePackClientResponse PackResponseCompleted ps)))"
    using step_loggedIn_set by blast
next
  show "handleResourcePackClientResponse env (ResourcePackClientResponse PackResponseCompleted ps) conn
       = Done (None, conn\<lparr>loggedIn := True\<rparr>)"
    by simp
next
  assume "stackLoop ''texture pack {uuid=%v, version=%v} not downloaded'' False tps conn = None
      \<and> stackLoop ''behaviour pack {uuid=%v, version=%v} not downloaded'' True bps conn = None"
  then show "handleResourcePackStack env (ResourcePackStack required bps tps) conn
          = (if connectedRecv conn = 0 then Blocks
             else Done (WritePacket env
                          (PkResourcePackClientResponse
                             (ResourcePackClientResponse PackResponseCompleted []))
                          (conn\<lparr>connectedRecv := connectedRecv conn - 1,
                                 connectedSent := connectedSent conn + 1,
                                 loggedIn := True\<rparr>)))"
    using handleResourcePackStack_valid by blast
next
  assume "stackLoop ''texture pack {uuid=%v, version=%v} not downloaded'' False tps conn \<noteq> None
      \<or> stackLoop ''behaviour pack {uuid=%v, version=%v} not downloaded'' True bps conn \<noteq> None"
  then show "\<exists>err. handleResourcePackStack env (ResourcePackStack required bps tps) conn
                   = Done (Some err, conn)"
    by (rule handleResourcePackStack_invalid)
qed

theorem loggedIn_latch_witness:
  "\<not> loggedIn latchConn
   \<and> step exampleEnv (OpHandleIncoming (RecvPackets, 0) [] [8]) latchConn
       = Done (latchConn\<lparr>loggedIn := True\<rparr>)
   \<and> loggedIn (latchConn\<lparr>loggedIn := True\<rparr>)
   \<and> ReadPacket exampleEnv (RecvPackets, 0) [] (latchConn\<lparr>packets := [[8]]\<rparr>)
       = Done (Inr (PkResourcePackClientResponse
                      (ResourcePackClientResponse PackResponseCompleted [])), latchConn)
   \<and> map loggedIn (run exampleEnv latchOps latchConn) = [False, True, True, True]
   \<and> (1::nat) \<le> 3 \<and> 3 < length (run exampleEnv latchOps latchConn)
   \<and> loggedIn (run exampleEnv latchOps latchConn ! 1)
   \<and> loggedIn (run exampleEnv latchOps latchConn ! 3)
   \<and> stackLoop ''texture pack {uuid=%v, version=%v} not downloaded'' False [] stackConn = None
   \<and> stackLoop ''behaviour pack {uuid=%v, version=%v} not downloaded'' True [] stackConn = None
   \<and> handleResourcePackStack exampleEnv (ResourcePackStack False [] []) stackConn
       = Done (None, stackConn\<lparr>connectedRecv := 0, connectedSent := 1, loggedIn := True,
                                bufferedSend := [[]]\<rparr>)
   \<and> handleResourcePackStack exampleEnv (ResourcePackStack False [] [])
         (stackConn\<lparr>connectedRecv := 0\<rparr>) = Blocks"
proof -
  have ev: "step exampleEnv (OpHandleIncoming (RecvPackets, 0) [] [8]) latchConn
       = Done (latchConn\<lparr>loggedIn := True\<rparr>)"
    by (simp add: latchConn_def handleIncoming_def enqueue_def ReadPacket_def selectCase_def
          ready_def serverConn_def newConn_def exampleEnv_def exampleUnmarshal_def)
  have rd: "ReadPacket exampleEnv (RecvPackets, 0) [] (latchConn\<lparr>packets := [[8]]\<rparr>)
       = Done (Inr (PkResourcePackClientResponse
                      (ResourcePackClientResponse PackResponseCompleted [])), latchConn)"
    by (simp add: latchConn_def ReadPacket_def selectCase_def
          ready_def serverConn_def newConn_def exampleEnv_def exampleUnmarshal_def)
  have tr: "run exampleEnv latchOps latchConn
       = [latchConn, latchConn\<lparr>loggedIn := True\<rparr>,
          latchConn\<lparr>loggedIn := True, bufferedSend := [[1]]\<rparr>,
          latchConn\<lparr>loggedIn := True, bufferedSend := [[1]], packets := [[5]]\<rparr>]"
    by (simp add: latchConn_def latchOps_def handleIncoming_def enqueue_def ReadPacket_def
          selectCase_def ready_def serverConn_def newConn_def exampleEnv_def
          exampleUnmarshal_def Write_def)
  have nl: "\<not> loggedIn latchConn"
    by (simp add: latchConn_def serverConn_def newConn_def)
  have s1: "stackLoop ''texture pack {uuid=%v, version=%v} not downloaded'' False [] stackConn = None"
    and s2: "stackLoop ''behaviour pack {uuid=%v, version=%v} not downloaded'' True [] stackConn = None"
    and s3: "stackLoop ''texture pack {uuid=%v, version=%v} not downloaded'' False []
               (stackConn\<lparr>connectedRecv := 0\<rparr>) = None"
    and s4: "stackLoop ''behaviour pack {uuid=%v, version=%v} not downloaded'' True []
               (stackConn\<lparr>connectedRecv := 0\<rparr>) = None"
    by simp_all
  have hyp: "(1::nat) \<le> 3 \<and> 3 < length (run exampleEnv latchOps latchConn)
      \<and> loggedIn (run exampleEnv latchOps latchConn ! 1)"
    by (simp add: tr)
  from loggedIn_latch [of exampleEnv latchOps latchConn] hyp
  have l3: "loggedIn (run exampleEnv latchOps latchConn ! 3)"
    by blast
  from loggedIn_latch [of exampleEnv "[]" stackConn "[]" "[]" "[]" False] s1 s2
  have st: "handleResourcePackStack exampleEnv (ResourcePackStack False [] []) stackConn
       = Done (None, stackConn\<lparr>connectedRecv := 0, connectedSent := 1, loggedIn := True,
                                bufferedSend := [[]]\<rparr>)"
    by (simp add: stackConn_def clientConn_def newConn_def expect_def WritePacket_def Write_def
          exampleEnv_def)
  from loggedIn_latch [of exampleEnv "[]" "stackConn\<lparr>connectedRecv := 0\<rparr>" "[]" "[]" "[]" False] s3 s4
  have bl: "handleResourcePackStack exampleEnv (ResourcePackStack False [] [])
         (stackConn\<lparr>connectedRecv := 0\<rparr>) = Blocks"
    by simp
  show ?thesis
    using ev rd nl hyp l3 s1 s2 st bl by (simp add: tr)
qed

subsection \<open>Unexpected packets and Disconnect\<close>

lemma found_loop_iff:
  "found_loop ids pid = (ids \<noteq> [] \<and> (pid \<in> set ids \<or> pid = IDDisconnect))"
  by (induction ids) auto

lemma ReadPacket_loop_frame:
  "ReadPacket_loop env q s ss conn = Done (r, conn') \<Longrightarrow>
   expectedIDs conn' = expectedIDs conn \<and> packQueue conn' = packQueue conn
   \<and> resourcePacks conn' = resourcePacks conn \<and> close conn' = close conn
   \<and> transportClosed conn' = transportClosed conn"
proof (induction q arbitrary: s ss)
  case Nil
  then show ?case by (auto split: option.splits select.splits)
next
  case (Cons data rest)
  then show ?case
    by (auto split: option.splits select.splits list.splits)
qed

lemma ReadPacket_frame:
  "ReadPacket env s ss conn = Done (r, conn') \<Longrightarrow>
   expectedIDs conn' = expectedIDs conn \<and> packQueue conn' = packQueue conn
   \<and> resourcePacks conn' = resourcePacks conn \<and> close conn' = close conn
   \<and> transportClosed conn' = transportClosed conn"
  unfolding ReadPacket_def by (rule ReadPacket_loop_frame)

lemma enqueue_frame:
  "enqueue data conn = Done conn1 \<Longrightarrow>
   conn1 = conn\<lparr>packets := packets conn @ [data]\<rparr> \<and> length (packets conn) < 32"
  by (auto simp: enqueue_def split: if_splits)

lemma Close_closes:
  "close (snd (Close env conn)) \<noteq> 0
   \<and> (close conn = 0 \<longrightarrow> transportClosed (snd (Close env conn)) = transportClosed conn + 1
        \<and> close (snd (Close env conn)) = 1)
   \<and> (close conn \<noteq> 0 \<longrightarrow> snd (Close env conn) = conn)"
  by (cases "Flush env conn") (auto simp: Close_def Flush_def split: if_splits option.splits)

lemma ReadPacket_loop_error:
  "ReadPacket_loop env q s ss conn = Done (Inl err, conn') \<Longrightarrow>
   err = errTimeout \<or> err = errClosed"
proof (induction q arbitrary: s ss)
  case Nil
  then show ?case by (auto split: option.splits select.splits)
next
  case (Cons data rest)
  then show ?case
    by (auto split: option.splits select.splits list.splits)
qed

lemma ReadPacket_error:
  "ReadPacket env s ss conn = Done (Inl err, conn') \<Longrightarrow>
   err = errTimeout \<or> err = errClosed"
  unfolding ReadPacket_def by (rule ReadPacket_loop_error)

text \<open>
  On a connection that is logged in, \<^verbatim>\<open>handleIncoming\<close> only queues the payload for the
  user, whatever packet it holds.
\<close>

lemma handleIncoming_queues_when_loggedIn:
  "enqueue data conn = Done conn1 \<Longrightarrow> loggedIn conn \<Longrightarrow>
   handleIncoming env s ss data conn = Done (None, conn1)"
  by (auto simp: handleIncoming_def dest: enqueue_loggedIn)

text \<open>
  Every call keeps the list of expected identifiers non-empty: \<^verbatim>\<open>newConn\<close> expects
  \<^verbatim>\<open>Login\<close>, and every call of \<^verbatim>\<open>expect\<close> in the file passes at least one identifier.
\<close>

lemma WritePacket_expectedIDs [simp]:
  "expectedIDs (snd (WritePacket env pk conn)) = expectedIDs conn"
  by (simp add: WritePacket_def Write_def split: sum.splits)

lemma WritePacket_expectedIDsD:
  "WritePacket env pk conn = (r, conn') \<Longrightarrow> expectedIDs conn' = expectedIDs conn"
  using WritePacket_expectedIDs [of env pk conn] by simp

lemma Close_expectedIDs [simp]: "expectedIDs (snd (Close env conn)) = expectedIDs conn"
  by (cases "Flush env conn") (auto simp: Close_def Flush_def split: if_splits option.splits)

lemma Close_expectedIDsD:
  "Close env conn = (r, conn') \<Longrightarrow> expectedIDs conn' = expectedIDs conn"
  using Close_expectedIDs [of env conn] by simp

lemma enableEncryption_expectedIDsD:
  "enableEncryption env k conn = (r, conn') \<Longrightarrow> expectedIDs conn' = expectedIDs conn"
  by (auto simp: enableEncryption_def WritePacket_def Write_def Flush_def Let_def
      split: sum.splits prod.splits option.splits if_splits)

lemma setAwaiting_expectedIDs [simp]:
  "expectedIDs (setAwaiting uuid pack conn) = expectedIDs conn"
  by (simp add: setAwaiting_def split: option.splits)

lemma fetcherDone_expectedIDs:
  "expectedIDs conn \<noteq> [] \<Longrightarrow> expectedIDs (fetcherDone env pack conn) \<noteq> []"
  by (simp add: fetcherDone_def Let_def expect_def split: sum.splits option.splits)

lemma fetcherLoop_expectedIDs:
  "expectedIDs conn \<noteq> [] \<Longrightarrow> expectedIDs (fetcherLoop env uuid pack i n conn) \<noteq> []"
  by (simp add: fetcherLoop_def fetcherDone_expectedIDs)

lemma nextResourcePackDownload_expectedIDs:
  "nextResourcePackDownload env conn = Done (r, conn') \<Longrightarrow> expectedIDs conn \<noteq> []
   \<Longrightarrow> expectedIDs conn' \<noteq> []"
  by (auto simp: nextResourcePackDownload_def WritePacket_def Write_def expect_def
      split: option.splits prod.splits sum.splits)

lemma chunkRequestDeferred_expectedIDs:
  "chunkRequestDeferred env conn = Done conn' \<Longrightarrow> expectedIDs conn \<noteq> []
   \<Longrightarrow> expectedIDs conn' \<noteq> []"
  by (auto simp: chunkRequestDeferred_def expect_def split: option.splits if_splits outcome.splits
       dest: nextResourcePackDownload_expectedIDs)

lemma writeChunkData_expectedIDsD:
  "writeChunkData env pk conn = (r, conn') \<Longrightarrow> expectedIDs conn' = expectedIDs conn"
  by (auto simp: writeChunkData_def split: prod.splits option.splits dest!: WritePacket_expectedIDsD)

lemma dispatch_expectedIDs:
  assumes "dispatch env pk conn = Done (r, conn')" and "expectedIDs conn \<noteq> []"
  shows "expectedIDs conn' \<noteq> []"
proof (cases pk)
  case (PkLogin x)
  with assms show ?thesis
    by (cases x)
       (auto simp: Let_def expect_def split: sum.splits prod.splits if_splits option.splits
         dest!: WritePacket_expectedIDsD Close_expectedIDsD enableEncryption_expectedIDsD)
next
  case PkClientToServerHandshake
  with assms show ?thesis
    by (auto simp: handleClientToServerHandshake_def Let_def expect_def
         split: prod.splits option.splits dest!: WritePacket_expectedIDsD)
next
  case (PkResourcePackClientResponse x)
  with assms show ?thesis
    by (cases x)
       (auto simp: Let_def split: PackResponse.splits prod.splits option.splits outcome.splits
         dest!: WritePacket_expectedIDsD Close_expectedIDsD
         dest: nextResourcePackDownload_expectedIDs)
next
  case (PkResourcePackChunkRequest x)
  with assms show ?thesis
    by (cases x)
       (auto simp: Let_def split: option.splits if_splits prod.splits outcome.splits
         dest!: writeChunkData_expectedIDsD dest: chunkRequestDeferred_expectedIDs)
next
  case (PkServerToClientHandshake x)
  with assms show ?thesis
    by (cases x)
       (auto simp: Let_def split: sum.splits prod.splits dest!: WritePacket_expectedIDsD)
next
  case (PkPlayStatus x)
  with assms show ?thesis
    by (cases x) (auto simp: expect_def split: PlayStatusCode.splits)
next
  case (PkResourcePacksInfo x)
  with assms show ?thesis
    by (cases x)
       (auto simp: Let_def expect_def split: outcome.splits prod.splits if_splits
         dest!: WritePacket_expectedIDsD)
next
  case (PkResourcePackDataInfo x)
  with assms show ?thesis
    by (cases x) (auto simp: Let_def fetcherLoop_expectedIDs split: option.splits if_splits)
next
  case (PkResourcePackChunkData x)
  with assms show ?thesis
    by (cases x)
       (auto simp: Let_def fetcherLoop_expectedIDs split: option.splits if_splits prod.splits)
next
  case (PkResourcePackStack x)
  with assms show ?thesis
    by (cases x)
       (auto simp: Let_def split: option.splits if_splits dest!: WritePacket_expectedIDsD)
next
  case (PkDisconnect x)
  with assms show ?thesis by (cases x) auto
qed (use assms in auto)

lemma step_expectedIDs_nonempty:
  assumes "step env op conn = Done conn'" and "expectedIDs conn \<noteq> []"
  shows "expectedIDs conn' \<noteq> []"
proof (cases op)
  case (OpHandleIncoming s ss data)
  with assms(1) obtain r where h: "handleIncoming env s ss data conn = Done (r, conn')"
    by (auto split: outcome.splits)
  then show ?thesis using assms(2)
    by (auto simp: handleIncoming_def split: outcome.splits if_splits prod.splits sum.splits
         dest!: enqueue_frame ReadPacket_frame dest: dispatch_expectedIDs)
next
  case (OpRead s b)
  with assms show ?thesis
    by (auto simp: Read_def split: outcome.splits option.splits select.splits list.splits if_splits)
next
  case (OpReadPacket s ss)
  with assms show ?thesis by (auto split: outcome.splits dest!: ReadPacket_frame)
next
  case OpFlush
  with assms show ?thesis by (auto simp: Flush_def split: option.splits if_splits)
qed (use assms in \<open>auto simp: Write_def SetDeadline_def SetReadDeadline_def SetWriteDeadline_def split: if_splits\<close>)

lemma run_expectedIDs_nonempty:
  "expectedIDs conn \<noteq> [] \<Longrightarrow> c \<in> set (run env ops conn) \<Longrightarrow> expectedIDs c \<noteq> []"
proof (induction ops arbitrary: conn)
  case Nil
  then show ?case by simp
next
  case (Cons op ops)
  show ?case
  proof (cases "step env op conn")
    case (Done conn')
    then have "expectedIDs conn' \<noteq> []" using Cons.prems(1) by (rule step_expectedIDs_nonempty)
    with Cons.IH [of conn'] Cons.prems Done show ?thesis by auto
  next
    case Blocks
    with Cons.prems show ?thesis by simp
  next
    case Panics
    with Cons.prems show ?thesis by simp
  qed
qed

text \<open>
  C6, as the code has it. Take a connection that is not logged in, and let the payload
  be put on the queue. \<^verbatim>\<open>ReadPacket\<close> then returns a packet \<open>pk\<close> or an error.
  \<^item> If the identifier of \<open>pk\<close> is not among the expected ones and is not
    \<^verbatim>\<open>Disconnect\<close>, the call returns nil, and \<open>expectedIDs\<close>, \<open>packQueue\<close>,
    \<open>resourcePacks\<close> and \<open>loggedIn\<close> are as before.
  \<^item> If \<open>pk\<close> is a \<^verbatim>\<open>Disconnect\<close>, then on every connection that calls have led to from
    one that \<^verbatim>\<open>newConn\<close> made, with the identifiers of \<^verbatim>\<open>newConn\<close> or those of a call of
    \<^verbatim>\<open>expect\<close>, whichever identifiers are expected now, the call closes the connection
    and returns the error \<^verbatim>\<open>"Disconnected: "\<close> followed by the message.
  \<^item> \<^verbatim>\<open>ReadPacket\<close> returns an error when its \<^verbatim>\<open>select\<close> takes the read deadline or the
    close latch: the call then returns that error, the timeout or the closed error,
    whatever packet came in, and the four fields, the close latch and the transport
    are as before.
\<close>

theorem handleIncoming_unexpected_and_Disconnect:
  assumes enq: "enqueue data conn = Done conn1" and nl: "\<not> loggedIn conn"
  shows "(ReadPacket env s ss conn1 = Done (Inr pk, conn2) \<longrightarrow>
         (ID pk \<notin> set (expectedIDs conn) \<and> ID pk \<noteq> IDDisconnect \<longrightarrow>
            handleIncoming env s ss data conn = Done (None, conn2)
            \<and> expectedIDs conn2 = expectedIDs conn \<and> packQueue conn2 = packQueue conn
            \<and> resourcePacks conn2 = resourcePacks conn \<and> loggedIn conn2 = loggedIn conn)
       \<and> (\<forall>message. pk = PkDisconnect (Disconnect message)
            \<and> conn \<in> set (run env ops (expect (eid # ids) (newConn key generated randomSalt)))
            \<longrightarrow>
            handleIncoming env s ss data conn
              = Done (Some (New (''Disconnected: '' @ message)), snd (Close env conn2))
            \<and> close (snd (Close env conn2)) \<noteq> 0
            \<and> (close conn2 = 0 \<longrightarrow>
                  transportClosed (snd (Close env conn2)) = transportClosed conn2 + 1)))
    \<and> (ReadPacket env s ss conn1 = Done (Inl err, conn3) \<longrightarrow>
         handleIncoming env s ss data conn = Done (Some err, conn3)
         \<and> (err = errTimeout \<or> err = errClosed)
         \<and> expectedIDs conn3 = expectedIDs conn \<and> packQueue conn3 = packQueue conn
         \<and> resourcePacks conn3 = resourcePacks conn \<and> loggedIn conn3 = loggedIn conn
         \<and> close conn3 = close conn \<and> transportClosed conn3 = transportClosed conn)"
proof (intro conjI impI allI)
  assume a: "ReadPacket env s ss conn1 = Done (Inr pk, conn2)"
  assume b: "ID pk \<notin> set (expectedIDs conn) \<and> ID pk \<noteq> IDDisconnect"
  from enq have e1: "expectedIDs conn1 = expectedIDs conn" "packQueue conn1 = packQueue conn"
    "resourcePacks conn1 = resourcePacks conn" "loggedIn conn1 = loggedIn conn"
    by (auto dest: enqueue_frame)
  from a have fr: "expectedIDs conn2 = expectedIDs conn1 \<and> packQueue conn2 = packQueue conn1
      \<and> resourcePacks conn2 = resourcePacks conn1" and l2: "loggedIn conn2 = loggedIn conn1"
    by (auto dest: ReadPacket_frame ReadPacket_loggedIn)
  from b fr e1 have nf: "\<not> found_loop (expectedIDs conn2) (ID pk)"
    by (simp add: found_loop_iff)
  from enq nl a e1 nf show "handleIncoming env s ss data conn = Done (None, conn2)"
    by (simp add: handleIncoming_def)
  from fr e1 show "expectedIDs conn2 = expectedIDs conn" by simp
  from fr e1 show "packQueue conn2 = packQueue conn" by simp
  from fr e1 show "resourcePacks conn2 = resourcePacks conn" by simp
  from l2 e1 show "loggedIn conn2 = loggedIn conn" by simp
next
  fix message
  assume a: "ReadPacket env s ss conn1 = Done (Inr pk, conn2)"
  assume b: "pk = PkDisconnect (Disconnect message)
    \<and> conn \<in> set (run env ops (expect (eid # ids) (newConn key generated randomSalt)))"
  have start: "expectedIDs (expect (eid # ids) (newConn key generated randomSalt)) \<noteq> []"
    by (simp add: expect_def)
  from b have reach:
    "conn \<in> set (run env ops (expect (eid # ids) (newConn key generated randomSalt)))"
    by simp
  from start reach have ne: "expectedIDs conn \<noteq> []" by (rule run_expectedIDs_nonempty)
  from enq have e1: "expectedIDs conn1 = expectedIDs conn" "loggedIn conn1 = loggedIn conn"
    by (auto dest: enqueue_frame)
  from a have fr: "expectedIDs conn2 = expectedIDs conn1"
    by (auto dest: ReadPacket_frame)
  from b ne fr e1 have f: "found_loop (expectedIDs conn2) (ID pk)"
    by (simp add: found_loop_iff)
  from enq nl a e1 f b show "handleIncoming env s ss data conn
              = Done (Some (New (''Disconnected: '' @ message)), snd (Close env conn2))"
    by (simp add: handleIncoming_def)
  show "close (snd (Close env conn2)) \<noteq> 0" using Close_closes by blast
  show "close conn2 = 0 \<Longrightarrow> transportClosed (snd (Close env conn2)) = transportClosed conn2 + 1"
    using Close_closes by blast
next
  assume a: "ReadPacket env s ss conn1 = Done (Inl err, conn3)"
  from enq have e1: "expectedIDs conn1 = expectedIDs conn" "packQueue conn1 = packQueue conn"
    "resourcePacks conn1 = resourcePacks conn" "loggedIn conn1 = loggedIn conn"
    "close conn1 = close conn" "transportClosed conn1 = transportClosed conn"
    by (auto dest: enqueue_frame)
  from a have fr: "expectedIDs conn3 = expectedIDs conn1 \<and> packQueue conn3 = packQueue conn1
      \<and> resourcePacks conn3 = resourcePacks conn1 \<and> close conn3 = close conn1
      \<and> transportClosed conn3 = transportClosed conn1"
    and l3: "loggedIn conn3 = loggedIn conn1"
    by (auto dest: ReadPacket_frame ReadPacket_loggedIn)
  from enq nl a e1 show "handleIncoming env s ss data conn = Done (Some err, conn3)"
    by (simp add: handleIncoming_def)
  from a show "err = errTimeout \<or> err = errClosed" by (rule ReadPacket_error)
  from fr e1 show "expectedIDs conn3 = expectedIDs conn" by simp
  from fr e1 show "packQueue conn3 = packQueue conn" by simp
  from fr e1 show "resourcePacks conn3 = resourcePacks conn" by simp
  from l3 e1 show "loggedIn conn3 = loggedIn conn" by simp
  from fr e1 show "close conn3 = close conn" by simp
  from fr e1 show "transportClosed conn3 = transportClosed conn" by simp
qed

theorem handleIncoming_unexpected_and_Disconnect_witness:
  "enqueue [9] serverConn = Done (serverConn\<lparr>packets := [[9]]\<rparr>)
   \<and> \<not> loggedIn serverConn \<and> expectedIDs serverConn = [IDLogin]
   \<and> ReadPacket exampleEnv (RecvPackets, 0) [] (serverConn\<lparr>packets := [[9]]\<rparr>)
       = Done (Inr (PkOther (IDOther 9) []), serverConn)
   \<and> ID (PkOther (IDOther 9) []) \<notin> set (expectedIDs serverConn)
   \<and> ID (PkOther (IDOther 9) []) \<noteq> IDDisconnect
   \<and> handleIncoming exampleEnv (RecvPackets, 0) [] [9] serverConn = Done (None, serverConn)
   \<and> enqueue [5] clientConn = Done (clientConn\<lparr>packets := [[5]]\<rparr>)
   \<and> \<not> loggedIn clientConn
   \<and> clientConn \<in> set (run exampleEnv []
         (expect (IDServerToClientHandshake # [IDPlayStatus])
            (newConn (Some clientKey) clientKey (replicate 16 0))))
   \<and> ReadPacket exampleEnv (RecvPackets, 0) [] (clientConn\<lparr>packets := [[5]]\<rparr>)
       = Done (Inr (PkDisconnect (Disconnect ''kicked'')), clientConn)
   \<and> handleIncoming exampleEnv (RecvPackets, 0) [] [5] clientConn
       = Done (Some (New ''Disconnected: kicked''),
               clientConn\<lparr>close := 1, transportClosed := 1\<rparr>)
   \<and> ReadPacket exampleEnv (RecvDeadline, 20) []
         (serverConn\<lparr>readDeadline := Some 10, packets := [[9]]\<rparr>)
       = Done (Inl errTimeout, serverConn\<lparr>readDeadline := None, packets := [[9]]\<rparr>)
   \<and> handleIncoming exampleEnv (RecvDeadline, 20) [] [9] (serverConn\<lparr>readDeadline := Some 10\<rparr>)
       = Done (Some errTimeout, serverConn\<lparr>readDeadline := None, packets := [[9]]\<rparr>)"
proof -
  let ?d = "serverConn\<lparr>readDeadline := Some 10\<rparr>"
  have e9: "enqueue [9] serverConn = Done (serverConn\<lparr>packets := [[9]]\<rparr>)"
    and e5: "enqueue [5] clientConn = Done (clientConn\<lparr>packets := [[5]]\<rparr>)"
    and eD: "enqueue [9] ?d = Done (serverConn\<lparr>readDeadline := Some 10, packets := [[9]]\<rparr>)"
    by (simp_all add: enqueue_def serverConn_def clientConn_def expect_def newConn_def)
  have nl: "\<not> loggedIn serverConn" and ex: "expectedIDs serverConn = [IDLogin]"
    and nlc: "\<not> loggedIn clientConn" and nld: "\<not> loggedIn ?d"
    by (simp_all add: serverConn_def clientConn_def expect_def newConn_def)
  have reach: "clientConn \<in> set (run exampleEnv []
         (expect (IDServerToClientHandshake # [IDPlayStatus])
            (newConn (Some clientKey) clientKey (replicate 16 0))))"
    by (simp add: clientConn_def)
  have r9: "ReadPacket exampleEnv (RecvPackets, 0) [] (serverConn\<lparr>packets := [[9]]\<rparr>)
       = Done (Inr (PkOther (IDOther 9) []), serverConn)"
    and r5: "ReadPacket exampleEnv (RecvPackets, 0) [] (clientConn\<lparr>packets := [[5]]\<rparr>)
       = Done (Inr (PkDisconnect (Disconnect ''kicked'')), clientConn)"
    and rD: "ReadPacket exampleEnv (RecvDeadline, 20) []
         (serverConn\<lparr>readDeadline := Some 10, packets := [[9]]\<rparr>)
       = Done (Inl errTimeout, serverConn\<lparr>readDeadline := None, packets := [[9]]\<rparr>)"
    by (simp_all add: ReadPacket_def selectCase_def ready_def serverConn_def clientConn_def
          expect_def newConn_def exampleEnv_def exampleUnmarshal_def)
  have cl: "snd (Close exampleEnv clientConn) = clientConn\<lparr>close := 1, transportClosed := 1\<rparr>"
    by (simp add: Close_def Flush_def clientConn_def expect_def newConn_def)
  from handleIncoming_unexpected_and_Disconnect
         [OF e9 nl, of exampleEnv "(RecvPackets, 0)" "[]" "PkOther (IDOther 9) []" serverConn]
       r9 ex
  have h9: "handleIncoming exampleEnv (RecvPackets, 0) [] [9] serverConn = Done (None, serverConn)"
    by simp
  from handleIncoming_unexpected_and_Disconnect
         [OF e5 nlc, of exampleEnv "(RecvPackets, 0)" "[]" "PkDisconnect (Disconnect ''kicked'')"
            clientConn "[]" IDServerToClientHandshake "[IDPlayStatus]" "Some clientKey" clientKey
            "replicate 16 0"]
       r5 reach cl
  have h5: "handleIncoming exampleEnv (RecvPackets, 0) [] [5] clientConn
       = Done (Some (New ''Disconnected: kicked''),
               clientConn\<lparr>close := 1, transportClosed := 1\<rparr>)"
    by simp
  from handleIncoming_unexpected_and_Disconnect
         [OF eD nld, of exampleEnv "(RecvDeadline, 20)" "[]" _ _ _ _ _ _ _ _ errTimeout
            "serverConn\<lparr>readDeadline := None, packets := [[9]]\<rparr>"]
       rD
  have hD: "handleIncoming exampleEnv (RecvDeadline, 20) [] [9] ?d
       = Done (Some errTimeout, serverConn\<lparr>readDeadline := None, packets := [[9]]\<rparr>)"
    by simp
  show ?thesis using e9 e5 nl nlc ex reach r9 r5 rD h9 h5 hD by simp
qed

text \<open>
  C6, as stated, fails in three states that calls lead to. A connection that is not logged
  in is closed; an unexpected packet comes in and the \<^verbatim>\<open>select\<close> takes the close latch:
  the call returns the closed error, not nil. A read deadline is set on a connection that
  is not logged in and passes; a \<^verbatim>\<open>Disconnect\<close> comes in and the \<^verbatim>\<open>select\<close> takes the
  timer: the call returns the timeout error, not \<^verbatim>\<open>"Disconnected: kicked"\<close>, and the
  connection stays open. On a logged-in connection a \<^verbatim>\<open>Disconnect\<close> is only queued: nil
  is returned and the connection stays open.
\<close>

theorem handleIncoming_select_counterexample:
  "exampleUnmarshal [9] = Some (PkOther (IDOther 9) [])
   \<and> exampleUnmarshal [5] = Some (PkDisconnect (Disconnect ''kicked''))
   \<and> Close exampleEnv serverConn = (None, serverConn\<lparr>close := 1, transportClosed := 1\<rparr>)
   \<and> \<not> loggedIn (serverConn\<lparr>close := 1, transportClosed := 1\<rparr>)
   \<and> handleIncoming exampleEnv (RecvClose, 0) [] [9]
         (serverConn\<lparr>close := 1, transportClosed := 1\<rparr>)
       = Done (Some errClosed, serverConn\<lparr>close := 1, transportClosed := 1, packets := [[9]]\<rparr>)
   \<and> SetReadDeadline \<lparr>instant = 10, loc = Some 0\<rparr> \<lparr>instant = 5, loc = Some 0\<rparr>
         \<lparr>instant = 5, loc = Some 0\<rparr> serverConn
       = (None, serverConn\<lparr>readDeadline := Some 10\<rparr>)
   \<and> \<not> loggedIn (serverConn\<lparr>readDeadline := Some 10\<rparr>)
   \<and> handleIncoming exampleEnv (RecvDeadline, 20) [] [5] (serverConn\<lparr>readDeadline := Some 10\<rparr>)
       = Done (Some errTimeout, serverConn\<lparr>readDeadline := None, packets := [[5]]\<rparr>)
   \<and> errTimeout \<noteq> New ''Disconnected: kicked''
   \<and> close (serverConn\<lparr>readDeadline := None, packets := [[5]]\<rparr>) = 0
   \<and> transportClosed (serverConn\<lparr>readDeadline := None, packets := [[5]]\<rparr>) = 0
   \<and> handleIncoming exampleEnv (RecvPackets, 0) [] [5] (serverConn\<lparr>loggedIn := True\<rparr>)
       = Done (None, serverConn\<lparr>loggedIn := True, packets := [[5]]\<rparr>)
   \<and> close (serverConn\<lparr>loggedIn := True, packets := [[5]]\<rparr>) = 0
   \<and> transportClosed (serverConn\<lparr>loggedIn := True, packets := [[5]]\<rparr>) = 0"
  by (simp add: handleIncoming_def enqueue_def ReadPacket_def selectCase_def ready_def
        Close_def Flush_def SetReadDeadline_def Before_def TimeZero_def Sub_def After_def
        minDuration_def maxDuration_def errTimeout_def
        serverConn_def newConn_def exampleEnv_def exampleUnmarshal_def)

subsection \<open>Receiving a chunk of a resource pack\<close>

lemma sint_succ_int32:
  fixes x :: int32
  assumes "sint x < 2147483647"
  shows "sint (x + 1) = sint x + 1"
proof -
  have lo: "- (2 ^ 31) \<le> sint x" using sint_ge [of x] by simp
  have "sint (x + 1) = signed_take_bit 31 (sint x + 1)"
    by (simp add: sint_word_add)
  also have "\<dots> = sint x + 1"
    using lo assms by (intro signed_take_bit_int_eq_self) simp_all
  finally show ?thesis .
qed

lemma sint_of_nat_int32:
  assumes "n < 2147483648"
  shows "sint (word_of_nat n :: int32) = int n"
proof -
  have "(word_of_nat n :: int32) = word_of_int (int n)"
    by simp
  then have "sint (word_of_nat n :: int32) = signed_take_bit 31 (int n)"
    by (simp only: sint_sbintrunc') simp
  also have "\<dots> = int n"
    using assms by (intro signed_take_bit_int_eq_self) simp_all
  finally show ?thesis .
qed

lemma setAwaiting_lookup:
  "packQueue conn = Some queue \<Longrightarrow>
   \<exists>queue'. packQueue (setAwaiting uuid pack conn) = Some queue'
            \<and> awaitingPacks queue' uuid = Some pack"
  by (simp add: setAwaiting_def)

lemma WritePacket_packQueue [simp]:
  "packQueue (snd (WritePacket env pk conn)) = packQueue conn"
  by (simp add: WritePacket_def Write_def split: sum.splits)

lemma fetcherDone_awaiting:
  "packQueue conn = Some queue \<Longrightarrow>
   \<exists>queue'. packQueue (fetcherDone env pack conn) = Some queue'
            \<and> awaitingPacks queue' = awaitingPacks queue"
  by (auto simp: fetcherDone_def Let_def expect_def split: sum.splits)

lemma fetcherLoop_awaiting:
  assumes "packQueue conn = Some queue"
  shows "\<exists>queue' pack'. packQueue (fetcherLoop env uuid pack i n conn) = Some queue'
            \<and> awaitingPacks queue' uuid = Some pack'
            \<and> expectedIndex pack' = expectedIndex pack \<and> buf pack' = buf pack
            \<and> chunkSize pack' = chunkSize pack \<and> size' pack' = size' pack"
proof (cases "sint i < sint n")
  case True
  let ?c = "snd (WritePacket env (PkResourcePackChunkRequest (ResourcePackChunkRequest uuid i)) conn)"
  have "packQueue ?c = Some queue" using assms by simp
  from setAwaiting_lookup [OF this, of uuid "pack\<lparr>newFrag := Some (i, n)\<rparr>"] True
  show ?thesis by (auto simp: fetcherLoop_def)
next
  case False
  let ?p = "pack\<lparr>newFrag := None\<rparr>"
  from setAwaiting_lookup [OF assms, of uuid ?p]
  obtain q1 where q1: "packQueue (setAwaiting uuid ?p conn) = Some q1"
    "awaitingPacks q1 uuid = Some ?p" by blast
  from fetcherDone_awaiting [OF q1(1), of env pack] q1(2) False
  show ?thesis by (auto simp: fetcherLoop_def)
qed

text \<open>
  C4. When the client's handler accepts a \<^verbatim>\<open>ResourcePackChunkData\<close> packet (it returns
  nil), the pack is one that is awaited, the chunk index of the packet is the
  \<open>expectedIndex\<close> of its entry before the call, and the \<open>expectedIndex\<close> after the call
  is that plus one (in int32, the type of the field; as a number whenever it was below
  the largest int32). Unless the chunk is the last one, that is unless the bytes buffered
  plus the chunk size reach the declared size, the length of the payload is the declared
  chunk size (compared as int32, as the code does; as numbers for every payload shorter
  than \<open>2^31\<close> bytes). The payload is appended to the buffer of the entry.
  Otherwise an error is returned: a packet for an awaited pack whose index is not the
  expected one, or whose length is not the chunk size while the chunk is not the last,
  is refused and the connection is left as it was.
\<close>

theorem handleResourcePackChunkData_accepts:
  "(handleResourcePackChunkData env (ResourcePackChunkData uuid chunkIndex dataOffset data) conn
      = Done (None, conn') \<longrightarrow>
     (\<exists>queue pack queue' pack'.
        packQueue conn = Some queue \<and> awaitingPacks queue uuid = Some pack
        \<and> packQueue conn' = Some queue' \<and> awaitingPacks queue' uuid = Some pack'
        \<and> chunkIndex = expectedIndex pack
        \<and> expectedIndex pack' = expectedIndex pack + 1
        \<and> (sint (expectedIndex pack) < 2147483647 \<longrightarrow>
              sint (expectedIndex pack') = sint (expectedIndex pack) + 1)
        \<and> (sint (size' pack) \<le> int (length (buf pack)) + sint (chunkSize pack)
            \<or> (word_of_nat (length data) :: int32) = chunkSize pack)
        \<and> (length data < 2147483648 \<longrightarrow>
              sint (size' pack) \<le> int (length (buf pack)) + sint (chunkSize pack)
              \<or> int (length data) = sint (chunkSize pack))
        \<and> buf pack' = buf pack @ data))
   \<and> (packQueue conn = Some queue \<and> awaitingPacks queue uuid = Some pack
        \<and> (chunkIndex \<noteq> expectedIndex pack
            \<or> \<not> sint (size' pack) \<le> int (length (buf pack)) + sint (chunkSize pack)
               \<and> (word_of_nat (length data) :: int32) \<noteq> chunkSize pack) \<longrightarrow>
       (\<exists>err. handleResourcePackChunkData env (ResourcePackChunkData uuid chunkIndex dataOffset data) conn
               = Done (Some err, conn)))"
proof (intro conjI impI)
  assume h: "handleResourcePackChunkData env (ResourcePackChunkData uuid chunkIndex dataOffset data) conn
      = Done (None, conn')"
  then obtain queue where q: "packQueue conn = Some queue"
    by (cases "packQueue conn") auto
  with h obtain pack where p: "awaitingPacks queue uuid = Some pack"
    by (cases "awaitingPacks queue uuid") auto
  let ?last = "sint (size' pack) \<le> int (length (buf pack)) + sint (chunkSize pack)"
  from h q p have len: "?last \<or> (word_of_nat (length data) :: int32) = chunkSize pack"
    by (auto simp: Let_def split: if_splits)
  from h q p have idx: "chunkIndex = expectedIndex pack"
    by (auto simp: Let_def split: if_splits)
  let ?p1 = "pack\<lparr>expectedIndex := expectedIndex pack + 1\<rparr>"
  from h q p len idx obtain i n where nf: "newFrag pack = Some (i, n)"
    and c': "conn' = fetcherLoop env uuid (?p1\<lparr>buf := buf ?p1 @ data\<rparr>) (i + 1) n
                       (setAwaiting uuid ?p1 conn)"
    by (cases "newFrag pack") (auto simp: Let_def split: if_splits)
  from setAwaiting_lookup [OF q, of uuid ?p1]
  obtain q1 where q1: "packQueue (setAwaiting uuid ?p1 conn) = Some q1" by blast
  from fetcherLoop_awaiting [OF q1, of env uuid "?p1\<lparr>buf := buf ?p1 @ data\<rparr>" "i + 1" n] c'
  obtain queue' pack' where r: "packQueue conn' = Some queue'" "awaitingPacks queue' uuid = Some pack'"
    "expectedIndex pack' = expectedIndex pack + 1" "buf pack' = buf pack @ data"
    by auto
  have s: "sint (expectedIndex pack) < 2147483647 \<longrightarrow>
              sint (expectedIndex pack') = sint (expectedIndex pack) + 1"
    using r(3) by (simp add: sint_succ_int32)
  have m: "length data < 2147483648 \<longrightarrow> ?last \<or> int (length data) = sint (chunkSize pack)"
    using len sint_of_nat_int32 [of "length data"] by auto
  from q p r idx len s m
  show "\<exists>queue pack queue' pack'.
        packQueue conn = Some queue \<and> awaitingPacks queue uuid = Some pack
        \<and> packQueue conn' = Some queue' \<and> awaitingPacks queue' uuid = Some pack'
        \<and> chunkIndex = expectedIndex pack
        \<and> expectedIndex pack' = expectedIndex pack + 1
        \<and> (sint (expectedIndex pack) < 2147483647 \<longrightarrow>
              sint (expectedIndex pack') = sint (expectedIndex pack) + 1)
        \<and> (sint (size' pack) \<le> int (length (buf pack)) + sint (chunkSize pack)
            \<or> (word_of_nat (length data) :: int32) = chunkSize pack)
        \<and> (length data < 2147483648 \<longrightarrow>
              sint (size' pack) \<le> int (length (buf pack)) + sint (chunkSize pack)
              \<or> int (length data) = sint (chunkSize pack))
        \<and> buf pack' = buf pack @ data"
    by blast
next
  assume "packQueue conn = Some queue \<and> awaitingPacks queue uuid = Some pack
        \<and> (chunkIndex \<noteq> expectedIndex pack
            \<or> \<not> sint (size' pack) \<le> int (length (buf pack)) + sint (chunkSize pack)
               \<and> (word_of_nat (length data) :: int32) \<noteq> chunkSize pack)"
  then show "\<exists>err. handleResourcePackChunkData env (ResourcePackChunkData uuid chunkIndex dataOffset data) conn
               = Done (Some err, conn)"
    by (auto simp: Let_def)
qed

text \<open>The connection of the example is the one the two handlers before it leave.\<close>

lemma chunkConn_reached:
  "handleResourcePacksInfo exampleEnv
     (ResourcePacksInfo False False [] [ResourcePack ''U'' ''1.0'' 5 False]) clientConn
     = Done (None, c1) \<Longrightarrow>
   handleResourcePackDataInfo exampleEnv (ResourcePackDataInfo ''U'' 4 2 5) c1
     = Done (None, chunkConn)"
  by (auto simp: chunkConn_def chunkQueue_def chunkPack_def clientConn_def newConn_def expect_def
        WritePacket_def Write_def exampleEnv_def Let_def fetcherLoop_def setAwaiting_def)

theorem handleResourcePackChunkData_accepts_witness:
  "handleResourcePackChunkData exampleEnv (ResourcePackChunkData ''U'' 0 0 [1, 2, 3, 4]) chunkConn
     = Done (None,
         chunkConn\<lparr>bufferedSend := [[], [], []],
           packQueue := Some (chunkQueue\<lparr>awaitingPacks :=
             [''U'' \<mapsto> chunkPack\<lparr>expectedIndex := 1, buf := [1, 2, 3, 4], newFrag := Some (1, 2)\<rparr>]\<rparr>)\<rparr>)
   \<and> (\<exists>queue pack (queue' :: resourcePackQueue) pack'.
        packQueue chunkConn = Some queue \<and> awaitingPacks queue ''U'' = Some pack
        \<and> awaitingPacks queue' ''U'' = Some pack'
        \<and> (0 :: int32) = expectedIndex pack \<and> expectedIndex pack' = 1
        \<and> length [1, 2, 3, 4 :: byte] = 4 \<and> chunkSize pack = 4
        \<and> buf pack' = [1, 2, 3, 4])
   \<and> packQueue chunkConn = Some chunkQueue \<and> awaitingPacks chunkQueue ''U'' = Some chunkPack
   \<and> (1 :: int32) \<noteq> expectedIndex chunkPack
   \<and> (\<exists>err. handleResourcePackChunkData exampleEnv (ResourcePackChunkData ''U'' 1 0 [1, 2, 3, 4]) chunkConn
              = Done (Some err, chunkConn))"
proof -
  let ?c' = "chunkConn\<lparr>bufferedSend := [[], [], []],
           packQueue := Some (chunkQueue\<lparr>awaitingPacks :=
             [''U'' \<mapsto> chunkPack\<lparr>expectedIndex := 1, buf := [1, 2, 3, 4], newFrag := Some (1, 2)\<rparr>]\<rparr>)\<rparr>"
  have ok: "handleResourcePackChunkData exampleEnv (ResourcePackChunkData ''U'' 0 0 [1, 2, 3, 4]) chunkConn
     = Done (None, ?c')"
    by (simp add: chunkConn_def chunkQueue_def chunkPack_def clientConn_def newConn_def expect_def
        WritePacket_def Write_def exampleEnv_def Let_def fetcherLoop_def setAwaiting_def)
  have q: "packQueue chunkConn = Some chunkQueue" "awaitingPacks chunkQueue ''U'' = Some chunkPack"
    "(1 :: int32) \<noteq> expectedIndex chunkPack"
    by (simp_all add: chunkConn_def chunkQueue_def chunkPack_def)
  note acc = handleResourcePackChunkData_accepts
    [of exampleEnv "''U''" _ 0 "[1, 2, 3, 4]" chunkConn _ chunkQueue chunkPack]
  from acc [of 0 ?c', THEN conjunct1, THEN mp, OF ok]
  obtain queue pack queue' pack' where r0: "packQueue chunkConn = Some queue
        \<and> awaitingPacks queue ''U'' = Some pack
        \<and> packQueue ?c' = Some queue' \<and> awaitingPacks queue' ''U'' = Some pack'
        \<and> 0 = expectedIndex pack
        \<and> expectedIndex pack' = expectedIndex pack + 1
        \<and> (sint (expectedIndex pack) < 2147483647 \<longrightarrow>
              sint (expectedIndex pack') = sint (expectedIndex pack) + 1)
        \<and> (sint (size' pack) \<le> int (length (buf pack)) + sint (chunkSize pack)
            \<or> (word_of_nat (length [1, 2, 3, 4 :: byte]) :: int32) = chunkSize pack)
        \<and> (length [1, 2, 3, 4 :: byte] < 2147483648 \<longrightarrow>
              sint (size' pack) \<le> int (length (buf pack)) + sint (chunkSize pack)
              \<or> int (length [1, 2, 3, 4 :: byte]) = sint (chunkSize pack))
        \<and> buf pack' = buf pack @ [1, 2, 3, 4]"
    by blast
  then have r: "packQueue chunkConn = Some queue"
    "awaitingPacks queue ''U'' = Some pack" "awaitingPacks queue' ''U'' = Some pack'"
    "0 = expectedIndex pack" "expectedIndex pack' = expectedIndex pack + 1"
    "buf pack' = buf pack @ [1, 2, 3, 4]"
    by simp_all
  from r(1,2) q(1,2) have pc: "pack = chunkPack" by simp
  have f1: "awaitingPacks queue ''U'' = Some chunkPack" using r(2) pc by simp
  have f2: "expectedIndex pack' = 1" using r(5) pc by (simp add: chunkPack_def)
  have f3: "buf pack' = [1, 2, 3, 4]" using r(6) pc by (simp add: chunkPack_def)
  have f4: "(0 :: int32) = expectedIndex chunkPack" by (simp add: chunkPack_def)
  have f5: "chunkSize chunkPack = 4" by (simp add: chunkPack_def)
  have f6: "length [1, 2, 3, 4 :: byte] = 4" by simp
  have a: "\<exists>queue pack (queue' :: resourcePackQueue) pack'.
        packQueue chunkConn = Some queue \<and> awaitingPacks queue ''U'' = Some pack
        \<and> awaitingPacks queue' ''U'' = Some pack'
        \<and> (0 :: int32) = expectedIndex pack \<and> expectedIndex pack' = 1
        \<and> length [1, 2, 3, 4 :: byte] = 4 \<and> chunkSize pack = 4
        \<and> buf pack' = [1, 2, 3, 4]"
    using r(1) f1 r(3) f4 f2 f6 f5 f3 by blast
  from acc [of 1 ?c', THEN conjunct2] q
  have b: "\<exists>err. handleResourcePackChunkData exampleEnv (ResourcePackChunkData ''U'' 1 0 [1, 2, 3, 4]) chunkConn
              = Done (Some err, chunkConn)"
    by blast
  show ?thesis using ok a b q by blast
qed

subsection \<open>Serving a chunk of a resource pack\<close>

lemma ReadAt_replicate:
  assumes "0 \<le> sint off" and "0 < n"
  shows "ReadAt pack (replicate n 0) off
     = (take n (drop (nat (sint off)) (pack_content pack))
          @ replicate (n - length (drop (nat (sint off)) (pack_content pack))) 0,
        min n (length (drop (nat (sint off)) (pack_content pack))),
        if length (drop (nat (sint off)) (pack_content pack)) < n then Some EOF else None)"
  using assms by (auto simp: ReadAt_def Len_def Let_def min_def)

lemma packChunkSize_word [simp]: "(word_of_nat packChunkSize :: int64) = 524288"
  by (simp add: packChunkSize_def)

lemma packChunkSize_pos: "0 < packChunkSize"
  by (simp add: packChunkSize_def)

lemma EOF_not_negative: "New ''negative offset'' \<noteq> EOF"
  by (simp add: EOF_def)

text \<open>Without a pack queue, or without a current pack, the handler dereferences nil.\<close>

lemma handleResourcePackChunkRequest_nil:
  "packQueue conn = None \<or> (\<exists>queue. packQueue conn = Some queue \<and> currentPack queue = None) \<Longrightarrow>
   handleResourcePackChunkRequest env (ResourcePackChunkRequest uuid chunkIndex) conn = Panics"
  by auto

lemma handleResourcePackChunkRequest_refuses:
  assumes "packQueue conn = Some queue" and "currentPack queue = Some current"
    and "UUID current \<noteq> uuid \<or> currentOffset queue \<noteq> scast chunkIndex * 524288"
  shows "\<exists>err. handleResourcePackChunkRequest env (ResourcePackChunkRequest uuid chunkIndex) conn
           = Done (Some err, conn)"
  using assms by auto

lemma handleResourcePackChunkRequest_reads:
  assumes q: "packQueue conn = Some queue" and cp: "currentPack queue = Some current"
    and u: "UUID current = uuid" and o: "currentOffset queue = scast chunkIndex * 524288"
    and nn: "0 \<le> sint (currentOffset queue)"
    and w: "writeChunkData env
              (ResourcePackChunkData uuid chunkIndex (currentOffset queue)
                 (take packChunkSize (drop (nat (sint (currentOffset queue))) (pack_content current))))
              (conn\<lparr>packQueue := Some (queue\<lparr>currentOffset := currentOffset queue + 524288\<rparr>)\<rparr>)
            = (result, conn2)"
  shows "handleResourcePackChunkRequest env (ResourcePackChunkRequest uuid chunkIndex) conn
     = (if packChunkSize \<le> length (drop (nat (sint (currentOffset queue))) (pack_content current))
        then Done (result, conn2)
        else (case chunkRequestDeferred env conn2 of
                Done conn3 \<Rightarrow> Done (result, conn3)
              | Blocks \<Rightarrow> Blocks
              | Panics \<Rightarrow> Panics))"
proof -
  let ?rest = "drop (nat (sint (currentOffset queue))) (pack_content current)"
  note rd = ReadAt_replicate [OF nn packChunkSize_pos, of current]
  show ?thesis
  proof (cases "packChunkSize \<le> length ?rest")
    case True
    with q cp u w rd show ?thesis
      by (simp add: Let_def o [symmetric])
  next
    case False
    then have t: "take packChunkSize ?rest = ?rest"
      by simp
    from w have w': "writeChunkData env
              (ResourcePackChunkData uuid chunkIndex (currentOffset queue) ?rest)
              (conn\<lparr>packQueue := Some (queue\<lparr>currentOffset := currentOffset queue + 524288\<rparr>)\<rparr>)
            = (result, conn2)"
      unfolding t .
    from False w' q cp u rd show ?thesis
      by (simp add: Let_def o [symmetric] min_def)
  qed
qed

lemma handleResourcePackChunkRequest_negative:
  assumes "packQueue conn = Some queue" and "currentPack queue = Some current"
    and "UUID current = uuid" and "currentOffset queue = scast chunkIndex * 524288"
    and "sint (currentOffset queue) < 0"
  shows "\<exists>err. handleResourcePackChunkRequest env (ResourcePackChunkRequest uuid chunkIndex) conn
           = Done (Some err,
               conn\<lparr>packQueue := Some (queue\<lparr>currentOffset := currentOffset queue + 524288\<rparr>)\<rparr>)"
  using assms(1,2,3,5) EOF_not_negative
  by (simp add: assms(4) [symmetric] Let_def ReadAt_def)

lemma writeChunkData_effect:
  "writeChunkData env pk conn = (result, conn2) \<Longrightarrow>
   packQueue conn2 = packQueue conn \<and> expectedIDs conn2 = expectedIDs conn
   \<and> (\<forall>header. HeaderWrite env IDResourcePackChunkData = Inr header \<longrightarrow>
         result = None
         \<and> bufferedSend conn2 = bufferedSend conn @ [header @ Marshal env (PkResourcePackChunkData pk)])"
  by (auto simp: writeChunkData_def WritePacket_def Write_def split: sum.splits)

text \<open>
  \<^verbatim>\<open>nextResourcePackDownload\<close> asks the queue for the next pack. Without one it returns
  an error. With one it writes the \<^verbatim>\<open>ResourcePackDataInfo\<close> of the pack and, unless the
  header of the packet could not be written, expects \<^verbatim>\<open>ResourcePackChunkRequest\<close> alone.
\<close>

lemma nextResourcePackDownload_effect:
  assumes "packQueue conn = Some queue"
  shows "(\<forall>queue'. NextPack env queue = (None, queue') \<longrightarrow>
            nextResourcePackDownload env conn
              = Done (Some (Errorf ''no resource packs to download'' []),
                      conn\<lparr>packQueue := Some queue'\<rparr>))
    \<and> (\<forall>info queue' header.
          NextPack env queue = (Some info, queue')
          \<and> HeaderWrite env IDResourcePackDataInfo = Inr header \<longrightarrow>
            nextResourcePackDownload env conn
              = Done (None,
                  conn\<lparr>packQueue := Some queue',
                       bufferedSend := bufferedSend conn
                         @ [header @ Marshal env (PkResourcePackDataInfo info)],
                       expectedIDs := [IDResourcePackChunkRequest]\<rparr>))
    \<and> (\<forall>info queue' err.
          NextPack env queue = (Some info, queue')
          \<and> HeaderWrite env IDResourcePackDataInfo = Inl err \<longrightarrow>
            nextResourcePackDownload env conn
              = Done (Some (Errorf ''error sending resource pack data info packet: %v''
                              [AErr (Errorf ''error writing packet header: %v'' [AErr err])]),
                      conn\<lparr>packQueue := Some queue'\<rparr>))"
  using assms
  by (simp add: nextResourcePackDownload_def WritePacket_def Write_def expect_def)

text \<open>
  C5. Let the server have a pack queue with a current pack, and let a
  \<^verbatim>\<open>ResourcePackChunkRequest\<close> arrive.
  \<^item> Unless the UUID of the request is that of the current pack and \<open>currentOffset\<close>
    is the chunk index times 524288, the handler returns an error and changes nothing.
  \<^item> Otherwise \<open>currentOffset\<close> is advanced by 524288 before the pack is read, whether
    the read is short or not, and the response is written on that connection. Its data
    are the bytes of the pack from the old offset on, at most 524288 of them: a full
    chunk, or on a short read just the bytes read.
  \<^item> After a full read the handler returns what the write returned. After a short read
    it returns the same, and first, when all packs are served, sets the expected
    identifiers to \<^verbatim>\<open>ResourcePackClientResponse\<close> alone.
  \<^item> After a short read with packs left to serve it starts the next pack download: it
    asks the queue, with the offset advanced, for the next pack. The queue is from then
    on the one that \<^verbatim>\<open>NextPack\<close> left. When there is a next pack, its
    \<^verbatim>\<open>ResourcePackDataInfo\<close> is written behind the response and the expected identifiers
    are \<^verbatim>\<open>ResourcePackChunkRequest\<close> alone; when the header of that packet cannot be
    written, or there is no next pack, nothing is written and the expected identifiers
    stay. The error of the download, if any, is dropped.
  \<^item> With a negative offset the read fails, and the handler returns an error with the
    offset advanced.
\<close>

theorem handleResourcePackChunkRequest_serves:
  fixes queue :: resourcePackQueue
  defines "rest \<equiv> drop (nat (sint (currentOffset queue)))"
  assumes q: "packQueue conn = Some queue" and cp: "currentPack queue = Some current"
  shows
   "(UUID current \<noteq> uuid \<or> currentOffset queue \<noteq> scast chunkIndex * 524288 \<longrightarrow>
       (\<exists>err. handleResourcePackChunkRequest env (ResourcePackChunkRequest uuid chunkIndex) conn
              = Done (Some err, conn)))
    \<and> (UUID current = uuid \<and> currentOffset queue = scast chunkIndex * 524288
        \<and> 0 \<le> sint (currentOffset queue) \<longrightarrow>
       (\<exists>result conn2.
           writeChunkData env
             (ResourcePackChunkData uuid chunkIndex (currentOffset queue)
                (take 524288 (rest (pack_content current))))
             (conn\<lparr>packQueue := Some (queue\<lparr>currentOffset := currentOffset queue + 524288\<rparr>)\<rparr>)
             = (result, conn2)
           \<and> packQueue conn2 = Some (queue\<lparr>currentOffset := currentOffset queue + 524288\<rparr>)
           \<and> expectedIDs conn2 = expectedIDs conn
           \<and> (\<forall>header. HeaderWrite env IDResourcePackChunkData = Inr header \<longrightarrow>
                 result = None
                 \<and> bufferedSend conn2 = bufferedSend conn @
                     [header @ Marshal env (PkResourcePackChunkData
                        (ResourcePackChunkData uuid chunkIndex (currentOffset queue)
                           (take 524288 (rest (pack_content current)))))])
           \<and> (524288 \<le> length (rest (pack_content current)) \<longrightarrow>
                 handleResourcePackChunkRequest env (ResourcePackChunkRequest uuid chunkIndex) conn
                   = Done (result, conn2))
           \<and> (length (rest (pack_content current)) < 524288
               \<and> AllDownloaded env (queue\<lparr>currentOffset := currentOffset queue + 524288\<rparr>) \<longrightarrow>
                 handleResourcePackChunkRequest env (ResourcePackChunkRequest uuid chunkIndex) conn
                   = Done (result, expect [IDResourcePackClientResponse] conn2))
           \<and> (length (rest (pack_content current)) < 524288
               \<and> \<not> AllDownloaded env (queue\<lparr>currentOffset := currentOffset queue + 524288\<rparr>) \<longrightarrow>
                 (\<forall>queue'.
                    NextPack env (queue\<lparr>currentOffset := currentOffset queue + 524288\<rparr>)
                      = (None, queue') \<longrightarrow>
                    handleResourcePackChunkRequest env (ResourcePackChunkRequest uuid chunkIndex) conn
                      = Done (result, conn2\<lparr>packQueue := Some queue'\<rparr>))
                 \<and> (\<forall>info queue' header.
                    NextPack env (queue\<lparr>currentOffset := currentOffset queue + 524288\<rparr>)
                      = (Some info, queue')
                    \<and> HeaderWrite env IDResourcePackDataInfo = Inr header \<longrightarrow>
                    handleResourcePackChunkRequest env (ResourcePackChunkRequest uuid chunkIndex) conn
                      = Done (result,
                          conn2\<lparr>packQueue := Some queue',
                                bufferedSend := bufferedSend conn2
                                  @ [header @ Marshal env (PkResourcePackDataInfo info)],
                                expectedIDs := [IDResourcePackChunkRequest]\<rparr>))
                 \<and> (\<forall>info queue' err.
                    NextPack env (queue\<lparr>currentOffset := currentOffset queue + 524288\<rparr>)
                      = (Some info, queue')
                    \<and> HeaderWrite env IDResourcePackDataInfo = Inl err \<longrightarrow>
                    handleResourcePackChunkRequest env (ResourcePackChunkRequest uuid chunkIndex) conn
                      = Done (result, conn2\<lparr>packQueue := Some queue'\<rparr>)))))
    \<and> (UUID current = uuid \<and> currentOffset queue = scast chunkIndex * 524288
        \<and> sint (currentOffset queue) < 0 \<longrightarrow>
       (\<exists>err. handleResourcePackChunkRequest env (ResourcePackChunkRequest uuid chunkIndex) conn
              = Done (Some err,
                  conn\<lparr>packQueue := Some (queue\<lparr>currentOffset := currentOffset queue + 524288\<rparr>)\<rparr>)))"
proof (intro conjI impI)
  assume "UUID current \<noteq> uuid \<or> currentOffset queue \<noteq> scast chunkIndex * 524288"
  with q cp show "\<exists>err. handleResourcePackChunkRequest env (ResourcePackChunkRequest uuid chunkIndex) conn
              = Done (Some err, conn)"
    by (rule handleResourcePackChunkRequest_refuses)
next
  assume a: "UUID current = uuid \<and> currentOffset queue = scast chunkIndex * 524288
        \<and> 0 \<le> sint (currentOffset queue)"
  let ?adv = "conn\<lparr>packQueue := Some (queue\<lparr>currentOffset := currentOffset queue + 524288\<rparr>)\<rparr>"
  let ?pk = "ResourcePackChunkData uuid chunkIndex (currentOffset queue)
                (take 524288 (rest (pack_content current)))"
  obtain result conn2 where w: "writeChunkData env ?pk ?adv = (result, conn2)"
    by (cases "writeChunkData env ?pk ?adv")
  from writeChunkData_effect [OF w]
  have e: "packQueue conn2 = Some (queue\<lparr>currentOffset := currentOffset queue + 524288\<rparr>)"
    "expectedIDs conn2 = expectedIDs conn"
    "\<forall>header. HeaderWrite env IDResourcePackChunkData = Inr header \<longrightarrow>
         result = None
         \<and> bufferedSend conn2 = bufferedSend conn @ [header @ Marshal env (PkResourcePackChunkData ?pk)]"
    by simp_all
  have n: "packChunkSize = 524288" by (simp add: packChunkSize_def)
  from a have u: "UUID current = uuid" and o: "currentOffset queue = scast chunkIndex * 524288"
    and nn: "0 \<le> sint (currentOffset queue)"
    by blast+
  have h: "handleResourcePackChunkRequest env (ResourcePackChunkRequest uuid chunkIndex) conn
     = (if 524288 \<le> length (rest (pack_content current)) then Done (result, conn2)
        else (case chunkRequestDeferred env conn2 of
                Done conn3 \<Rightarrow> Done (result, conn3)
              | Blocks \<Rightarrow> Blocks
              | Panics \<Rightarrow> Panics))"
    using handleResourcePackChunkRequest_reads [OF q cp u o nn, of env result conn2] w
    unfolding n rest_def by (rule mp [OF impI])
  have f: "524288 \<le> length (rest (pack_content current)) \<longrightarrow>
                 handleResourcePackChunkRequest env (ResourcePackChunkRequest uuid chunkIndex) conn
                   = Done (result, conn2)"
    using h by (simp del: handleResourcePackChunkRequest.simps)
  have d1: "length (rest (pack_content current)) < 524288
               \<and> AllDownloaded env (queue\<lparr>currentOffset := currentOffset queue + 524288\<rparr>) \<longrightarrow>
                 handleResourcePackChunkRequest env (ResourcePackChunkRequest uuid chunkIndex) conn
                   = Done (result, expect [IDResourcePackClientResponse] conn2)"
    using h e(1) by (simp add: chunkRequestDeferred_def del: handleResourcePackChunkRequest.simps)
  have d2: "length (rest (pack_content current)) < 524288
               \<and> \<not> AllDownloaded env (queue\<lparr>currentOffset := currentOffset queue + 524288\<rparr>) \<longrightarrow>
                 (\<forall>queue'.
                    NextPack env (queue\<lparr>currentOffset := currentOffset queue + 524288\<rparr>)
                      = (None, queue') \<longrightarrow>
                    handleResourcePackChunkRequest env (ResourcePackChunkRequest uuid chunkIndex) conn
                      = Done (result, conn2\<lparr>packQueue := Some queue'\<rparr>))
                 \<and> (\<forall>info queue' header.
                    NextPack env (queue\<lparr>currentOffset := currentOffset queue + 524288\<rparr>)
                      = (Some info, queue')
                    \<and> HeaderWrite env IDResourcePackDataInfo = Inr header \<longrightarrow>
                    handleResourcePackChunkRequest env (ResourcePackChunkRequest uuid chunkIndex) conn
                      = Done (result,
                          conn2\<lparr>packQueue := Some queue',
                                bufferedSend := bufferedSend conn2
                                  @ [header @ Marshal env (PkResourcePackDataInfo info)],
                                expectedIDs := [IDResourcePackChunkRequest]\<rparr>))
                 \<and> (\<forall>info queue' err.
                    NextPack env (queue\<lparr>currentOffset := currentOffset queue + 524288\<rparr>)
                      = (Some info, queue')
                    \<and> HeaderWrite env IDResourcePackDataInfo = Inl err \<longrightarrow>
                    handleResourcePackChunkRequest env (ResourcePackChunkRequest uuid chunkIndex) conn
                      = Done (result, conn2\<lparr>packQueue := Some queue'\<rparr>))"
  proof (intro impI conjI allI)
    fix queue'
    assume s: "length (rest (pack_content current)) < 524288
               \<and> \<not> AllDownloaded env (queue\<lparr>currentOffset := currentOffset queue + 524288\<rparr>)"
      and np: "NextPack env (queue\<lparr>currentOffset := currentOffset queue + 524288\<rparr>) = (None, queue')"
    from nextResourcePackDownload_effect [OF e(1), of env] np
    have "nextResourcePackDownload env conn2
              = Done (Some (Errorf ''no resource packs to download'' []),
                      conn2\<lparr>packQueue := Some queue'\<rparr>)"
      by simp
    with h s e(1)
    show "handleResourcePackChunkRequest env (ResourcePackChunkRequest uuid chunkIndex) conn
                      = Done (result, conn2\<lparr>packQueue := Some queue'\<rparr>)"
      by (simp add: chunkRequestDeferred_def del: handleResourcePackChunkRequest.simps)
  next
    fix info queue' header
    assume s: "length (rest (pack_content current)) < 524288
               \<and> \<not> AllDownloaded env (queue\<lparr>currentOffset := currentOffset queue + 524288\<rparr>)"
      and np: "NextPack env (queue\<lparr>currentOffset := currentOffset queue + 524288\<rparr>)
                 = (Some info, queue')
               \<and> HeaderWrite env IDResourcePackDataInfo = Inr header"
    from nextResourcePackDownload_effect [OF e(1), of env] np
    have "nextResourcePackDownload env conn2
              = Done (None,
                  conn2\<lparr>packQueue := Some queue',
                        bufferedSend := bufferedSend conn2
                          @ [header @ Marshal env (PkResourcePackDataInfo info)],
                        expectedIDs := [IDResourcePackChunkRequest]\<rparr>)"
      by simp
    with h s e(1)
    show "handleResourcePackChunkRequest env (ResourcePackChunkRequest uuid chunkIndex) conn
                      = Done (result,
                          conn2\<lparr>packQueue := Some queue',
                                bufferedSend := bufferedSend conn2
                                  @ [header @ Marshal env (PkResourcePackDataInfo info)],
                                expectedIDs := [IDResourcePackChunkRequest]\<rparr>)"
      by (simp add: chunkRequestDeferred_def del: handleResourcePackChunkRequest.simps)
  next
    fix info queue' err
    assume s: "length (rest (pack_content current)) < 524288
               \<and> \<not> AllDownloaded env (queue\<lparr>currentOffset := currentOffset queue + 524288\<rparr>)"
      and np: "NextPack env (queue\<lparr>currentOffset := currentOffset queue + 524288\<rparr>)
                 = (Some info, queue')
               \<and> HeaderWrite env IDResourcePackDataInfo = Inl err"
    from nextResourcePackDownload_effect [OF e(1), of env] np
    have "nextResourcePackDownload env conn2
              = Done (Some (Errorf ''error sending resource pack data info packet: %v''
                              [AErr (Errorf ''error writing packet header: %v'' [AErr err])]),
                      conn2\<lparr>packQueue := Some queue'\<rparr>)"
      by simp
    with h s e(1)
    show "handleResourcePackChunkRequest env (ResourcePackChunkRequest uuid chunkIndex) conn
                      = Done (result, conn2\<lparr>packQueue := Some queue'\<rparr>)"
      by (simp add: chunkRequestDeferred_def del: handleResourcePackChunkRequest.simps)
  qed
  from w e f d1 d2
  show "\<exists>result conn2.
           writeChunkData env ?pk ?adv = (result, conn2)
           \<and> packQueue conn2 = Some (queue\<lparr>currentOffset := currentOffset queue + 524288\<rparr>)
           \<and> expectedIDs conn2 = expectedIDs conn
           \<and> (\<forall>header. HeaderWrite env IDResourcePackChunkData = Inr header \<longrightarrow>
                 result = None
                 \<and> bufferedSend conn2 = bufferedSend conn @
                     [header @ Marshal env (PkResourcePackChunkData ?pk)])
           \<and> (524288 \<le> length (rest (pack_content current)) \<longrightarrow>
                 handleResourcePackChunkRequest env (ResourcePackChunkRequest uuid chunkIndex) conn
                   = Done (result, conn2))
           \<and> (length (rest (pack_content current)) < 524288
               \<and> AllDownloaded env (queue\<lparr>currentOffset := currentOffset queue + 524288\<rparr>) \<longrightarrow>
                 handleResourcePackChunkRequest env (ResourcePackChunkRequest uuid chunkIndex) conn
                   = Done (result, expect [IDResourcePackClientResponse] conn2))
           \<and> (length (rest (pack_content current)) < 524288
               \<and> \<not> AllDownloaded env (queue\<lparr>currentOffset := currentOffset queue + 524288\<rparr>) \<longrightarrow>
                 (\<forall>queue'.
                    NextPack env (queue\<lparr>currentOffset := currentOffset queue + 524288\<rparr>)
                      = (None, queue') \<longrightarrow>
                    handleResourcePackChunkRequest env (ResourcePackChunkRequest uuid chunkIndex) conn
                      = Done (result, conn2\<lparr>packQueue := Some queue'\<rparr>))
                 \<and> (\<forall>info queue' header.
                    NextPack env (queue\<lparr>currentOffset := currentOffset queue + 524288\<rparr>)
                      = (Some info, queue')
                    \<and> HeaderWrite env IDResourcePackDataInfo = Inr header \<longrightarrow>
                    handleResourcePackChunkRequest env (ResourcePackChunkRequest uuid chunkIndex) conn
                      = Done (result,
                          conn2\<lparr>packQueue := Some queue',
                                bufferedSend := bufferedSend conn2
                                  @ [header @ Marshal env (PkResourcePackDataInfo info)],
                                expectedIDs := [IDResourcePackChunkRequest]\<rparr>))
                 \<and> (\<forall>info queue' err.
                    NextPack env (queue\<lparr>currentOffset := currentOffset queue + 524288\<rparr>)
                      = (Some info, queue')
                    \<and> HeaderWrite env IDResourcePackDataInfo = Inl err \<longrightarrow>
                    handleResourcePackChunkRequest env (ResourcePackChunkRequest uuid chunkIndex) conn
                      = Done (result, conn2\<lparr>packQueue := Some queue'\<rparr>)))"
    by blast
next
  assume "UUID current = uuid \<and> currentOffset queue = scast chunkIndex * 524288
        \<and> sint (currentOffset queue) < 0"
  then show "\<exists>err. handleResourcePackChunkRequest env (ResourcePackChunkRequest uuid chunkIndex) conn
              = Done (Some err,
                  conn\<lparr>packQueue := Some (queue\<lparr>currentOffset := currentOffset queue + 524288\<rparr>)\<rparr>)"
    using handleResourcePackChunkRequest_negative [OF q cp] by blast
qed

theorem handleResourcePackChunkRequest_serves_witness:
  "packQueue serveConn = Some serveQueue \<and> currentPack serveQueue = Some examplePack
   \<and> UUID examplePack = ''U'' \<and> pack_content examplePack = [1, 2, 3]
   \<and> currentOffset serveQueue = scast (0 :: int32) * 524288
   \<and> 0 \<le> sint (currentOffset serveQueue)
   \<and> AllDownloaded exampleEnv (serveQueue\<lparr>currentOffset := currentOffset serveQueue + 524288\<rparr>)
   \<and> handleResourcePackChunkRequest exampleEnv (ResourcePackChunkRequest ''U'' 0) serveConn
       = Done (None,
           serveConn\<lparr>bufferedSend := [[1, 2, 3]], expectedIDs := [IDResourcePackClientResponse],
                     packQueue := Some (serveQueue\<lparr>currentOffset := 524288\<rparr>)\<rparr>)
   \<and> currentOffset serveQueue \<noteq> scast (1 :: int32) * 524288
   \<and> (\<exists>err. handleResourcePackChunkRequest exampleEnv (ResourcePackChunkRequest ''U'' 1) serveConn
              = Done (Some err, serveConn))
   \<and> packQueue moreConn = Some moreQueue \<and> currentPack moreQueue = Some examplePack
   \<and> currentOffset moreQueue = scast (0 :: int32) * 524288
   \<and> \<not> AllDownloaded serveEnv (moreQueue\<lparr>currentOffset := currentOffset moreQueue + 524288\<rparr>)
   \<and> NextPack serveEnv (moreQueue\<lparr>currentOffset := currentOffset moreQueue + 524288\<rparr>)
       = (Some (ResourcePackDataInfo ''V'' 524288 1 2),
          moreQueue\<lparr>packsToDownload := [], currentPack := Some secondPack, currentOffset := 0\<rparr>)
   \<and> HeaderWrite serveEnv IDResourcePackDataInfo = Inr []
   \<and> Marshal serveEnv (PkResourcePackDataInfo (ResourcePackDataInfo ''V'' 524288 1 2)) = [82]
   \<and> handleResourcePackChunkRequest serveEnv (ResourcePackChunkRequest ''U'' 0) moreConn
       = Done (None,
           moreConn\<lparr>bufferedSend := [[1, 2, 3], [82]],
                    expectedIDs := [IDResourcePackChunkRequest],
                    packQueue := Some (moreQueue\<lparr>packsToDownload := [],
                                          currentPack := Some secondPack, currentOffset := 0\<rparr>)\<rparr>)"
proof -
  have q: "packQueue serveConn = Some serveQueue"
    and cp: "currentPack serveQueue = Some examplePack"
    by (simp_all add: serveConn_def serveQueue_def)
  have u: "UUID examplePack = ''U''" and pc: "pack_content examplePack = [1, 2, 3]"
    by (simp_all add: UUID_def examplePack_def)
  have o: "currentOffset serveQueue = scast (0 :: int32) * 524288"
    and nn: "0 \<le> sint (currentOffset serveQueue)"
    and o1: "currentOffset serveQueue \<noteq> scast (1 :: int32) * 524288"
    by (simp_all add: serveQueue_def)
  have ad: "AllDownloaded exampleEnv (serveQueue\<lparr>currentOffset := currentOffset serveQueue + 524288\<rparr>)"
    by (simp add: exampleEnv_def serveQueue_def)
  have sh: "length (drop (nat (sint (currentOffset serveQueue))) (pack_content examplePack)) < 524288"
    by (simp add: pc)
  let ?c2 = "serveConn\<lparr>bufferedSend := [[1, 2, 3]],
                     packQueue := Some (serveQueue\<lparr>currentOffset := 524288\<rparr>)\<rparr>"
  have w: "writeChunkData exampleEnv
             (ResourcePackChunkData ''U'' 0 (currentOffset serveQueue)
                (take 524288 (drop (nat (sint (currentOffset serveQueue))) (pack_content examplePack))))
             (serveConn\<lparr>packQueue := Some (serveQueue\<lparr>currentOffset := currentOffset serveQueue + 524288\<rparr>)\<rparr>)
           = (None, ?c2)"
    by (simp add: writeChunkData_def WritePacket_def Write_def exampleEnv_def pc
          serveConn_def serveQueue_def serverConn_def newConn_def)
  note serves = handleResourcePackChunkRequest_serves [OF q cp, of _ _ exampleEnv]
  from serves [of "''U''" 0, THEN conjunct2, THEN conjunct1] u o nn w sh ad
  have ok: "handleResourcePackChunkRequest exampleEnv (ResourcePackChunkRequest ''U'' 0) serveConn
       = Done (None, expect [IDResourcePackClientResponse] ?c2)"
    by (auto simp del: handleResourcePackChunkRequest.simps)
  from serves [of "''U''" 1, THEN conjunct1] o1
  have bad: "\<exists>err. handleResourcePackChunkRequest exampleEnv (ResourcePackChunkRequest ''U'' 1) serveConn
              = Done (Some err, serveConn)"
    by blast
  have ex: "expect [IDResourcePackClientResponse] ?c2
      = serveConn\<lparr>bufferedSend := [[1, 2, 3]], expectedIDs := [IDResourcePackClientResponse],
                     packQueue := Some (serveQueue\<lparr>currentOffset := 524288\<rparr>)\<rparr>"
    by (simp add: expect_def)
  have qm: "packQueue moreConn = Some moreQueue"
    and cpm: "currentPack moreQueue = Some examplePack"
    by (simp_all add: moreConn_def moreQueue_def serveConn_def serveQueue_def)
  have om: "currentOffset moreQueue = scast (0 :: int32) * 524288"
    and nnm: "0 \<le> sint (currentOffset moreQueue)"
    by (simp_all add: moreQueue_def serveQueue_def)
  have nad: "\<not> AllDownloaded serveEnv (moreQueue\<lparr>currentOffset := currentOffset moreQueue + 524288\<rparr>)"
    by (simp add: serveEnv_def exampleEnv_def moreQueue_def serveQueue_def)
  have shm: "length (drop (nat (sint (currentOffset moreQueue))) (pack_content examplePack)) < 524288"
    by (simp add: pc)
  have np: "NextPack serveEnv (moreQueue\<lparr>currentOffset := currentOffset moreQueue + 524288\<rparr>)
       = (Some (ResourcePackDataInfo ''V'' 524288 1 2),
          moreQueue\<lparr>packsToDownload := [], currentPack := Some secondPack, currentOffset := 0\<rparr>)"
    by (simp add: serveEnv_def exampleEnv_def exampleNextPack_def moreQueue_def serveQueue_def
          secondPack_def Len_def packChunkSize_def)
  have hd: "HeaderWrite serveEnv IDResourcePackDataInfo = Inr []"
    and ma: "Marshal serveEnv (PkResourcePackDataInfo (ResourcePackDataInfo ''V'' 524288 1 2)) = [82]"
    by (simp_all add: serveEnv_def exampleEnv_def)
  let ?m2 = "moreConn\<lparr>bufferedSend := [[1, 2, 3]],
                     packQueue := Some (moreQueue\<lparr>currentOffset := 524288\<rparr>)\<rparr>"
  have wm: "writeChunkData serveEnv
             (ResourcePackChunkData ''U'' 0 (currentOffset moreQueue)
                (take 524288 (drop (nat (sint (currentOffset moreQueue))) (pack_content examplePack))))
             (moreConn\<lparr>packQueue := Some (moreQueue\<lparr>currentOffset := currentOffset moreQueue + 524288\<rparr>)\<rparr>)
           = (None, ?m2)"
    by (simp add: writeChunkData_def WritePacket_def Write_def serveEnv_def exampleEnv_def pc
          moreConn_def moreQueue_def serveConn_def serveQueue_def serverConn_def newConn_def)
  note more = handleResourcePackChunkRequest_serves [OF qm cpm, of "''U''" 0 serveEnv]
  from more [THEN conjunct2, THEN conjunct1] u om nnm wm shm nad np hd ma
  have next_pack: "handleResourcePackChunkRequest serveEnv (ResourcePackChunkRequest ''U'' 0) moreConn
       = Done (None,
           ?m2\<lparr>packQueue := Some (moreQueue\<lparr>packsToDownload := [],
                                          currentPack := Some secondPack, currentOffset := 0\<rparr>),
                bufferedSend := bufferedSend ?m2 @ [[] @ [82]],
                expectedIDs := [IDResourcePackChunkRequest]\<rparr>)"
    by (auto simp del: handleResourcePackChunkRequest.simps)
  have exm: "?m2\<lparr>packQueue := Some (moreQueue\<lparr>packsToDownload := [],
                                          currentPack := Some secondPack, currentOffset := 0\<rparr>),
                bufferedSend := bufferedSend ?m2 @ [[] @ [82]],
                expectedIDs := [IDResourcePackChunkRequest]\<rparr>
      = moreConn\<lparr>bufferedSend := [[1, 2, 3], [82]],
                    expectedIDs := [IDResourcePackChunkRequest],
                    packQueue := Some (moreQueue\<lparr>packsToDownload := [],
                                          currentPack := Some secondPack, currentOffset := 0\<rparr>)\<rparr>"
    by simp
  have first: "packQueue serveConn = Some serveQueue \<and> currentPack serveQueue = Some examplePack
   \<and> UUID examplePack = ''U'' \<and> pack_content examplePack = [1, 2, 3]
   \<and> currentOffset serveQueue = scast (0 :: int32) * 524288
   \<and> 0 \<le> sint (currentOffset serveQueue)
   \<and> AllDownloaded exampleEnv (serveQueue\<lparr>currentOffset := currentOffset serveQueue + 524288\<rparr>)
   \<and> handleResourcePackChunkRequest exampleEnv (ResourcePackChunkRequest ''U'' 0) serveConn
       = Done (None,
           serveConn\<lparr>bufferedSend := [[1, 2, 3]], expectedIDs := [IDResourcePackClientResponse],
                     packQueue := Some (serveQueue\<lparr>currentOffset := 524288\<rparr>)\<rparr>)
   \<and> currentOffset serveQueue \<noteq> scast (1 :: int32) * 524288
   \<and> (\<exists>err. handleResourcePackChunkRequest exampleEnv (ResourcePackChunkRequest ''U'' 1) serveConn
              = Done (Some err, serveConn))"
    using q cp u pc o nn ad ok bad o1 unfolding ex by blast
  from next_pack have next_pack':
    "handleResourcePackChunkRequest serveEnv (ResourcePackChunkRequest ''U'' 0) moreConn
       = Done (None,
           moreConn\<lparr>bufferedSend := [[1, 2, 3], [82]],
                    expectedIDs := [IDResourcePackChunkRequest],
                    packQueue := Some (moreQueue\<lparr>packsToDownload := [],
                                          currentPack := Some secondPack, currentOffset := 0\<rparr>)\<rparr>)"
    unfolding exm .
  from first qm cpm om nad np hd ma next_pack' show ?thesis by blast
qed

subsection \<open>Two runs of the handshake\<close>

text \<open>
  A login without resource packs, on the server: the \<^verbatim>\<open>Login\<close>, the
  \<^verbatim>\<open>ClientToServerHandshake\<close>, the response \<^verbatim>\<open>AllPacksDownloaded\<close> and the response
  \<^verbatim>\<open>Completed\<close> arrive in turn. The handshake packet is flushed before encryption is
  enabled, the three packets after it wait in the flush buffer, and the connection ends
  logged in.
\<close>

lemma server_login_scenario:
  "length (run exampleEnv loginOps serverConn) = 5
   \<and> last (run exampleEnv loginOps serverConn)
       = serverConn\<lparr>expectedIDs := [IDResourcePackClientResponse],
           identityData := IdentityData ''e9'' ''25'' ''Alice'', clientData := ClientData ''device'',
           sent := [[[]]], bufferedSend := [[], [], []],
           encoderKey := Some 15, decoderKey := Some 15, loggedIn := True\<rparr>"
  by (simp add: loginOps_def handleIncoming_def enqueue_def ReadPacket_def selectCase_def ready_def
        serverConn_def newConn_def exampleEnv_def exampleUnmarshal_def expect_def
        handleClientToServerHandshake_def enableEncryption_def WritePacket_def Write_def Flush_def
        Let_def clientKey_def serverKey_def Bytes_3 Bytes_15)

text \<open>
  The download of a pack of 5 bytes in chunks of 4, on the client: the second and last
  chunk completes the pack, which is parsed and added to the packs of the connection, and
  the client answers \<^verbatim>\<open>AllPacksDownloaded\<close> and expects the stack. The stack that names
  the pack then logs the client in.
\<close>

lemma client_download_scenario:
  "handleResourcePackChunkData exampleEnv (ResourcePackChunkData ''U'' 1 4 [5])
     (chunkConn\<lparr>bufferedSend := [[], [], []],
        packQueue := Some (chunkQueue\<lparr>awaitingPacks :=
          [''U'' \<mapsto> chunkPack\<lparr>expectedIndex := 1, buf := [1, 2, 3, 4], newFrag := Some (1, 2)\<rparr>]\<rparr>)\<rparr>)
     = Done (None, downloadedConn)
   \<and> handleResourcePackStack exampleEnv
         (ResourcePackStack False [] [ResourcePack ''U'' ''1.0'' 0 False])
         (downloadedConn\<lparr>connectedRecv := 1\<rparr>)
       = Done (None, downloadedConn\<lparr>connectedRecv := 0, connectedSent := 1, loggedIn := True,
                                     bufferedSend := [[], [], [], [], []]\<rparr>)"
  by (simp add: downloadedConn_def chunkConn_def chunkQueue_def chunkPack_def clientConn_def
        newConn_def expect_def WritePacket_def Write_def exampleEnv_def Let_def fetcherLoop_def
        fetcherDone_def setAwaiting_def hasPack_def UUID_def Version_def HasBehaviours_def)

end
